theory Spec2Isabelle
  imports Complex_Main "HOL-Library.Word"
begin

section \<open>Primitive types of the Go program\<close>

text \<open>
  Go's \<open>int\<close> is taken at its 64-bit width: addition and subtraction wrap around and
  comparisons read the two's complement value (\<open>sint\<close>). A \<open>time.Time\<close> is an abstract
  instant; every call of \<open>time.Now()\<close> is an argument of the function that makes it.
\<close>

type_synonym go_int = "64 word"
type_synonym timestamp = nat

text \<open>
  \<open>float64\<close> is kept abstract: the operations the program uses on prices are handed to
  every function that computes with them, so that nothing is assumed about rounding,
  associativity or NaN. \<open>fle F x (fzero F)\<close> is the Go test \<open>x <= 0\<close>.
\<close>

record 'f float_ops =
  fzero :: 'f
  fadd :: "'f \<Rightarrow> 'f \<Rightarrow> 'f"
  fmul :: "'f \<Rightarrow> 'f \<Rightarrow> 'f"
  fofint :: "go_int \<Rightarrow> 'f"
  fle :: "'f \<Rightarrow> 'f \<Rightarrow> bool"

text \<open>An exact interpretation of the price arithmetic, used to run the model on inputs.\<close>

definition exact_ops :: "real float_ops" where
  "exact_ops = \<lparr>fzero = 0, fadd = (+), fmul = (*), fofint = (\<lambda>n. real_of_int (sint n)),
     fle = (\<le>)\<rparr>"

section \<open>Domain errors (domain/model/domain\_error.go)\<close>

record DomainError =
  Code :: string
  Message :: string
  HTTPStatus :: nat

definition NewDomainError :: "string \<Rightarrow> string \<Rightarrow> nat \<Rightarrow> DomainError" where
  "NewDomainError code message httpStatus =
     \<lparr>Code = code, Message = message, HTTPStatus = httpStatus\<rparr>"

definition StatusBadRequest :: nat where "StatusBadRequest = 400"
definition StatusNotFound :: nat where "StatusNotFound = 404"
definition StatusConflict :: nat where "StatusConflict = 409"

definition CodeValidationError :: string where "CodeValidationError = ''VALIDATION_ERROR''"
definition CodeNotFound :: string where "CodeNotFound = ''NOT_FOUND''"
definition CodeConflict :: string where "CodeConflict = ''CONFLICT''"
definition CodeInvalidState :: string where "CodeInvalidState = ''INVALID_STATE''"
definition CodeInsufficientStock :: string where "CodeInsufficientStock = ''INSUFFICIENT_STOCK''"

definition ErrUserNotFound :: DomainError where
  "ErrUserNotFound = NewDomainError ''USER_NOT_FOUND'' ''user not found'' StatusNotFound"
definition ErrUserEmailRequired :: DomainError where
  "ErrUserEmailRequired =
     NewDomainError CodeValidationError ''user email is required'' StatusBadRequest"
definition ErrUserEmailInvalid :: DomainError where
  "ErrUserEmailInvalid =
     NewDomainError CodeValidationError ''user email is invalid'' StatusBadRequest"
definition ErrUserNameRequired :: DomainError where
  "ErrUserNameRequired =
     NewDomainError CodeValidationError ''user name is required'' StatusBadRequest"
definition ErrUserPasswordRequired :: DomainError where
  "ErrUserPasswordRequired =
     NewDomainError CodeValidationError ''user password is required'' StatusBadRequest"
definition ErrUserEmailTaken :: DomainError where
  "ErrUserEmailTaken =
     NewDomainError ''EMAIL_TAKEN'' ''user email is already taken'' StatusConflict"

definition ErrProductNotFound :: DomainError where
  "ErrProductNotFound =
     NewDomainError ''PRODUCT_NOT_FOUND'' ''product not found'' StatusNotFound"
definition ErrProductNameRequired :: DomainError where
  "ErrProductNameRequired =
     NewDomainError CodeValidationError ''product name is required'' StatusBadRequest"
definition ErrProductPriceInvalid :: DomainError where
  "ErrProductPriceInvalid =
     NewDomainError CodeValidationError ''product price must be greater than zero''
       StatusBadRequest"
definition ErrProductStockNegative :: DomainError where
  "ErrProductStockNegative =
     NewDomainError CodeValidationError ''product stock cannot be negative'' StatusBadRequest"
definition ErrProductInsufficientStock :: DomainError where
  "ErrProductInsufficientStock =
     NewDomainError CodeInsufficientStock ''insufficient product stock'' StatusConflict"

definition ErrOrderNotFound :: DomainError where
  "ErrOrderNotFound = NewDomainError ''ORDER_NOT_FOUND'' ''order not found'' StatusNotFound"
definition ErrOrderUserRequired :: DomainError where
  "ErrOrderUserRequired =
     NewDomainError CodeValidationError ''order user is required'' StatusBadRequest"
definition ErrOrderItemsRequired :: DomainError where
  "ErrOrderItemsRequired =
     NewDomainError CodeValidationError ''order must have at least one item'' StatusBadRequest"
definition ErrOrderInvalidStatus :: DomainError where
  "ErrOrderInvalidStatus =
     NewDomainError CodeInvalidState ''invalid order status transition'' StatusBadRequest"
definition ErrOrderAlreadyCancelled :: DomainError where
  "ErrOrderAlreadyCancelled =
     NewDomainError CodeInvalidState ''order is already canceled'' StatusConflict"

text \<open>
  A Go \<open>error\<close> value: one of the domain errors above, or any other error (an
  \<open>errors.New\<close> of the application layer, a failure of a store), kept by its message.
\<close>

datatype error = DomainErr DomainError | OtherErr string

section \<open>The Order aggregate\<close>

type_synonym OrderStatus = string

definition OrderStatusPending :: OrderStatus where "OrderStatusPending = ''pending''"
definition OrderStatusConfirmed :: OrderStatus where "OrderStatusConfirmed = ''confirmed''"
definition OrderStatusShipped :: OrderStatus where "OrderStatusShipped = ''shipped''"
definition OrderStatusDelivered :: OrderStatus where "OrderStatusDelivered = ''delivered''"
definition OrderStatusCancelled :: OrderStatus where "OrderStatusCancelled = ''canceled''"

text \<open>The five declared status constants.\<close>

definition orderStatuses :: "OrderStatus list" where
  "orderStatuses = [OrderStatusPending, OrderStatusConfirmed, OrderStatusShipped,
     OrderStatusDelivered, OrderStatusCancelled]"

text \<open>
  The events an order records: \<open>OrderCreatedEvent\<close> (UserID, ItemCount, TotalValue),
  \<open>OrderStatusChangedEvent\<close> (OrderID, OldStatus, NewStatus) and
  \<open>OrderCancelledEvent\<close> (OrderID, OldStatus).
\<close>

datatype 'f OrderEvent =
    OrderCreatedEvent string go_int 'f
  | OrderStatusChangedEvent string string string
  | OrderCancelledEvent string string

fun OrderEvent_EventName :: "'f OrderEvent \<Rightarrow> string" where
  "OrderEvent_EventName (OrderCreatedEvent _ _ _) = ''order.created''"
| "OrderEvent_EventName (OrderStatusChangedEvent _ _ _) = ''order.status_changed''"
| "OrderEvent_EventName (OrderCancelledEvent _ _) = ''order.cancelled''"

record 'f OrderItem =
  item_ID :: string
  item_OrderID :: string
  item_ProductID :: string
  item_Quantity :: go_int
  item_Price :: 'f
  item_CreatedAt :: timestamp

record 'f Order =
  order_ID :: string
  order_UserID :: string
  order_Items :: "'f OrderItem list"
  order_Total :: 'f
  order_Status :: OrderStatus
  order_CreatedAt :: timestamp
  order_UpdatedAt :: timestamp
  order_DeletedAt :: "timestamp option"
  order_events :: "'f OrderEvent list"

definition Order_recordEvent :: "'f OrderEvent \<Rightarrow> 'f Order \<Rightarrow> 'f Order" where
  "Order_recordEvent event ord = ord\<lparr>order_events := order_events ord @ [event]\<rparr>"

text \<open>\<open>Events\<close> returns the pending events and clears them on the order.\<close>

definition Order_Events :: "'f Order \<Rightarrow> 'f OrderEvent list \<times> 'f Order" where
  "Order_Events ord = (order_events ord, ord\<lparr>order_events := []\<rparr>)"

definition Order_Validate :: "'f Order \<Rightarrow> error option" where
  "Order_Validate ord =
     (if order_UserID ord = [] then Some (DomainErr ErrOrderUserRequired)
      else if length (order_Items ord) = 0 then Some (DomainErr ErrOrderItemsRequired)
      else None)"

text \<open>The loop of \<open>calculateTotal\<close>: \<open>total += item.Price * float64(item.Quantity)\<close>.\<close>

fun calculateTotal_loop :: "'f float_ops \<Rightarrow> 'f \<Rightarrow> 'f OrderItem list \<Rightarrow> 'f" where
  "calculateTotal_loop F tot [] = tot"
| "calculateTotal_loop F tot (item # items) =
     calculateTotal_loop F
       (fadd F tot (fmul F (item_Price item) (fofint F (item_Quantity item)))) items"

definition Order_calculateTotal :: "'f float_ops \<Rightarrow> 'f Order \<Rightarrow> 'f Order" where
  "Order_calculateTotal F ord = ord\<lparr>order_Total := calculateTotal_loop F (fzero F) (order_Items ord)\<rparr>"

text \<open>
  The loop of \<open>NewOrder\<close> that stamps the items. \<open>uuid k\<close> is the result of the
  \<open>k\<close>-th call of \<open>uuid.New().String()\<close> and \<open>clock k\<close> of the \<open>k\<close>-th call of
  \<open>time.Now()\<close> inside \<open>NewOrder\<close>; the item at index \<open>i\<close> makes calls \<open>i + 1\<close> and
  \<open>i + 2\<close>.
\<close>

fun assignItemIDs ::
  "(nat \<Rightarrow> string) \<Rightarrow> (nat \<Rightarrow> timestamp) \<Rightarrow> string \<Rightarrow> nat \<Rightarrow> 'f OrderItem list
     \<Rightarrow> 'f OrderItem list" where
  "assignItemIDs uuid clock orderID i [] = []"
| "assignItemIDs uuid clock orderID i (item # items) =
     item\<lparr>item_ID := uuid (i + 1), item_OrderID := orderID, item_CreatedAt := clock (i + 2)\<rparr>
       # assignItemIDs uuid clock orderID (i + 1) items"

definition NewOrder ::
  "'f float_ops \<Rightarrow> (nat \<Rightarrow> string) \<Rightarrow> (nat \<Rightarrow> timestamp) \<Rightarrow> string \<Rightarrow> 'f OrderItem list
     \<Rightarrow> error + 'f Order" where
  "NewOrder F uuid clock userID items =
     (let orderID = uuid 0;
          order = \<lparr>order_ID = orderID, order_UserID = userID, order_Items = [],
                   order_Total = fzero F, order_Status = OrderStatusPending,
                   order_CreatedAt = clock 0, order_UpdatedAt = clock 1,
                   order_DeletedAt = None, order_events = []\<rparr>;
          order = order\<lparr>order_Items := assignItemIDs uuid clock orderID 0 items\<rparr>
      in case Order_Validate order of
           Some err \<Rightarrow> Inl err
         | None \<Rightarrow>
             (let order = Order_calculateTotal F order
              in Inr (Order_recordEvent
                   (OrderCreatedEvent userID (word_of_nat (length items)) (order_Total order))
                   order)))"

text \<open>
  The transition methods have pointer receivers: they return the error (if any) together
  with the order as the call leaves it.
\<close>

definition Order_Confirm :: "timestamp \<Rightarrow> 'f Order \<Rightarrow> error option \<times> 'f Order" where
  "Order_Confirm now ord =
     (if order_Status ord \<noteq> OrderStatusPending then (Some (DomainErr ErrOrderInvalidStatus), ord)
      else (None, Order_recordEvent
              (OrderStatusChangedEvent (order_ID ord) OrderStatusPending OrderStatusConfirmed)
              (ord\<lparr>order_Status := OrderStatusConfirmed, order_UpdatedAt := now\<rparr>)))"

definition Order_Ship :: "timestamp \<Rightarrow> 'f Order \<Rightarrow> error option \<times> 'f Order" where
  "Order_Ship now ord =
     (if order_Status ord \<noteq> OrderStatusConfirmed then (Some (DomainErr ErrOrderInvalidStatus), ord)
      else (None, Order_recordEvent
              (OrderStatusChangedEvent (order_ID ord) OrderStatusConfirmed OrderStatusShipped)
              (ord\<lparr>order_Status := OrderStatusShipped, order_UpdatedAt := now\<rparr>)))"

definition Order_Deliver :: "timestamp \<Rightarrow> 'f Order \<Rightarrow> error option \<times> 'f Order" where
  "Order_Deliver now ord =
     (if order_Status ord \<noteq> OrderStatusShipped then (Some (DomainErr ErrOrderInvalidStatus), ord)
      else (None, Order_recordEvent
              (OrderStatusChangedEvent (order_ID ord) OrderStatusShipped OrderStatusDelivered)
              (ord\<lparr>order_Status := OrderStatusDelivered, order_UpdatedAt := now\<rparr>)))"

definition Order_Cancel :: "timestamp \<Rightarrow> 'f Order \<Rightarrow> error option \<times> 'f Order" where
  "Order_Cancel now ord =
     (if order_Status ord = OrderStatusCancelled
        then (Some (DomainErr ErrOrderAlreadyCancelled), ord)
      else if order_Status ord = OrderStatusDelivered
        then (Some (DomainErr ErrOrderInvalidStatus), ord)
      else (let oldStatus = order_Status ord
            in (None, Order_recordEvent (OrderCancelledEvent (order_ID ord) oldStatus)
                  (ord\<lparr>order_Status := OrderStatusCancelled, order_UpdatedAt := now\<rparr>))))"

section \<open>The Product aggregate (domain/model/product.go)\<close>

text \<open>
  The events a product records: \<open>ProductCreatedEvent\<close> (Name, Price, Stock),
  \<open>ProductUpdatedEvent\<close> (ID, Name, Price), \<open>ProductDeletedEvent\<close> (ID) and
  \<open>StockUpdatedEvent\<close> (ProductID, OldStock, NewStock, Change).
\<close>

datatype 'f ProductEvent =
    ProductCreatedEvent string 'f go_int
  | ProductUpdatedEvent string string 'f
  | ProductDeletedEvent string
  | StockUpdatedEvent string go_int go_int go_int

fun ProductEvent_EventName :: "'f ProductEvent \<Rightarrow> string" where
  "ProductEvent_EventName (ProductCreatedEvent _ _ _) = ''product.created''"
| "ProductEvent_EventName (ProductUpdatedEvent _ _ _) = ''product.updated''"
| "ProductEvent_EventName (ProductDeletedEvent _) = ''product.deleted''"
| "ProductEvent_EventName (StockUpdatedEvent _ _ _ _) = ''product.stock_updated''"

record 'f Product =
  product_ID :: string
  product_Name :: string
  product_Description :: string
  product_Price :: 'f
  product_Stock :: go_int
  product_CreatedAt :: timestamp
  product_UpdatedAt :: timestamp
  product_DeletedAt :: "timestamp option"
  product_events :: "'f ProductEvent list"

definition Product_recordEvent :: "'f ProductEvent \<Rightarrow> 'f Product \<Rightarrow> 'f Product" where
  "Product_recordEvent event p = p\<lparr>product_events := product_events p @ [event]\<rparr>"

definition Product_Validate :: "'f float_ops \<Rightarrow> 'f Product \<Rightarrow> error option" where
  "Product_Validate F p =
     (if product_Name p = [] then Some (DomainErr ErrProductNameRequired)
      else if fle F (product_Price p) (fzero F) then Some (DomainErr ErrProductPriceInvalid)
      else if sint (product_Stock p) < 0 then Some (DomainErr ErrProductStockNegative)
      else None)"

text \<open>\<open>clock 0\<close> and \<open>clock 1\<close> are the two calls of \<open>time.Now()\<close> in \<open>NewProduct\<close>.\<close>

definition NewProduct ::
  "'f float_ops \<Rightarrow> (nat \<Rightarrow> timestamp) \<Rightarrow> string \<Rightarrow> string \<Rightarrow> 'f \<Rightarrow> go_int
     \<Rightarrow> error + 'f Product" where
  "NewProduct F clock name description price stock =
     (let product = \<lparr>product_ID = [], product_Name = name, product_Description = description,
                       product_Price = price, product_Stock = stock,
                       product_CreatedAt = clock 0, product_UpdatedAt = clock 1,
                       product_DeletedAt = None, product_events = []\<rparr>
      in case Product_Validate F product of
           Some err \<Rightarrow> Inl err
         | None \<Rightarrow> Inr (Product_recordEvent (ProductCreatedEvent name price stock) product))"

definition Product_Update ::
  "'f float_ops \<Rightarrow> timestamp \<Rightarrow> string \<Rightarrow> string \<Rightarrow> 'f \<Rightarrow> 'f Product
     \<Rightarrow> error option \<times> 'f Product" where
  "Product_Update F now name description price p =
     (if name = [] then (Some (DomainErr ErrProductNameRequired), p)
      else if fle F price (fzero F) then (Some (DomainErr ErrProductPriceInvalid), p)
      else (None, Product_recordEvent (ProductUpdatedEvent (product_ID p) name price)
              (p\<lparr>product_Name := name, product_Description := description,
                 product_Price := price, product_UpdatedAt := now\<rparr>)))"

text \<open>
  \<open>UpdateStock\<close> stores the new stock first and then builds the event from the stored
  value: \<open>OldStock: p.Stock - quantity\<close>.
\<close>

definition Product_UpdateStock ::
  "timestamp \<Rightarrow> go_int \<Rightarrow> 'f Product \<Rightarrow> error option \<times> 'f Product" where
  "Product_UpdateStock now quantity p =
     (let newStock = product_Stock p + quantity
      in if sint newStock < 0 then (Some (DomainErr ErrProductStockNegative), p)
         else (let p1 = p\<lparr>product_Stock := newStock, product_UpdatedAt := now\<rparr>
               in (None, Product_recordEvent
                     (StockUpdatedEvent (product_ID p1) (product_Stock p1 - quantity) newStock
                        quantity) p1)))"

definition Product_ReserveStock ::
  "timestamp \<Rightarrow> go_int \<Rightarrow> 'f Product \<Rightarrow> error option \<times> 'f Product" where
  "Product_ReserveStock now quantity p =
     (if sint (product_Stock p) < sint quantity
        then (Some (DomainErr ErrProductInsufficientStock), p)
      else (None, p\<lparr>product_Stock := product_Stock p - quantity, product_UpdatedAt := now\<rparr>))"

definition Product_MarkDeleted :: "timestamp \<Rightarrow> 'f Product \<Rightarrow> 'f Product" where
  "Product_MarkDeleted now p =
     Product_recordEvent (ProductDeletedEvent (product_ID p)) (p\<lparr>product_DeletedAt := Some now\<rparr>)"

section \<open>The User aggregate (domain/model/user.go)\<close>

subsection \<open>Regular expressions\<close>

text \<open>
  \<open>User.Validate\<close> matches the email against an anchored regular expression. Regular
  expressions over bytes are matched by derivatives: \<open>deriv c r\<close> accepts the words
  \<open>w\<close> such that \<open>r\<close> accepts \<open>c # w\<close>, and \<open>r\<close> accepts the empty word iff
  \<open>nullable r\<close>. A character class is the list of its inclusive ranges.
\<close>

datatype rexp =
    Null
  | Eps
  | Class "(char \<times> char) list"
  | Alt rexp rexp
  | Seq rexp rexp
  | Star rexp

definition inClass :: "(char \<times> char) list \<Rightarrow> char \<Rightarrow> bool" where
  "inClass ranges c =
     list_ex (\<lambda>(lo, hi). (of_char lo :: nat) \<le> of_char c \<and> (of_char c :: nat) \<le> of_char hi) ranges"

fun nullable :: "rexp \<Rightarrow> bool" where
  "nullable Null = False"
| "nullable Eps = True"
| "nullable (Class _) = False"
| "nullable (Alt r s) = (nullable r \<or> nullable s)"
| "nullable (Seq r s) = (nullable r \<and> nullable s)"
| "nullable (Star _) = True"

fun deriv :: "char \<Rightarrow> rexp \<Rightarrow> rexp" where
  "deriv c Null = Null"
| "deriv c Eps = Null"
| "deriv c (Class ranges) = (if inClass ranges c then Eps else Null)"
| "deriv c (Alt r s) = Alt (deriv c r) (deriv c s)"
| "deriv c (Seq r s) =
     (if nullable r then Alt (Seq (deriv c r) s) (deriv c s) else Seq (deriv c r) s)"
| "deriv c (Star r) = Seq (deriv c r) (Star r)"

fun MatchString :: "rexp \<Rightarrow> string \<Rightarrow> bool" where
  "MatchString r [] = nullable r"
| "MatchString r (c # cs) = MatchString (deriv c r) cs"

definition Lit :: "char \<Rightarrow> rexp" where
  "Lit c = Class [(c, c)]"

definition Plus :: "rexp \<Rightarrow> rexp" where
  "Plus r = Seq r (Star r)"

text \<open>
  \<^verbatim>\<open>^[a-zA-Z0-9._%+-]+@[a-zA-Z0-9.-]+\.[a-zA-Z]{2,}$\<close>
\<close>

definition emailRegex :: rexp where
  "emailRegex =
     (let letter = [(CHR ''a'', CHR ''z''), (CHR ''A'', CHR ''Z'')];
          digit = [(CHR ''0'', CHR ''9'')];
          localPart = Class (letter @ digit @ [(CHR ''.'', CHR ''.''), (CHR ''_'', CHR ''_''),
                        (CHR ''%'', CHR ''%''), (CHR ''+'', CHR ''+''), (CHR ''-'', CHR ''-'')]);
          domainPart = Class (letter @ digit @ [(CHR ''.'', CHR ''.''), (CHR ''-'', CHR ''-'')])
      in Seq (Plus localPart)
           (Seq (Lit (CHR ''@''))
              (Seq (Plus domainPart)
                 (Seq (Lit (CHR ''.''))
                    (Seq (Class letter) (Seq (Class letter) (Star (Class letter))))))))"

subsection \<open>The aggregate\<close>

text \<open>
  The events a user records: \<open>UserCreatedEvent\<close> (Email, Name), \<open>UserUpdatedEvent\<close>
  (ID, Name) and \<open>UserDeletedEvent\<close> (ID).
\<close>

datatype UserEvent =
    UserCreatedEvent string string
  | UserUpdatedEvent string string
  | UserDeletedEvent string

fun UserEvent_EventName :: "UserEvent \<Rightarrow> string" where
  "UserEvent_EventName (UserCreatedEvent _ _) = ''user.created''"
| "UserEvent_EventName (UserUpdatedEvent _ _) = ''user.updated''"
| "UserEvent_EventName (UserDeletedEvent _) = ''user.deleted''"

record User =
  user_ID :: string
  user_Email :: string
  user_Name :: string
  user_Password :: string
  user_CreatedAt :: timestamp
  user_UpdatedAt :: timestamp
  user_DeletedAt :: "timestamp option"
  user_events :: "UserEvent list"

definition User_recordEvent :: "UserEvent \<Rightarrow> User \<Rightarrow> User" where
  "User_recordEvent event u = u\<lparr>user_events := user_events u @ [event]\<rparr>"

definition User_Events :: "User \<Rightarrow> UserEvent list \<times> User" where
  "User_Events u = (user_events u, u\<lparr>user_events := []\<rparr>)"

definition User_Validate :: "User \<Rightarrow> error option" where
  "User_Validate u =
     (if user_Email u = [] then Some (DomainErr ErrUserEmailRequired)
      else if \<not> MatchString emailRegex (user_Email u) then Some (DomainErr ErrUserEmailInvalid)
      else if user_Name u = [] then Some (DomainErr ErrUserNameRequired)
      else if user_Password u = [] then Some (DomainErr ErrUserPasswordRequired)
      else None)"

text \<open>
  \<open>uuid\<close> is the result of \<open>uuid.New().String()\<close>; \<open>clock 0\<close> and \<open>clock 1\<close> are the
  two calls of \<open>time.Now()\<close> in \<open>NewUser\<close>.
\<close>

definition NewUser ::
  "string \<Rightarrow> (nat \<Rightarrow> timestamp) \<Rightarrow> string \<Rightarrow> string \<Rightarrow> string \<Rightarrow> error + User" where
  "NewUser uuid clock email name password =
     (let user = \<lparr>user_ID = uuid, user_Email = email, user_Name = name,
                    user_Password = password, user_CreatedAt = clock 0,
                    user_UpdatedAt = clock 1, user_DeletedAt = None, user_events = []\<rparr>
      in case User_Validate user of
           Some err \<Rightarrow> Inl err
         | None \<Rightarrow> Inr (User_recordEvent (UserCreatedEvent email name) user))"

definition User_Update :: "timestamp \<Rightarrow> string \<Rightarrow> User \<Rightarrow> error option \<times> User" where
  "User_Update now name u =
     (if name = [] then (Some (DomainErr ErrUserNameRequired), u)
      else (None, User_recordEvent (UserUpdatedEvent (user_ID u) name)
              (u\<lparr>user_Name := name, user_UpdatedAt := now\<rparr>)))"

definition User_UpdatePassword :: "timestamp \<Rightarrow> string \<Rightarrow> User \<Rightarrow> User" where
  "User_UpdatePassword now hashedPassword u =
     u\<lparr>user_Password := hashedPassword, user_UpdatedAt := now\<rparr>"

definition User_MarkDeleted :: "timestamp \<Rightarrow> User \<Rightarrow> User" where
  "User_MarkDeleted now u =
     User_recordEvent (UserDeletedEvent (user_ID u)) (u\<lparr>user_DeletedAt := Some now\<rparr>)"

section \<open>Domain services\<close>

text \<open>
  A repository is an interface whose implementations are adapters of a concrete store.
  The services are modelled over any implementation: a record of functions on a store
  \<open>'s\<close>. Reads are functions of the store; writes return their result with the new
  store. A \<open>(*T, error)\<close> result of a read is \<open>error + T option\<close>, \<open>None\<close> being the nil
  pointer. The services pass no transaction (\<open>nil\<close>) wherever a repository takes one.
\<close>

subsection \<open>The user service (domain/service/user\_service.go)\<close>

record 's IUserRepo =
  userRepo_Create :: "User \<Rightarrow> 's \<Rightarrow> (error + User) \<times> 's"
  userRepo_Update :: "User \<Rightarrow> 's \<Rightarrow> error option \<times> 's"
  userRepo_Delete :: "string \<Rightarrow> 's \<Rightarrow> error option \<times> 's"
  userRepo_GetByID :: "string \<Rightarrow> 's \<Rightarrow> error + User option"
  userRepo_GetByEmail :: "string \<Rightarrow> 's \<Rightarrow> error + User option"
  userRepo_List :: "go_int \<Rightarrow> go_int \<Rightarrow> 's \<Rightarrow> error + (User list \<times> go_int)"

text \<open>
  \<open>publishEvents\<close> drains the user and hands each event to the bus as
  \<open>NewBaseEvent(name, user.ID, event)\<close>; a failed publish is only logged. The model
  returns the events handed to the bus, in order.
\<close>

definition UserService_publishEvents :: "User \<Rightarrow> (string \<times> string \<times> UserEvent) list" where
  "UserService_publishEvents user =
     map (\<lambda>domainEvent. (UserEvent_EventName domainEvent, user_ID user, domainEvent))
       (fst (User_Events user))"

text \<open>The calls \<open>Create\<close> makes on the repository are recorded in the order made.\<close>

datatype UserRepoCall = CallGetByEmail string | CallCreate User

text \<open>
  \<open>Create\<close> returns its result, the store as it leaves it, the repository calls it made
  and the events it published.
\<close>

definition UserService_Create ::
  "'s IUserRepo \<Rightarrow> string \<Rightarrow> (nat \<Rightarrow> timestamp) \<Rightarrow> string \<Rightarrow> string \<Rightarrow> string \<Rightarrow> 's
     \<Rightarrow> (error + User) \<times> 's \<times> UserRepoCall list \<times> (string \<times> string \<times> UserEvent) list" where
  "UserService_Create R uuid clock email name password s =
     (case userRepo_GetByEmail R email s of
        Inl err \<Rightarrow> (Inl err, s, [CallGetByEmail email], [])
      | Inr (Some existing) \<Rightarrow>
          (Inl (DomainErr ErrUserEmailTaken), s, [CallGetByEmail email], [])
      | Inr None \<Rightarrow>
          (case NewUser uuid clock email name password of
             Inl err \<Rightarrow> (Inl err, s, [CallGetByEmail email], [])
           | Inr user \<Rightarrow>
               (case userRepo_Create R user s of
                  (Inl err, s') \<Rightarrow> (Inl err, s', [CallGetByEmail email, CallCreate user], [])
                | (Inr created, s') \<Rightarrow>
                    (Inr created, s', [CallGetByEmail email, CallCreate user],
                     UserService_publishEvents user))))"

text \<open>
  The other operations return their result, the store and the published events.
  \<open>Update\<close> returns the user it loaded and changed, whose pending events
  \<open>publishEvents\<close> has drained.
\<close>

definition UserService_Update ::
  "'s IUserRepo \<Rightarrow> timestamp \<Rightarrow> string \<Rightarrow> string \<Rightarrow> 's
     \<Rightarrow> (error + User) \<times> 's \<times> (string \<times> string \<times> UserEvent) list" where
  "UserService_Update R now uid name s =
     (case userRepo_GetByID R uid s of
        Inl err \<Rightarrow> (Inl err, s, [])
      | Inr None \<Rightarrow> (Inl (DomainErr ErrUserNotFound), s, [])
      | Inr (Some user) \<Rightarrow>
          (case User_Update now name user of
             (Some err, _) \<Rightarrow> (Inl err, s, [])
           | (None, user') \<Rightarrow>
               (case userRepo_Update R user' s of
                  (Some err, s') \<Rightarrow> (Inl err, s', [])
                | (None, s') \<Rightarrow>
                    (Inr (snd (User_Events user')), s', UserService_publishEvents user'))))"

definition UserService_Delete ::
  "'s IUserRepo \<Rightarrow> timestamp \<Rightarrow> string \<Rightarrow> 's
     \<Rightarrow> error option \<times> 's \<times> (string \<times> string \<times> UserEvent) list" where
  "UserService_Delete R now uid s =
     (case userRepo_GetByID R uid s of
        Inl err \<Rightarrow> (Some err, s, [])
      | Inr None \<Rightarrow> (Some (DomainErr ErrUserNotFound), s, [])
      | Inr (Some user) \<Rightarrow>
          (let user' = User_MarkDeleted now user
           in case userRepo_Delete R uid s of
                (Some err, s') \<Rightarrow> (Some err, s', [])
              | (None, s') \<Rightarrow> (None, s', UserService_publishEvents user')))"

definition UserService_Get :: "'s IUserRepo \<Rightarrow> string \<Rightarrow> 's \<Rightarrow> error + User option" where
  "UserService_Get R uid s =
     (case userRepo_GetByID R uid s of Inl err \<Rightarrow> Inl err | Inr user \<Rightarrow> Inr user)"

definition UserService_GetByEmail :: "'s IUserRepo \<Rightarrow> string \<Rightarrow> 's \<Rightarrow> error + User option" where
  "UserService_GetByEmail R email s = userRepo_GetByEmail R email s"

definition UserService_List ::
  "'s IUserRepo \<Rightarrow> go_int \<Rightarrow> go_int \<Rightarrow> 's \<Rightarrow> error + (User list \<times> go_int)" where
  "UserService_List R offset limit s = userRepo_List R offset limit s"

subsection \<open>The product service (domain/service/product\_service.go)\<close>

record ('f, 's) IProductRepo =
  productRepo_Create :: "'f Product \<Rightarrow> 's \<Rightarrow> (error + 'f Product) \<times> 's"
  productRepo_Update :: "'f Product \<Rightarrow> 's \<Rightarrow> error option \<times> 's"
  productRepo_Delete :: "string \<Rightarrow> 's \<Rightarrow> error option \<times> 's"
  productRepo_GetByID :: "string \<Rightarrow> 's \<Rightarrow> error + 'f Product option"
  productRepo_GetByName :: "string \<Rightarrow> 's \<Rightarrow> error + 'f Product option"
  productRepo_List :: "go_int \<Rightarrow> go_int \<Rightarrow> 's \<Rightarrow> error + ('f Product list \<times> go_int)"
  productRepo_UpdateStock :: "string \<Rightarrow> go_int \<Rightarrow> 's \<Rightarrow> error option \<times> 's"

definition Product_Events :: "'f Product \<Rightarrow> 'f ProductEvent list \<times> 'f Product" where
  "Product_Events p = (product_events p, p\<lparr>product_events := []\<rparr>)"

definition ProductService_publishEvents ::
  "'f Product \<Rightarrow> (string \<times> string \<times> 'f ProductEvent) list" where
  "ProductService_publishEvents product =
     map (\<lambda>domainEvent. (ProductEvent_EventName domainEvent, product_ID product, domainEvent))
       (fst (Product_Events product))"

text \<open>
  \<open>UpdateStock\<close> checks the change on the product it loaded and then asks the
  repository to add the quantity to the stored stock. It returns the error, the store
  and the published events.
\<close>

definition ProductService_UpdateStock ::
  "('f, 's) IProductRepo \<Rightarrow> timestamp \<Rightarrow> string \<Rightarrow> go_int \<Rightarrow> 's
     \<Rightarrow> error option \<times> 's \<times> (string \<times> string \<times> 'f ProductEvent) list" where
  "ProductService_UpdateStock R now pid quantity s =
     (case productRepo_GetByID R pid s of
        Inl err \<Rightarrow> (Some err, s, [])
      | Inr None \<Rightarrow> (Some (DomainErr ErrProductNotFound), s, [])
      | Inr (Some product) \<Rightarrow>
          (case Product_UpdateStock now quantity product of
             (Some err, _) \<Rightarrow> (Some err, s, [])
           | (None, product') \<Rightarrow>
               (case productRepo_UpdateStock R pid quantity s of
                  (Some err, s') \<Rightarrow> (Some err, s', [])
                | (None, s') \<Rightarrow> (None, s', ProductService_publishEvents product'))))"

definition ProductService_List ::
  "('f, 's) IProductRepo \<Rightarrow> go_int \<Rightarrow> go_int \<Rightarrow> 's \<Rightarrow> error + ('f Product list \<times> go_int)" where
  "ProductService_List R offset limit s = productRepo_List R offset limit s"

subsection \<open>The order service (domain/service/order\_service.go)\<close>

text \<open>
  The \<open>switch status\<close> of \<open>OrderService.UpdateStatus\<close>: the target status selects the
  transition method; any other value takes the \<open>default\<close> branch.
\<close>

definition OrderService_applyStatus ::
  "timestamp \<Rightarrow> OrderStatus \<Rightarrow> 'f Order \<Rightarrow> error option \<times> 'f Order" where
  "OrderService_applyStatus now status ord =
     (if status = OrderStatusConfirmed then Order_Confirm now ord
      else if status = OrderStatusShipped then Order_Ship now ord
      else if status = OrderStatusDelivered then Order_Deliver now ord
      else if status = OrderStatusCancelled then Order_Cancel now ord
      else (Some (DomainErr ErrOrderInvalidStatus), ord))"

text \<open>Of the order repository, the operations that the modelled functions of the service call.\<close>

record ('f, 's) IOrderRepo =
  orderRepo_Create :: "'f Order \<Rightarrow> 's \<Rightarrow> (error + 'f Order) \<times> 's"
  orderRepo_GetByID :: "string \<Rightarrow> 's \<Rightarrow> error + 'f Order option"
  orderRepo_UpdateStatus :: "string \<Rightarrow> OrderStatus \<Rightarrow> 's \<Rightarrow> error option \<times> 's"
  orderRepo_List :: "go_int \<Rightarrow> go_int \<Rightarrow> 's \<Rightarrow> error + ('f Order list \<times> go_int)"

text \<open>
  \<open>publishEvents\<close> drains the order and hands each event to the bus as
  \<open>NewBaseEvent(name, order.ID, event)\<close>; a failed publish is only logged. The model
  returns the events handed to the bus, in order.
\<close>

definition OrderService_publishEvents :: "'f Order \<Rightarrow> (string \<times> string \<times> 'f OrderEvent) list" where
  "OrderService_publishEvents ord =
     map (\<lambda>domainEvent. (OrderEvent_EventName domainEvent, order_ID ord, domainEvent))
       (fst (Order_Events ord))"

text \<open>
  \<open>Create\<close> looks the user up in the user repository (with its own store \<open>us\<close>),
  builds the order and stores it. It returns its result, the order store and the
  published events.
\<close>

definition OrderService_Create ::
  "'f float_ops \<Rightarrow> ('f, 's) IOrderRepo \<Rightarrow> 'u IUserRepo \<Rightarrow> (nat \<Rightarrow> string) \<Rightarrow> (nat \<Rightarrow> timestamp)
     \<Rightarrow> string \<Rightarrow> 'f OrderItem list \<Rightarrow> 'u \<Rightarrow> 's
     \<Rightarrow> (error + 'f Order) \<times> 's \<times> (string \<times> string \<times> 'f OrderEvent) list" where
  "OrderService_Create F R U uuid clock userID items us s =
     (case userRepo_GetByID U userID us of
        Inl err \<Rightarrow> (Inl err, s, [])
      | Inr None \<Rightarrow> (Inl (DomainErr ErrUserNotFound), s, [])
      | Inr (Some user) \<Rightarrow>
          (case NewOrder F uuid clock userID items of
             Inl err \<Rightarrow> (Inl err, s, [])
           | Inr ord \<Rightarrow>
               (case orderRepo_Create R ord s of
                  (Inl err, s') \<Rightarrow> (Inl err, s', [])
                | (Inr created, s') \<Rightarrow> (Inr created, s', OrderService_publishEvents ord))))"

text \<open>
  \<open>UpdateStatus\<close> and \<open>Cancel\<close> return the error, the store as they leave it and the
  events they published.
\<close>

definition OrderService_UpdateStatus ::
  "('f, 's) IOrderRepo \<Rightarrow> timestamp \<Rightarrow> string \<Rightarrow> OrderStatus \<Rightarrow> 's
     \<Rightarrow> error option \<times> 's \<times> (string \<times> string \<times> 'f OrderEvent) list" where
  "OrderService_UpdateStatus R now oid status s =
     (case orderRepo_GetByID R oid s of
        Inl err \<Rightarrow> (Some err, s, [])
      | Inr None \<Rightarrow> (Some (DomainErr ErrOrderNotFound), s, [])
      | Inr (Some ord) \<Rightarrow>
          (case OrderService_applyStatus now status ord of
             (Some err, _) \<Rightarrow> (Some err, s, [])
           | (None, ord') \<Rightarrow>
               (case orderRepo_UpdateStatus R oid status s of
                  (Some err, s') \<Rightarrow> (Some err, s', [])
                | (None, s') \<Rightarrow> (None, s', OrderService_publishEvents ord'))))"

definition OrderService_Cancel ::
  "('f, 's) IOrderRepo \<Rightarrow> timestamp \<Rightarrow> string \<Rightarrow> 's
     \<Rightarrow> error option \<times> 's \<times> (string \<times> string \<times> 'f OrderEvent) list" where
  "OrderService_Cancel R now oid s =
     (case orderRepo_GetByID R oid s of
        Inl err \<Rightarrow> (Some err, s, [])
      | Inr None \<Rightarrow> (Some (DomainErr ErrOrderNotFound), s, [])
      | Inr (Some ord) \<Rightarrow>
          (case Order_Cancel now ord of
             (Some err, _) \<Rightarrow> (Some err, s, [])
           | (None, ord') \<Rightarrow>
               (case orderRepo_UpdateStatus R oid OrderStatusCancelled s of
                  (Some err, s') \<Rightarrow> (Some err, s', [])
                | (None, s') \<Rightarrow> (None, s', OrderService_publishEvents ord'))))"

definition OrderService_List ::
  "('f, 's) IOrderRepo \<Rightarrow> go_int \<Rightarrow> go_int \<Rightarrow> 's \<Rightarrow> error + ('f Order list \<times> go_int)" where
  "OrderService_List R offset limit s = orderRepo_List R offset limit s"

section \<open>The cache decorator of the user service (domain/service/cached\_user\_service.go)\<close>

subsection \<open>The cache\<close>

text \<open>
  Modelled from the spec: the Redis-backed \<open>EnhancedCache\<close> (package
  adapter/repository/redis) is not among the sources. Sections 4.5 and 6 of the
  specification give its contract: \<open>get(key) -> value | miss\<close>, \<open>set(key, value, ttl)\<close>
  and \<open>delete(key)\<close> on string keys and serialisable values, each of which may fail with
  an error. The cache is a map from keys to values together with the outcomes of the
  coming operations: \<open>cache_faults\<close> says, operation by operation, whether the next one
  fails; once the list is used up every operation succeeds. A failing operation leaves the
  entries as they are. The decorator stores users and, under the email key, user IDs.
  Expiry after the time to live is not modelled.
\<close>

datatype CacheValue = CachedUser User | CachedString string

record Cache =
  cache_entries :: "string \<rightharpoonup> CacheValue"
  cache_faults :: "bool list"

text \<open>Modelled from the spec: whether the next operation fails, and the cache after it.\<close>

definition Cache_nextFault :: "Cache \<Rightarrow> bool \<times> Cache" where
  "Cache_nextFault c =
     (case cache_faults c of
        [] \<Rightarrow> (False, c)
      | fault # faults \<Rightarrow> (fault, c\<lparr>cache_faults := faults\<rparr>))"

text \<open>
  Modelled from the spec: \<open>set(key, value, ttl)\<close> and \<open>delete(key)\<close>; the time to live is
  taken and not used.
\<close>

definition Cache_Set :: "string \<Rightarrow> CacheValue \<Rightarrow> nat \<Rightarrow> Cache \<Rightarrow> error option \<times> Cache" where
  "Cache_Set key v ttl c =
     (case Cache_nextFault c of
        (True, c') \<Rightarrow> (Some (OtherErr ''cache set failed''), c')
      | (False, c') \<Rightarrow> (None, c'\<lparr>cache_entries := (cache_entries c')(key \<mapsto> v)\<rparr>))"

definition Cache_Delete :: "string \<Rightarrow> Cache \<Rightarrow> error option \<times> Cache" where
  "Cache_Delete key c =
     (case Cache_nextFault c of
        (True, c') \<Rightarrow> (Some (OtherErr ''cache delete failed''), c')
      | (False, c') \<Rightarrow> (None, c'\<lparr>cache_entries := (cache_entries c')(key := None)\<rparr>))"

text \<open>
  Modelled from the spec: \<open>get(key) -> value | miss\<close>.
  \<open>Get\<close> decodes the stored value into the destination it is given: a \<open>*model.User\<close>
  or a \<open>*string\<close>. A missing key and a value of the other kind are errors.
\<close>

definition Cache_GetUser :: "string \<Rightarrow> Cache \<Rightarrow> (error + User) \<times> Cache" where
  "Cache_GetUser key c =
     (case Cache_nextFault c of
        (True, c') \<Rightarrow> (Inl (OtherErr ''cache get failed''), c')
      | (False, c') \<Rightarrow>
          (case cache_entries c' key of
             Some (CachedUser user) \<Rightarrow> (Inr user, c')
           | Some (CachedString _) \<Rightarrow> (Inl (OtherErr ''cannot decode value''), c')
           | None \<Rightarrow> (Inl (OtherErr ''cache miss''), c')))"

definition Cache_GetString :: "string \<Rightarrow> Cache \<Rightarrow> (error + string) \<times> Cache" where
  "Cache_GetString key c =
     (case Cache_nextFault c of
        (True, c') \<Rightarrow> (Inl (OtherErr ''cache get failed''), c')
      | (False, c') \<Rightarrow>
          (case cache_entries c' key of
             Some (CachedString str) \<Rightarrow> (Inr str, c')
           | Some (CachedUser _) \<Rightarrow> (Inl (OtherErr ''cannot decode value''), c')
           | None \<Rightarrow> (Inl (OtherErr ''cache miss''), c')))"

subsection \<open>The decorator\<close>

text \<open>
  The delegate is any implementation of \<open>IUserService\<close>: a record of functions on the
  delegate's state \<open>'d\<close>, each returning its result with the new state. A \<open>*model.User\<close>
  result is a \<open>User option\<close>.
\<close>

record 'd IUserService =
  svc_Create :: "string \<Rightarrow> string \<Rightarrow> string \<Rightarrow> 'd \<Rightarrow> (error + User option) \<times> 'd"
  svc_Update :: "string \<Rightarrow> string \<Rightarrow> 'd \<Rightarrow> (error + User option) \<times> 'd"
  svc_Delete :: "string \<Rightarrow> 'd \<Rightarrow> error option \<times> 'd"
  svc_Get :: "string \<Rightarrow> 'd \<Rightarrow> (error + User option) \<times> 'd"
  svc_GetByEmail :: "string \<Rightarrow> 'd \<Rightarrow> (error + User option) \<times> 'd"
  svc_List :: "go_int \<Rightarrow> go_int \<Rightarrow> 'd \<Rightarrow> (error + (User list \<times> go_int)) \<times> 'd"

definition userCacheKeyPrefix :: string where "userCacheKeyPrefix = ''user:''"
definition userEmailCacheKeyPrefix :: string where "userEmailCacheKeyPrefix = ''user:email:''"

text \<open>\<open>30 * time.Minute\<close>, in nanoseconds.\<close>

definition defaultUserCacheTTL :: nat where
  "defaultUserCacheTTL = 30 * (60 * 1000000000)"

definition userCacheKey :: "string \<Rightarrow> string" where
  "userCacheKey uid = userCacheKeyPrefix @ uid"

definition emailCacheKey :: "string \<Rightarrow> string" where
  "emailCacheKey email = userEmailCacheKeyPrefix @ email"

text \<open>The cache helpers log a failed cache operation and go on.\<close>

definition cacheUser :: "User option \<Rightarrow> Cache \<Rightarrow> Cache" where
  "cacheUser user c =
     (case user of
        None \<Rightarrow> c
      | Some u \<Rightarrow>
          (let c1 = snd (Cache_Set (userCacheKey (user_ID u)) (CachedUser u) defaultUserCacheTTL c)
           in snd (Cache_Set (emailCacheKey (user_Email u)) (CachedString (user_ID u))
                     defaultUserCacheTTL c1)))"

definition invalidateUserCache :: "string \<Rightarrow> Cache \<Rightarrow> Cache" where
  "invalidateUserCache uid c = snd (Cache_Delete (userCacheKey uid) c)"

definition invalidateEmailCache :: "string \<Rightarrow> Cache \<Rightarrow> Cache" where
  "invalidateEmailCache email c = snd (Cache_Delete (emailCacheKey email) c)"

text \<open>
  \<open>currentUser, _ := s.delegate.Get(ctx, id)\<close>: the error is dropped and the user is nil
  when the delegate failed.
\<close>

definition currentUserOf :: "error + User option \<Rightarrow> User option" where
  "currentUserOf r = (case r of Inl _ \<Rightarrow> None | Inr user \<Rightarrow> user)"

definition CachedUserService_Create ::
  "'d IUserService \<Rightarrow> string \<Rightarrow> string \<Rightarrow> string \<Rightarrow> 'd \<Rightarrow> Cache
     \<Rightarrow> (error + User option) \<times> 'd \<times> Cache" where
  "CachedUserService_Create D email name password d c =
     (case svc_Create D email name password d of
        (Inl err, d') \<Rightarrow> (Inl err, d', c)
      | (Inr user, d') \<Rightarrow> (Inr user, d', cacheUser user c))"

definition CachedUserService_Update ::
  "'d IUserService \<Rightarrow> string \<Rightarrow> string \<Rightarrow> 'd \<Rightarrow> Cache
     \<Rightarrow> (error + User option) \<times> 'd \<times> Cache" where
  "CachedUserService_Update D uid name d c =
     (case svc_Get D uid d of
        (r0, d1) \<Rightarrow>
          (let currentUser = currentUserOf r0
           in case svc_Update D uid name d1 of
                (Inl err, d2) \<Rightarrow> (Inl err, d2, c)
              | (Inr user, d2) \<Rightarrow>
                  (let c1 = invalidateUserCache uid c;
                       c2 = (case currentUser of
                               Some cu \<Rightarrow> invalidateEmailCache (user_Email cu) c1
                             | None \<Rightarrow> c1)
                   in (Inr user, d2, cacheUser user c2))))"

definition CachedUserService_Delete ::
  "'d IUserService \<Rightarrow> string \<Rightarrow> 'd \<Rightarrow> Cache \<Rightarrow> error option \<times> 'd \<times> Cache" where
  "CachedUserService_Delete D uid d c =
     (case svc_Get D uid d of
        (r0, d1) \<Rightarrow>
          (let currentUser = currentUserOf r0
           in case svc_Delete D uid d1 of
                (Some err, d2) \<Rightarrow> (Some err, d2, c)
              | (None, d2) \<Rightarrow>
                  (let c1 = invalidateUserCache uid c;
                       c2 = (case currentUser of
                               Some cu \<Rightarrow> invalidateEmailCache (user_Email cu) c1
                             | None \<Rightarrow> c1)
                   in (None, d2, c2))))"

definition CachedUserService_Get ::
  "'d IUserService \<Rightarrow> string \<Rightarrow> 'd \<Rightarrow> Cache \<Rightarrow> (error + User option) \<times> 'd \<times> Cache" where
  "CachedUserService_Get D uid d c =
     (case Cache_GetUser (userCacheKey uid) c of
        (Inr user, c1) \<Rightarrow> (Inr (Some user), d, c1)
      | (Inl _, c1) \<Rightarrow>
          (case svc_Get D uid d of
             (Inl err, d1) \<Rightarrow> (Inl err, d1, c1)
           | (Inr result, d1) \<Rightarrow> (Inr result, d1, cacheUser result c1)))"

definition CachedUserService_GetByEmail ::
  "'d IUserService \<Rightarrow> string \<Rightarrow> 'd \<Rightarrow> Cache \<Rightarrow> (error + User option) \<times> 'd \<times> Cache" where
  "CachedUserService_GetByEmail D email d c =
     (case Cache_GetString (emailCacheKey email) c of
        (r, c1) \<Rightarrow>
          (case (case r of Inr userID \<Rightarrow> if userID \<noteq> [] then Some userID else None
                          | Inl _ \<Rightarrow> None) of
             Some userID \<Rightarrow> CachedUserService_Get D userID d c1
           | None \<Rightarrow>
               (case svc_GetByEmail D email d of
                  (Inl err, d1) \<Rightarrow> (Inl err, d1, c1)
                | (Inr None, d1) \<Rightarrow> (Inr None, d1, c1)
                | (Inr (Some result), d1) \<Rightarrow>
                    (let c2 = cacheUser (Some result) c1
                     in (Inr (Some result), d1,
                         snd (Cache_Set (emailCacheKey email) (CachedString (user_ID result))
                                defaultUserCacheTTL c2))))))"

definition CachedUserService_List ::
  "'d IUserService \<Rightarrow> go_int \<Rightarrow> go_int \<Rightarrow> 'd \<Rightarrow> Cache
     \<Rightarrow> (error + (User list \<times> go_int)) \<times> 'd \<times> Cache" where
  "CachedUserService_List D offset limit d c =
     (case svc_List D offset limit d of (r, d') \<Rightarrow> (r, d', c))"

text \<open>
  The user service over a repository as a delegate: the state is the store, and the
  identifiers and times of its calls are fixed.
\<close>

definition userServiceDelegate ::
  "'s IUserRepo \<Rightarrow> string \<Rightarrow> (nat \<Rightarrow> timestamp) \<Rightarrow> timestamp \<Rightarrow> 's IUserService" where
  "userServiceDelegate R uuid clock now =
     \<lparr>svc_Create = (\<lambda>email name password s.
         case UserService_Create R uuid clock email name password s of
           (r, s', _, _) \<Rightarrow> (map_sum (\<lambda>e. e) Some r, s')),
      svc_Update = (\<lambda>uid name s.
         case UserService_Update R now uid name s of (r, s', _) \<Rightarrow> (map_sum (\<lambda>e. e) Some r, s')),
      svc_Delete = (\<lambda>uid s. case UserService_Delete R now uid s of (r, s', _) \<Rightarrow> (r, s')),
      svc_Get = (\<lambda>uid s. (UserService_Get R uid s, s)),
      svc_GetByEmail = (\<lambda>email s. (UserService_GetByEmail R email s, s)),
      svc_List = (\<lambda>offset limit s. (UserService_List R offset limit s, s))\<rparr>"

section \<open>The application layer (application/order, application/product, application/user)\<close>

text \<open>The errors of the application packages are plain \<open>errors.New\<close> values.\<close>

definition order_ErrInvalidUserID :: error where
  "order_ErrInvalidUserID = OtherErr ''invalid user ID''"
definition order_ErrInvalidProductID :: error where
  "order_ErrInvalidProductID = OtherErr ''invalid product ID''"
definition order_ErrInvalidQuantity :: error where
  "order_ErrInvalidQuantity = OtherErr ''quantity must be greater than zero''"
definition order_ErrInvalidPrice :: error where
  "order_ErrInvalidPrice = OtherErr ''price must be greater than zero''"
definition order_ErrItemsRequired :: error where
  "order_ErrItemsRequired = OtherErr ''at least one item is required''"

subsection \<open>Creating an order (application/order/dto.go, create.go)\<close>

record 'f OrderItemInput =
  in_ProductID :: string
  in_Quantity :: go_int
  in_Price :: 'f

record 'f CreateOrderInput =
  in_UserID :: string
  in_Items :: "'f OrderItemInput list"

text \<open>The loop of \<open>CreateOrderInput.Validate\<close> returns at the first item it refuses.\<close>

fun validateItems :: "'f float_ops \<Rightarrow> 'f OrderItemInput list \<Rightarrow> error option" where
  "validateItems F [] = None"
| "validateItems F (item # items) =
     (if in_ProductID item = [] then Some order_ErrInvalidProductID
      else if sint (in_Quantity item) \<le> 0 then Some order_ErrInvalidQuantity
      else if fle F (in_Price item) (fzero F) then Some order_ErrInvalidPrice
      else validateItems F items)"

definition CreateOrderInput_Validate :: "'f float_ops \<Rightarrow> 'f CreateOrderInput \<Rightarrow> error option" where
  "CreateOrderInput_Validate F i =
     (if in_UserID i = [] then Some order_ErrInvalidUserID
      else if length (in_Items i) = 0 then Some order_ErrItemsRequired
      else validateItems F (in_Items i))"

text \<open>
  The items that \<open>CreateOrderUseCase.Execute\<close> hands to the order service: the fields not
  set are Go's zero values.
\<close>

definition CreateOrderUseCase_items :: "'f CreateOrderInput \<Rightarrow> 'f OrderItem list" where
  "CreateOrderUseCase_items input =
     map (\<lambda>item. \<lparr>item_ID = [], item_OrderID = [], item_ProductID = in_ProductID item,
                   item_Quantity = in_Quantity item, item_Price = in_Price item,
                   item_CreatedAt = 0\<rparr>) (in_Items input)"

record 'f OrderItemOutput =
  out_item_ID :: string
  out_item_ProductID :: string
  out_item_Quantity :: go_int
  out_item_Price :: 'f

record 'f OrderOutput =
  out_ID :: string
  out_UserID :: string
  out_Items :: "'f OrderItemOutput list"
  out_Total :: 'f
  out_Status :: string
  out_CreatedAt :: timestamp
  out_UpdatedAt :: timestamp

definition toOrderOutput :: "'f Order \<Rightarrow> 'f OrderOutput" where
  "toOrderOutput ord =
     \<lparr>out_ID = order_ID ord, out_UserID = order_UserID ord,
      out_Items = map (\<lambda>item. \<lparr>out_item_ID = item_ID item,
                                out_item_ProductID = item_ProductID item,
                                out_item_Quantity = item_Quantity item,
                                out_item_Price = item_Price item\<rparr>) (order_Items ord),
      out_Total = order_Total ord, out_Status = order_Status ord,
      out_CreatedAt = order_CreatedAt ord, out_UpdatedAt = order_UpdatedAt ord\<rparr>"

text \<open>
  The use cases hold an \<open>IOrderService\<close>; the operation they call is an argument: a
  function from the call's arguments and the service's state to its result and new state.
\<close>

definition CreateOrderUseCase_Execute ::
  "'f float_ops \<Rightarrow> (string \<Rightarrow> 'f OrderItem list \<Rightarrow> 'st \<Rightarrow> (error + 'f Order) \<times> 'st)
     \<Rightarrow> 'f CreateOrderInput \<Rightarrow> 'st \<Rightarrow> (error + 'f OrderOutput) \<times> 'st" where
  "CreateOrderUseCase_Execute F create input st =
     (case CreateOrderInput_Validate F input of
        Some err \<Rightarrow> (Inl err, st)
      | None \<Rightarrow>
          (case create (in_UserID input) (CreateOrderUseCase_items input) st of
             (Inl err, st') \<Rightarrow> (Inl err, st')
           | (Inr ord, st') \<Rightarrow> (Inr (toOrderOutput ord), st')))"

subsection \<open>Listing (dto.go of the three packages, the list use cases)\<close>

text \<open>
  The \<open>Validate\<close> methods of the list inputs have pointer receivers: they return the
  error (always nil) and the input as they leave it.
\<close>

record ListOrdersInput =
  lo_Offset :: go_int
  lo_Limit :: go_int

definition ListOrdersInput_Validate :: "ListOrdersInput \<Rightarrow> error option \<times> ListOrdersInput" where
  "ListOrdersInput_Validate i =
     (let i1 = (if sint (lo_Limit i) \<le> 0 then i\<lparr>lo_Limit := 10\<rparr> else i);
          i2 = (if sint (lo_Offset i1) < 0 then i1\<lparr>lo_Offset := 0\<rparr> else i1)
      in (None, i2))"

record ListProductsInput =
  lp_Offset :: go_int
  lp_Limit :: go_int

definition ListProductsInput_Validate ::
  "ListProductsInput \<Rightarrow> error option \<times> ListProductsInput" where
  "ListProductsInput_Validate i =
     (let i1 = (if sint (lp_Limit i) \<le> 0 then i\<lparr>lp_Limit := 10\<rparr> else i);
          i2 = (if sint (lp_Offset i1) < 0 then i1\<lparr>lp_Offset := 0\<rparr> else i1)
      in (None, i2))"

record ListUsersInput =
  lu_Offset :: go_int
  lu_Limit :: go_int

definition ListUsersInput_Validate :: "ListUsersInput \<Rightarrow> error option \<times> ListUsersInput" where
  "ListUsersInput_Validate i =
     (let i1 = (if sint (lu_Limit i) \<le> 0 then i\<lparr>lu_Limit := 10\<rparr> else i);
          i2 = (if sint (lu_Offset i1) < 0 then i1\<lparr>lu_Offset := 0\<rparr> else i1)
      in (None, i2))"

record 'f ListOrdersOutput =
  out_Orders :: "'f OrderOutput list"
  out_OrdersTotal :: go_int

definition ListOrdersUseCase_Execute ::
  "(go_int \<Rightarrow> go_int \<Rightarrow> 'st \<Rightarrow> error + ('f Order list \<times> go_int)) \<Rightarrow> ListOrdersInput \<Rightarrow> 'st
     \<Rightarrow> error + 'f ListOrdersOutput" where
  "ListOrdersUseCase_Execute list input st =
     (case ListOrdersInput_Validate input of
        (Some err, _) \<Rightarrow> Inl err
      | (None, input') \<Rightarrow>
          (case list (lo_Offset input') (lo_Limit input') st of
             Inl err \<Rightarrow> Inl err
           | Inr (orders, count) \<Rightarrow>
               Inr \<lparr>out_Orders = map toOrderOutput orders, out_OrdersTotal = count\<rparr>))"

record UserOutput =
  out_user_ID :: string
  out_user_Email :: string
  out_user_Name :: string
  out_user_CreatedAt :: timestamp
  out_user_UpdatedAt :: timestamp

record ListUsersOutput =
  out_Users :: "UserOutput list"
  out_UsersTotal :: go_int

definition ListUsersUseCase_Execute ::
  "(go_int \<Rightarrow> go_int \<Rightarrow> 'st \<Rightarrow> error + (User list \<times> go_int)) \<Rightarrow> ListUsersInput \<Rightarrow> 'st
     \<Rightarrow> error + ListUsersOutput" where
  "ListUsersUseCase_Execute list input st =
     (case ListUsersInput_Validate input of
        (Some err, _) \<Rightarrow> Inl err
      | (None, input') \<Rightarrow>
          (case list (lu_Offset input') (lu_Limit input') st of
             Inl err \<Rightarrow> Inl err
           | Inr (users, count) \<Rightarrow>
               Inr \<lparr>out_Users = map (\<lambda>u. \<lparr>out_user_ID = user_ID u, out_user_Email = user_Email u,
                                           out_user_Name = user_Name u,
                                           out_user_CreatedAt = user_CreatedAt u,
                                           out_user_UpdatedAt = user_UpdatedAt u\<rparr>) users,
                    out_UsersTotal = count\<rparr>))"

text \<open>\<open>ListProductsUseCase.Execute\<close> (application/product), of the same shape.\<close>

record 'f ProductOutput =
  out_product_ID :: string
  out_product_Name :: string
  out_product_Description :: string
  out_product_Price :: 'f
  out_product_Stock :: go_int
  out_product_CreatedAt :: timestamp
  out_product_UpdatedAt :: timestamp

record 'f ListProductsOutput =
  out_Products :: "'f ProductOutput list"
  out_ProductsTotal :: go_int

definition ListProductsUseCase_Execute ::
  "(go_int \<Rightarrow> go_int \<Rightarrow> 'st \<Rightarrow> error + ('f Product list \<times> go_int)) \<Rightarrow> ListProductsInput \<Rightarrow> 'st
     \<Rightarrow> error + 'f ListProductsOutput" where
  "ListProductsUseCase_Execute list input st =
     (case ListProductsInput_Validate input of
        (Some err, _) \<Rightarrow> Inl err
      | (None, input') \<Rightarrow>
          (case list (lp_Offset input') (lp_Limit input') st of
             Inl err \<Rightarrow> Inl err
           | Inr (products, count) \<Rightarrow>
               Inr \<lparr>out_Products =
                      map (\<lambda>p. \<lparr>out_product_ID = product_ID p, out_product_Name = product_Name p,
                                 out_product_Description = product_Description p,
                                 out_product_Price = product_Price p,
                                 out_product_Stock = product_Stock p,
                                 out_product_CreatedAt = product_CreatedAt p,
                                 out_product_UpdatedAt = product_UpdatedAt p\<rparr>) products,
                    out_ProductsTotal = count\<rparr>))"

section \<open>The HTTP handlers (package http of api/http, api/dto)\<close>

text \<open>
  The handlers call the registered domain services directly. A handler ends either by
  handing an error to \<open>handle.Error\<close> or by writing its payload as the JSON response:
  the model returns which of the two (\<open>Inl\<close> the error, \<open>Inr\<close> the payload). As in the use
  cases, the operation of the service is an argument.
\<close>

record 'f OrderItemReq =
  req_item_ProductID :: string
  req_item_Quantity :: go_int
  req_item_Price :: 'f

record 'f CreateOrderReq =
  req_UserID :: string
  req_Items :: "'f OrderItemReq list"

record 'f OrderItemResp =
  resp_item_ID :: string
  resp_item_ProductID :: string
  resp_item_Quantity :: go_int
  resp_item_Price :: 'f

record 'f OrderResp =
  resp_ID :: string
  resp_UserID :: string
  resp_Items :: "'f OrderItemResp list"
  resp_Total :: 'f
  resp_Status :: string
  resp_CreatedAt :: timestamp
  resp_UpdatedAt :: timestamp

record UserResp =
  resp_user_ID :: string
  resp_user_Email :: string
  resp_user_Name :: string
  resp_user_CreatedAt :: timestamp
  resp_user_UpdatedAt :: timestamp

record 'f ProductResp =
  resp_product_ID :: string
  resp_product_Name :: string
  resp_product_Description :: string
  resp_product_Price :: 'f
  resp_product_Stock :: go_int
  resp_product_CreatedAt :: timestamp
  resp_product_UpdatedAt :: timestamp

definition toUserResp :: "User \<Rightarrow> UserResp" where
  "toUserResp u =
     \<lparr>resp_user_ID = user_ID u, resp_user_Email = user_Email u, resp_user_Name = user_Name u,
      resp_user_CreatedAt = user_CreatedAt u, resp_user_UpdatedAt = user_UpdatedAt u\<rparr>"

definition toProductResp :: "'f Product \<Rightarrow> 'f ProductResp" where
  "toProductResp p =
     \<lparr>resp_product_ID = product_ID p, resp_product_Name = product_Name p,
      resp_product_Description = product_Description p, resp_product_Price = product_Price p,
      resp_product_Stock = product_Stock p, resp_product_CreatedAt = product_CreatedAt p,
      resp_product_UpdatedAt = product_UpdatedAt p\<rparr>"

definition toOrderResp :: "'f Order \<Rightarrow> 'f OrderResp" where
  "toOrderResp ord =
     \<lparr>resp_ID = order_ID ord, resp_UserID = order_UserID ord,
      resp_Items = map (\<lambda>item. \<lparr>resp_item_ID = item_ID item,
                                 resp_item_ProductID = item_ProductID item,
                                 resp_item_Quantity = item_Quantity item,
                                 resp_item_Price = item_Price item\<rparr>) (order_Items ord),
      resp_Total = order_Total ord, resp_Status = order_Status ord,
      resp_CreatedAt = order_CreatedAt ord, resp_UpdatedAt = order_UpdatedAt ord\<rparr>"

text \<open>
  \<open>CreateOrder\<close> binds the request body with gin's \<open>ShouldBindJSON\<close>, which also runs
  the validator of the \<open>binding\<close> tags of \<open>CreateOrderReq\<close>; gin is not part of the
  source, so the binding is an argument: it returns an error or the bound request. The
  handler copies product, quantity and price of each request item into an \<open>OrderItem\<close>
  and calls \<open>OrderService.Create\<close>.
\<close>

definition CreateOrder_items :: "'f CreateOrderReq \<Rightarrow> 'f OrderItem list" where
  "CreateOrder_items req =
     map (\<lambda>item. \<lparr>item_ID = [], item_OrderID = [], item_ProductID = req_item_ProductID item,
                   item_Quantity = req_item_Quantity item, item_Price = req_item_Price item,
                   item_CreatedAt = 0\<rparr>) (req_Items req)"

definition CreateOrder ::
  "('body \<Rightarrow> error + 'f CreateOrderReq)
     \<Rightarrow> (string \<Rightarrow> 'f OrderItem list \<Rightarrow> 'st \<Rightarrow> (error + 'f Order) \<times> 'st)
     \<Rightarrow> 'body \<Rightarrow> 'st \<Rightarrow> (error + 'f OrderResp) \<times> 'st" where
  "CreateOrder ShouldBindJSON create body st =
     (case ShouldBindJSON body of
        Inl err \<Rightarrow> (Inl err, st)
      | Inr req \<Rightarrow>
          (case create (req_UserID req) (CreateOrder_items req) st of
             (Inl err, st') \<Rightarrow> (Inl err, st')
           | (Inr ord, st') \<Rightarrow> (Inr (toOrderResp ord), st')))"

text \<open>
  The list handlers read \<open>offset\<close> and \<open>limit\<close> from the query string with gin's
  \<open>DefaultQuery\<close> (the value of the key, or the default when the key is absent; the
  query string is a map from keys to values), convert each with \<open>strconv.Atoi\<close> and
  drop its error (\<open>offset, _ := strconv.Atoi(...)\<close>), and call the \<open>List\<close> of the
  service with the two integers. \<open>Atoi\<close>, of Go's library, is an argument: it returns
  the integer and the error. The payload is the page of responses and the total.
\<close>

definition DefaultQuery :: "(string \<rightharpoonup> string) \<Rightarrow> string \<Rightarrow> string \<Rightarrow> string" where
  "DefaultQuery query key defaultValue =
     (case query key of Some v \<Rightarrow> v | None \<Rightarrow> defaultValue)"

definition ListUsers ::
  "(string \<Rightarrow> go_int \<times> error option) \<Rightarrow> (go_int \<Rightarrow> go_int \<Rightarrow> 'st \<Rightarrow> error + (User list \<times> go_int))
     \<Rightarrow> (string \<rightharpoonup> string) \<Rightarrow> 'st \<Rightarrow> error + (UserResp list \<times> go_int)" where
  "ListUsers Atoi list query st =
     (let offset = fst (Atoi (DefaultQuery query ''offset'' ''0''));
          limit = fst (Atoi (DefaultQuery query ''limit'' ''10''))
      in case list offset limit st of
           Inl err \<Rightarrow> Inl err
         | Inr (users, count) \<Rightarrow> Inr (map toUserResp users, count))"

definition ListProducts ::
  "(string \<Rightarrow> go_int \<times> error option)
     \<Rightarrow> (go_int \<Rightarrow> go_int \<Rightarrow> 'st \<Rightarrow> error + ('f Product list \<times> go_int))
     \<Rightarrow> (string \<rightharpoonup> string) \<Rightarrow> 'st \<Rightarrow> error + ('f ProductResp list \<times> go_int)" where
  "ListProducts Atoi list query st =
     (let offset = fst (Atoi (DefaultQuery query ''offset'' ''0''));
          limit = fst (Atoi (DefaultQuery query ''limit'' ''10''))
      in case list offset limit st of
           Inl err \<Rightarrow> Inl err
         | Inr (products, count) \<Rightarrow> Inr (map toProductResp products, count))"

definition ListOrders ::
  "(string \<Rightarrow> go_int \<times> error option)
     \<Rightarrow> (go_int \<Rightarrow> go_int \<Rightarrow> 'st \<Rightarrow> error + ('f Order list \<times> go_int))
     \<Rightarrow> (string \<rightharpoonup> string) \<Rightarrow> 'st \<Rightarrow> error + ('f OrderResp list \<times> go_int)" where
  "ListOrders Atoi list query st =
     (let offset = fst (Atoi (DefaultQuery query ''offset'' ''0''));
          limit = fst (Atoi (DefaultQuery query ''limit'' ''10''))
      in case list offset limit st of
           Inl err \<Rightarrow> Inl err
         | Inr (orders, count) \<Rightarrow> Inr (map toOrderResp orders, count))"

section \<open>Notions of the specification\<close>

text \<open>
  The transition table of the specification (section 4.3), as pairs (from, target).
\<close>

definition transitionTable :: "(OrderStatus \<times> OrderStatus) list" where
  "transitionTable =
     [(OrderStatusPending, OrderStatusConfirmed), (OrderStatusPending, OrderStatusCancelled),
      (OrderStatusConfirmed, OrderStatusShipped), (OrderStatusConfirmed, OrderStatusCancelled),
      (OrderStatusShipped, OrderStatusDelivered), (OrderStatusShipped, OrderStatusCancelled)]"

text \<open>
  A run of status updates on one order, each at its own time: it stops at the first
  refused update and otherwise returns the order after the last one.
\<close>

fun applyStatuses :: "(timestamp \<times> OrderStatus) list \<Rightarrow> 'f Order \<Rightarrow> error + 'f Order" where
  "applyStatuses [] ord = Inr ord"
| "applyStatuses ((now, status) # rest) ord =
     (case OrderService_applyStatus now status ord of
        (Some err, _) \<Rightarrow> Inl err
      | (None, ord') \<Rightarrow> applyStatuses rest ord')"

text \<open>
  The sum over the items of unit price times quantity in \<open>float64\<close> arithmetic:
  accumulated from zero in the order of the items.
\<close>

definition itemsSum :: "'f float_ops \<Rightarrow> 'f OrderItem list \<Rightarrow> 'f" where
  "itemsSum F items =
     foldl (\<lambda>acc item. fadd F acc (fmul F (item_Price item) (fofint F (item_Quantity item))))
       (fzero F) items"

text \<open>
  The clamping of the pagination arguments as the specification words it (section 4.2):
  the offset is clamped to at least 0, and a limit that is not positive becomes the
  default 10.
\<close>

definition clampedOffset :: "go_int \<Rightarrow> go_int" where
  "clampedOffset offset = (if sint offset < 0 then 0 else offset)"

definition clampedLimit :: "go_int \<Rightarrow> go_int" where
  "clampedLimit limit = (if sint limit \<le> 0 then 10 else limit)"

text \<open>
  The contract of a mutator (section 4.1), for an aggregate with pending events
  \<open>events\<close> (set by \<open>withEvents\<close>) and validity \<open>valid\<close>, on the outcome of one call
  (the error and the aggregate as the call leaves it) of a mutator whose change takes the
  aggregate \<open>a\<close> to \<open>changed\<close> and is described by the event \<open>event\<close>. Either the call
  succeeds and leaves exactly the changed aggregate, its pending events being the earlier
  ones followed by that one event, and a valid aggregate stays valid; or it reports a
  domain error whose code is \<open>VALIDATION_ERROR\<close> or \<open>INVALID_STATE\<close> and the aggregate
  is as it was.
\<close>

definition mutatorContract ::
  "('a \<Rightarrow> 'e list) \<Rightarrow> ('e list \<Rightarrow> 'a \<Rightarrow> 'a) \<Rightarrow> ('a \<Rightarrow> bool) \<Rightarrow> 'a \<Rightarrow> 'a \<Rightarrow> 'e
     \<Rightarrow> error option \<times> 'a \<Rightarrow> bool" where
  "mutatorContract events withEvents valid a changed event outcome =
     (case outcome of
        (None, a') \<Rightarrow>
          a' = withEvents (events a @ [event]) changed \<and> (valid a \<longrightarrow> valid a')
      | (Some err, a') \<Rightarrow>
          a' = a \<and>
          (case err of
             DomainErr e \<Rightarrow> Code e = CodeValidationError \<or> Code e = CodeInvalidState
           | OtherErr _ \<Rightarrow> False))"

text \<open>The contract for each of the three aggregates, with \<open>Validate\<close> as validity.\<close>

definition orderContract ::
  "'f Order \<Rightarrow> 'f Order \<Rightarrow> 'f OrderEvent \<Rightarrow> error option \<times> 'f Order \<Rightarrow> bool" where
  "orderContract =
     mutatorContract order_events (\<lambda>evs v. v\<lparr>order_events := evs\<rparr>)
       (\<lambda>v. Order_Validate v = None)"

definition productContract ::
  "'f float_ops \<Rightarrow> 'f Product \<Rightarrow> 'f Product \<Rightarrow> 'f ProductEvent \<Rightarrow> error option \<times> 'f Product
     \<Rightarrow> bool" where
  "productContract F =
     mutatorContract product_events (\<lambda>evs v. v\<lparr>product_events := evs\<rparr>)
       (\<lambda>v. Product_Validate F v = None)"

definition userContract :: "User \<Rightarrow> User \<Rightarrow> UserEvent \<Rightarrow> error option \<times> User \<Rightarrow> bool" where
  "userContract =
     mutatorContract user_events (\<lambda>evs v. v\<lparr>user_events := evs\<rparr>)
       (\<lambda>v. User_Validate v = None)"

text \<open>
  The cache that the invalidations of \<open>Update\<close> and \<open>Delete\<close> leave when no cache
  operation fails: the entry of the user key is gone and, when the current user was
  found, the entry of its email key.
\<close>

definition invalidated :: "string \<Rightarrow> User option \<Rightarrow> Cache \<Rightarrow> Cache" where
  "invalidated uid currentUser c =
     (case currentUser of
        None \<Rightarrow> c\<lparr>cache_entries := (cache_entries c)(userCacheKey uid := None)\<rparr>
      | Some cu \<Rightarrow> c\<lparr>cache_entries := (cache_entries c)
                      (userCacheKey uid := None, emailCacheKey (user_Email cu) := None)\<rparr>)"

section \<open>Stores and inputs for running the model\<close>

text \<open>
  An in-memory order repository: the store is the list of orders in insertion order, kept
  without their pending events. \<open>UpdateStatus\<close> fails on an unknown ID and otherwise
  overwrites the status; \<open>List\<close> returns the page and the number of orders.
\<close>

definition memOrderRepo :: "('f, 'f Order list) IOrderRepo" where
  "memOrderRepo =
     \<lparr>orderRepo_Create = (\<lambda>ord s. (Inr ord, s @ [ord\<lparr>order_events := []\<rparr>])),
      orderRepo_GetByID = (\<lambda>oid s. Inr (find (\<lambda>v. order_ID v = oid) s)),
      orderRepo_UpdateStatus = (\<lambda>oid status s.
         case find (\<lambda>v. order_ID v = oid) s of
           None \<Rightarrow> (Some (DomainErr ErrOrderNotFound), s)
         | Some _ \<Rightarrow>
             (None, map (\<lambda>v. if order_ID v = oid then v\<lparr>order_Status := status\<rparr> else v) s)),
      orderRepo_List = (\<lambda>offset limit s.
         Inr (take (nat (sint limit)) (drop (nat (sint offset)) s), word_of_nat (length s)))\<rparr>"

text \<open>
  An in-memory product repository: the store is the list of products; \<open>UpdateStock\<close>
  fails on an unknown ID and otherwise adds the quantity to the stored stock.
\<close>

definition memProductRepo :: "('f, 'f Product list) IProductRepo" where
  "memProductRepo =
     \<lparr>productRepo_Create = (\<lambda>p s. (Inr p, s @ [p\<lparr>product_events := []\<rparr>])),
      productRepo_Update = (\<lambda>p s.
         (None, map (\<lambda>v. if product_ID v = product_ID p then p\<lparr>product_events := []\<rparr> else v) s)),
      productRepo_Delete = (\<lambda>pid s. (None, filter (\<lambda>v. product_ID v \<noteq> pid) s)),
      productRepo_GetByID = (\<lambda>pid s. Inr (find (\<lambda>v. product_ID v = pid) s)),
      productRepo_GetByName = (\<lambda>name s. Inr (find (\<lambda>v. product_Name v = name) s)),
      productRepo_List = (\<lambda>offset limit s.
         Inr (take (nat (sint limit)) (drop (nat (sint offset)) s), word_of_nat (length s))),
      productRepo_UpdateStock = (\<lambda>pid quantity s.
         case find (\<lambda>v. product_ID v = pid) s of
           None \<Rightarrow> (Some (DomainErr ErrProductNotFound), s)
         | Some _ \<Rightarrow>
             (None, map (\<lambda>v. if product_ID v = pid
                              then v\<lparr>product_Stock := product_Stock v + quantity\<rparr> else v) s))\<rparr>"

definition widgetItem :: "real OrderItem" where
  "widgetItem = \<lparr>item_ID = ''i1'', item_OrderID = ''o1'', item_ProductID = ''p1'',
     item_Quantity = 3, item_Price = 999 / 100, item_CreatedAt = 0\<rparr>"

definition orderWith :: "OrderStatus \<Rightarrow> real Order" where
  "orderWith status = \<lparr>order_ID = ''o1'', order_UserID = ''u1'', order_Items = [widgetItem],
     order_Total = 2997 / 100, order_Status = status, order_CreatedAt = 0, order_UpdatedAt = 0,
     order_DeletedAt = None, order_events = []\<rparr>"

definition widget :: "real Product" where
  "widget = \<lparr>product_ID = ''p1'', product_Name = ''Widget'', product_Description = [],
     product_Price = 999 / 100, product_Stock = 5, product_CreatedAt = 0, product_UpdatedAt = 0,
     product_DeletedAt = None, product_events = []\<rparr>"

text \<open>
  An in-memory user repository: the store is the list of users in insertion order, kept
  without their pending events.
\<close>

definition memUserRepo :: "(User list) IUserRepo" where
  "memUserRepo =
     \<lparr>userRepo_Create = (\<lambda>u s. (Inr u, s @ [u\<lparr>user_events := []\<rparr>])),
      userRepo_Update = (\<lambda>u s.
         (None, map (\<lambda>v. if user_ID v = user_ID u then u\<lparr>user_events := []\<rparr> else v) s)),
      userRepo_Delete = (\<lambda>uid s. (None, filter (\<lambda>v. user_ID v \<noteq> uid) s)),
      userRepo_GetByID = (\<lambda>uid s. Inr (find (\<lambda>v. user_ID v = uid) s)),
      userRepo_GetByEmail = (\<lambda>email s. Inr (find (\<lambda>v. user_Email v = email) s)),
      userRepo_List = (\<lambda>offset limit s.
         Inr (take (nat (sint limit)) (drop (nat (sint offset)) s), word_of_nat (length s)))\<rparr>"

definition alice :: User where
  "alice = \<lparr>user_ID = ''u1'', user_Email = ''a@b.com'', user_Name = ''A'',
     user_Password = ''secret1'', user_CreatedAt = 0, user_UpdatedAt = 1, user_DeletedAt = None,
     user_events = []\<rparr>"

text \<open>Results of \<open>uuid.New()\<close> and \<open>time.Now()\<close> for a run of a factory.\<close>

definition testUuid :: "nat \<Rightarrow> string" where
  "testUuid k = (if k = 0 then ''o1'' else ''i1'')"

definition testClock :: "nat \<Rightarrow> timestamp" where
  "testClock k = k"

definition newWidgetItem :: "real OrderItem" where
  "newWidgetItem = \<lparr>item_ID = [], item_OrderID = [], item_ProductID = ''p1'',
     item_Quantity = 3, item_Price = 999 / 100, item_CreatedAt = 0\<rparr>"

text \<open>
  The user service over the in-memory repository as the delegate of the decorator, the
  user \<open>alice\<close> after her name was changed at time 9, a cache that holds \<open>alice\<close> and
  works, and one that holds \<open>alice\<close> while its next four operations fail.
\<close>

definition memUserService :: "(User list) IUserService" where
  "memUserService = userServiceDelegate memUserRepo ''u9'' testClock 9"

definition alicia :: User where
  "alicia = alice\<lparr>user_Name := ''Alicia'', user_UpdatedAt := 9\<rparr>"

definition warmCache :: Cache where
  "warmCache = \<lparr>cache_entries = [userCacheKey ''u1'' \<mapsto> CachedUser alice,
                                  emailCacheKey ''a@b.com'' \<mapsto> CachedString ''u1''],
                 cache_faults = []\<rparr>"

definition failingCache :: Cache where
  "failingCache = warmCache\<lparr>cache_faults := [True, True, True, True]\<rparr>"

text \<open>An order item and an order input with quantity 0 and price 0.\<close>

definition freeItem :: "real OrderItem" where
  "freeItem = newWidgetItem\<lparr>item_Quantity := 0, item_Price := 0\<rparr>"

definition widgetInput :: "real CreateOrderInput" where
  "widgetInput = \<lparr>in_UserID = ''u1'',
     in_Items = [\<lparr>in_ProductID = ''p1'', in_Quantity = 3, in_Price = 999 / 100\<rparr>]\<rparr>"

text \<open>
  The float operations on the reals with one more value, NaN (\<open>None\<close>): an operation with
  a NaN operand gives NaN and a comparison with a NaN operand is false, as for
  \<open>float64\<close>. With it the model runs on a price that is not a number.
\<close>

definition nan_ops :: "real option float_ops" where
  "nan_ops =
     \<lparr>fzero = Some 0,
      fadd = (\<lambda>a b. case a of None \<Rightarrow> None
                     | Some x \<Rightarrow> (case b of None \<Rightarrow> None | Some y \<Rightarrow> Some (x + y))),
      fmul = (\<lambda>a b. case a of None \<Rightarrow> None
                     | Some x \<Rightarrow> (case b of None \<Rightarrow> None | Some y \<Rightarrow> Some (x * y))),
      fofint = (\<lambda>n. Some (real_of_int (sint n))),
      fle = (\<lambda>a b. case a of None \<Rightarrow> False
                    | Some x \<Rightarrow> (case b of None \<Rightarrow> False | Some y \<Rightarrow> x \<le> y))\<rparr>"

definition nanInput :: "real option CreateOrderInput" where
  "nanInput = \<lparr>in_UserID = ''u1'',
     in_Items = [\<lparr>in_ProductID = ''p1'', in_Quantity = 3, in_Price = None\<rparr>]\<rparr>"

definition widgetReq :: "real CreateOrderReq" where
  "widgetReq = \<lparr>req_UserID = ''u1'',
     req_Items = [\<lparr>req_item_ProductID = ''p1'', req_item_Quantity = 3,
                   req_item_Price = 999 / 100\<rparr>]\<rparr>"

text \<open>
  \<open>strconv.Atoi\<close> for the runs of the list handlers: an optional sign and decimal
  digits give the integer; anything else gives 0 and a syntax error, and a number out of
  the range of \<open>int\<close> the nearest bound and a range error.
\<close>

definition digitValue :: "char \<Rightarrow> nat option" where
  "digitValue =
     map_of [(CHR ''0'', 0), (CHR ''1'', 1), (CHR ''2'', 2), (CHR ''3'', 3), (CHR ''4'', 4),
             (CHR ''5'', 5), (CHR ''6'', 6), (CHR ''7'', 7), (CHR ''8'', 8), (CHR ''9'', 9)]"

fun parseDigits :: "string \<Rightarrow> nat \<Rightarrow> nat option" where
  "parseDigits [] acc = Some acc"
| "parseDigits (c # cs) acc =
     (case digitValue c of None \<Rightarrow> None | Some d \<Rightarrow> parseDigits cs (10 * acc + d))"

definition decimalAtoi :: "string \<Rightarrow> go_int \<times> error option" where
  "decimalAtoi str =
     (let neg = (str \<noteq> [] \<and> hd str = CHR ''-'');
          signed = (str \<noteq> [] \<and> (hd str = CHR ''-'' \<or> hd str = CHR ''+''));
          digits = (if signed then tl str else str)
      in if digits = [] then (0, Some (OtherErr ''invalid syntax''))
         else (case parseDigits digits 0 of
                 None \<Rightarrow> (0, Some (OtherErr ''invalid syntax''))
               | Some n \<Rightarrow>
                   if neg then
                     (if n \<le> 2 ^ 63 then (- word_of_nat n, None)
                      else (- (2 ^ 63), Some (OtherErr ''value out of range'')))
                   else
                     (if n < 2 ^ 63 then (word_of_nat n, None)
                      else (2 ^ 63 - 1, Some (OtherErr ''value out of range'')))))"

text \<open>The query string \<open>offset=-5&limit=0\<close>, and the empty one.\<close>

definition pageQuery :: "string \<rightharpoonup> string" where
  "pageQuery = [''offset'' \<mapsto> ''-5'', ''limit'' \<mapsto> ''0'']"

definition noQuery :: "string \<rightharpoonup> string" where
  "noQuery = Map.empty"

text \<open>
  \<open>OrderService.Create\<close> over the in-memory repositories with the user \<open>alice\<close>
  stored, as the operation a handler or a use case calls on the order store.
\<close>

definition memCreate ::
  "string \<Rightarrow> real OrderItem list \<Rightarrow> real Order list \<Rightarrow> (error + real Order) \<times> real Order list" where
  "memCreate userID items s =
     (case OrderService_Create exact_ops memOrderRepo memUserRepo testUuid testClock userID items
             [alice] s of
        (result, s', published) \<Rightarrow> (result, s'))"

section \<open>Properties of the order state machine\<close>

lemmas status_defs = OrderStatusPending_def OrderStatusConfirmed_def OrderStatusShipped_def
  OrderStatusDelivered_def OrderStatusCancelled_def

lemmas order_method_defs = Order_Confirm_def Order_Ship_def Order_Deliver_def Order_Cancel_def
  Order_recordEvent_def

lemmas order_error_defs = ErrOrderInvalidStatus_def ErrOrderAlreadyCancelled_def
  NewDomainError_def CodeInvalidState_def StatusConflict_def StatusBadRequest_def

text \<open>
  What the dispatch of \<open>UpdateStatus\<close> does on an order in one of the five statuses:
  outside the transition table it returns an error and the order as it was; inside the
  table it sets the target status, stamps the time and appends one event.
\<close>

lemma status_neq:
  "OrderStatusPending \<noteq> OrderStatusConfirmed" "OrderStatusPending \<noteq> OrderStatusShipped"
  "OrderStatusPending \<noteq> OrderStatusDelivered" "OrderStatusPending \<noteq> OrderStatusCancelled"
  "OrderStatusConfirmed \<noteq> OrderStatusPending" "OrderStatusConfirmed \<noteq> OrderStatusShipped"
  "OrderStatusConfirmed \<noteq> OrderStatusDelivered" "OrderStatusConfirmed \<noteq> OrderStatusCancelled"
  "OrderStatusShipped \<noteq> OrderStatusPending" "OrderStatusShipped \<noteq> OrderStatusConfirmed"
  "OrderStatusShipped \<noteq> OrderStatusDelivered" "OrderStatusShipped \<noteq> OrderStatusCancelled"
  "OrderStatusDelivered \<noteq> OrderStatusPending" "OrderStatusDelivered \<noteq> OrderStatusConfirmed"
  "OrderStatusDelivered \<noteq> OrderStatusShipped" "OrderStatusDelivered \<noteq> OrderStatusCancelled"
  "OrderStatusCancelled \<noteq> OrderStatusPending" "OrderStatusCancelled \<noteq> OrderStatusConfirmed"
  "OrderStatusCancelled \<noteq> OrderStatusShipped" "OrderStatusCancelled \<noteq> OrderStatusDelivered"
  by (simp_all add: status_defs)

lemma transitionTable_iff:
  "(a, b) \<in> set transitionTable \<longleftrightarrow>
     (a = OrderStatusPending \<and> (b = OrderStatusConfirmed \<or> b = OrderStatusCancelled)) \<or>
     (a = OrderStatusConfirmed \<and> (b = OrderStatusShipped \<or> b = OrderStatusCancelled)) \<or>
     (a = OrderStatusShipped \<and> (b = OrderStatusDelivered \<or> b = OrderStatusCancelled))"
  unfolding transitionTable_def by auto

lemma applyStatus_illegal:
  assumes "order_Status ord \<in> set orderStatuses"
    and "(order_Status ord, target) \<notin> set transitionTable"
  shows "OrderService_applyStatus now target ord =
           (Some (DomainErr (if order_Status ord = OrderStatusCancelled \<and> target = OrderStatusCancelled
                             then ErrOrderAlreadyCancelled else ErrOrderInvalidStatus)), ord)"
proof -
  from assms(1) consider
      "order_Status ord = OrderStatusPending" | "order_Status ord = OrderStatusConfirmed"
    | "order_Status ord = OrderStatusShipped" | "order_Status ord = OrderStatusDelivered"
    | "order_Status ord = OrderStatusCancelled"
    unfolding orderStatuses_def by auto
  then show ?thesis
  proof cases
    case 1
    with assms(2) have "target \<noteq> OrderStatusConfirmed" "target \<noteq> OrderStatusCancelled"
      by (simp_all add: transitionTable_iff)
    with 1 show ?thesis
      by (simp add: OrderService_applyStatus_def Order_Ship_def Order_Deliver_def status_neq)
  next
    case 2
    with assms(2) have "target \<noteq> OrderStatusShipped" "target \<noteq> OrderStatusCancelled"
      by (simp_all add: transitionTable_iff status_neq)
    with 2 show ?thesis
      by (simp add: OrderService_applyStatus_def Order_Confirm_def Order_Deliver_def status_neq)
  next
    case 3
    with assms(2) have "target \<noteq> OrderStatusDelivered" "target \<noteq> OrderStatusCancelled"
      by (simp_all add: transitionTable_iff status_neq)
    with 3 show ?thesis
      by (simp add: OrderService_applyStatus_def Order_Confirm_def Order_Ship_def status_neq)
  next
    case 4
    then show ?thesis
      by (simp add: OrderService_applyStatus_def Order_Confirm_def Order_Ship_def
            Order_Deliver_def Order_Cancel_def status_neq)
  next
    case 5
    then show ?thesis
      by (simp add: OrderService_applyStatus_def Order_Confirm_def Order_Ship_def
            Order_Deliver_def Order_Cancel_def status_neq)
  qed
qed

lemma applyStatus_legal:
  assumes "(order_Status ord, target) \<in> set transitionTable"
  shows "OrderService_applyStatus now target ord =
           (None, ord\<lparr>order_Status := target, order_UpdatedAt := now,
              order_events := order_events ord @
                [if target = OrderStatusCancelled
                 then OrderCancelledEvent (order_ID ord) (order_Status ord)
                 else OrderStatusChangedEvent (order_ID ord) (order_Status ord) target]\<rparr>)"
proof -
  from assms consider
      "order_Status ord = OrderStatusPending" "target = OrderStatusConfirmed"
    | "order_Status ord = OrderStatusConfirmed" "target = OrderStatusShipped"
    | "order_Status ord = OrderStatusShipped" "target = OrderStatusDelivered"
    | "order_Status ord \<noteq> OrderStatusCancelled" "order_Status ord \<noteq> OrderStatusDelivered"
      "target = OrderStatusCancelled"
    unfolding transitionTable_iff using status_neq by metis
  then show ?thesis
  proof cases
    case 1
    then show ?thesis
      by (simp add: OrderService_applyStatus_def Order_Confirm_def Order_recordEvent_def status_neq)
  next
    case 2
    then show ?thesis
      by (simp add: OrderService_applyStatus_def Order_Ship_def Order_recordEvent_def status_neq)
  next
    case 3
    then show ?thesis
      by (simp add: OrderService_applyStatus_def Order_Deliver_def Order_recordEvent_def status_neq)
  next
    case 4
    then show ?thesis
      by (simp add: OrderService_applyStatus_def Order_Cancel_def Order_recordEvent_def status_neq)
  qed
qed

lemma invalid_state_codes:
  "Code ErrOrderInvalidStatus = CodeInvalidState"
  "Code ErrOrderAlreadyCancelled = CodeInvalidState"
  by (simp_all add: order_error_defs)

lemma applyStatus_cancel:
  "OrderService_applyStatus now OrderStatusCancelled ord = Order_Cancel now ord"
  by (simp add: OrderService_applyStatus_def status_defs)

lemma OrderService_Cancel_eq_UpdateStatus:
  "OrderService_Cancel R now oid s = OrderService_UpdateStatus R now oid OrderStatusCancelled s"
  unfolding OrderService_Cancel_def OrderService_UpdateStatus_def applyStatus_cancel ..

text \<open>
  C1. Order status state machine. Let the repository hold an order whose status is one of
  the five declared statuses. For every target such that (status, target) is not in the
  transition table, the dispatch of \<open>OrderService.UpdateStatus\<close> to
  Confirm/Ship/Deliver/Cancel fails with an error whose code is \<open>INVALID_STATE\<close>
  (\<open>ErrOrderInvalidStatus\<close>, or \<open>ErrOrderAlreadyCancelled\<close> for canceled to canceled),
  the order is left as it was, the store is not written and nothing is published. For
  every pair in the table the order gets the target status and exactly one event is
  appended to its pending events: a status-changed event, or a cancellation event when the
  target is canceled; the service then writes the status and, if the write succeeds,
  publishes the pending events. \<open>OrderService.Cancel\<close> behaves as \<open>UpdateStatus\<close> with
  target canceled.
\<close>

theorem order_state_machine:
  assumes "orderRepo_GetByID R oid s = Inr (Some ord)"
    and "order_Status ord \<in> set orderStatuses"
  shows "((order_Status ord, target) \<notin> set transitionTable \<longrightarrow>
           (\<exists>e. OrderService_applyStatus now target ord = (Some (DomainErr e), ord)
                \<and> Code e = CodeInvalidState
                \<and> e = (if order_Status ord = OrderStatusCancelled \<and> target = OrderStatusCancelled
                       then ErrOrderAlreadyCancelled else ErrOrderInvalidStatus)
                \<and> OrderService_UpdateStatus R now oid target s = (Some (DomainErr e), s, []))) \<and>
         ((order_Status ord, target) \<in> set transitionTable \<longrightarrow>
           (\<exists>ev ord'. OrderService_applyStatus now target ord = (None, ord')
                 \<and> ord' = ord\<lparr>order_Status := target, order_UpdatedAt := now,
                                order_events := order_events ord @ [ev]\<rparr>
                 \<and> ev = (if target = OrderStatusCancelled
                         then OrderCancelledEvent (order_ID ord) (order_Status ord)
                         else OrderStatusChangedEvent (order_ID ord) (order_Status ord) target)
                 \<and> OrderService_UpdateStatus R now oid target s =
                     (case orderRepo_UpdateStatus R oid target s of
                        (Some err, s') \<Rightarrow> (Some err, s', [])
                      | (None, s') \<Rightarrow> (None, s', OrderService_publishEvents ord')))) \<and>
         OrderService_Cancel R now oid s =
           OrderService_UpdateStatus R now oid OrderStatusCancelled s"
proof (intro conjI impI)
  assume illegal: "(order_Status ord, target) \<notin> set transitionTable"
  let ?e = "if order_Status ord = OrderStatusCancelled \<and> target = OrderStatusCancelled
            then ErrOrderAlreadyCancelled else ErrOrderInvalidStatus"
  have a: "OrderService_applyStatus now target ord = (Some (DomainErr ?e), ord)"
    using applyStatus_illegal [OF assms(2) illegal] .
  have c: "Code ?e = CodeInvalidState"
    by (simp add: invalid_state_codes)
  have u: "OrderService_UpdateStatus R now oid target s = (Some (DomainErr ?e), s, [])"
    unfolding OrderService_UpdateStatus_def using assms(1) a by simp
  from a c u show "\<exists>e. OrderService_applyStatus now target ord = (Some (DomainErr e), ord)
      \<and> Code e = CodeInvalidState
      \<and> e = (if order_Status ord = OrderStatusCancelled \<and> target = OrderStatusCancelled
             then ErrOrderAlreadyCancelled else ErrOrderInvalidStatus)
      \<and> OrderService_UpdateStatus R now oid target s = (Some (DomainErr e), s, [])"
    by blast
next
  assume legal: "(order_Status ord, target) \<in> set transitionTable"
  let ?ev = "if target = OrderStatusCancelled
             then OrderCancelledEvent (order_ID ord) (order_Status ord)
             else OrderStatusChangedEvent (order_ID ord) (order_Status ord) target"
  let ?ord' = "ord\<lparr>order_Status := target, order_UpdatedAt := now,
                   order_events := order_events ord @ [?ev]\<rparr>"
  have a: "OrderService_applyStatus now target ord = (None, ?ord')"
    using applyStatus_legal [OF legal] .
  have u: "OrderService_UpdateStatus R now oid target s =
             (case orderRepo_UpdateStatus R oid target s of
                (Some err, s') \<Rightarrow> (Some err, s', [])
              | (None, s') \<Rightarrow> (None, s', OrderService_publishEvents ?ord'))"
    unfolding OrderService_UpdateStatus_def using assms(1) a by simp
  from a u show "\<exists>ev ord'. OrderService_applyStatus now target ord = (None, ord')
      \<and> ord' = ord\<lparr>order_Status := target, order_UpdatedAt := now,
                     order_events := order_events ord @ [ev]\<rparr>
      \<and> ev = (if target = OrderStatusCancelled
              then OrderCancelledEvent (order_ID ord) (order_Status ord)
              else OrderStatusChangedEvent (order_ID ord) (order_Status ord) target)
      \<and> OrderService_UpdateStatus R now oid target s =
          (case orderRepo_UpdateStatus R oid target s of
             (Some err, s') \<Rightarrow> (Some err, s', [])
           | (None, s') \<Rightarrow> (None, s', OrderService_publishEvents ord'))"
    by blast
next
  show "OrderService_Cancel R now oid s =
          OrderService_UpdateStatus R now oid OrderStatusCancelled s"
    by (rule OrderService_Cancel_eq_UpdateStatus)
qed

text \<open>
  The theorem at a store holding one confirmed order: delivering it directly is refused
  and the store keeps the confirmed order (scenario 3 of the specification); shipping it
  is accepted, stored and published as one status-changed event.
\<close>

theorem order_state_machine_witness:
  "OrderService_UpdateStatus memOrderRepo 5 ''o1'' OrderStatusDelivered
      [orderWith OrderStatusConfirmed]
     = (Some (DomainErr ErrOrderInvalidStatus), [orderWith OrderStatusConfirmed], []) \<and>
   OrderService_UpdateStatus memOrderRepo 5 ''o1'' OrderStatusShipped
      [orderWith OrderStatusConfirmed]
     = (None,
        [orderWith OrderStatusShipped],
        [(''order.status_changed'', ''o1'',
          OrderStatusChangedEvent ''o1'' OrderStatusConfirmed OrderStatusShipped)])"
proof -
  let ?c = "orderWith OrderStatusConfirmed"
  let ?s = "[?c]"
  have g: "orderRepo_GetByID memOrderRepo ''o1'' ?s = Inr (Some ?c)"
    by (simp add: memOrderRepo_def orderWith_def)
  have st: "order_Status ?c = OrderStatusConfirmed" "order_ID ?c = ''o1''" "order_events ?c = []"
    by (simp_all add: orderWith_def)
  have m: "order_Status ?c \<in> set orderStatuses"
    by (simp add: st orderStatuses_def)
  have n: "(order_Status ?c, OrderStatusDelivered) \<notin> set transitionTable"
    unfolding st by (simp add: transitionTable_iff status_neq)
  have y: "(order_Status ?c, OrderStatusShipped) \<in> set transitionTable"
    unfolding st by (simp add: transitionTable_iff)
  have ne: "OrderStatusConfirmed \<noteq> OrderStatusCancelled" "OrderStatusShipped \<noteq> OrderStatusCancelled"
    by (simp_all add: status_defs)
  from order_state_machine [OF g m, of OrderStatusDelivered 5] n
  have p1: "OrderService_UpdateStatus memOrderRepo 5 ''o1'' OrderStatusDelivered ?s
        = (Some (DomainErr ErrOrderInvalidStatus), ?s, [])"
    by (simp add: st ne)
  have w: "orderRepo_UpdateStatus memOrderRepo ''o1'' OrderStatusShipped ?s
        = (None, [orderWith OrderStatusShipped])"
    by (simp add: memOrderRepo_def orderWith_def)
  from order_state_machine [OF g m, of OrderStatusShipped 5] y
  have p2: "OrderService_UpdateStatus memOrderRepo 5 ''o1'' OrderStatusShipped ?s
     = (None, [orderWith OrderStatusShipped],
        [(''order.status_changed'', ''o1'',
          OrderStatusChangedEvent ''o1'' OrderStatusConfirmed OrderStatusShipped)])"
    by (simp add: st ne w OrderService_publishEvents_def Order_Events_def)
  from p1 p2 show ?thesis by simp
qed
section \<open>Properties of the product stock\<close>

lemma stock_error_codes:
  "Code ErrProductStockNegative = CodeValidationError"
  "Code ErrProductInsufficientStock = CodeInsufficientStock"
  "CodeValidationError \<noteq> CodeInsufficientStock"
  "ErrProductStockNegative \<noteq> ErrProductInsufficientStock"
  by (simp_all add: ErrProductStockNegative_def ErrProductInsufficientStock_def NewDomainError_def
        CodeValidationError_def CodeInsufficientStock_def)

lemma sint_add_no_overflow:
  fixes a b :: go_int
  assumes "- (2 ^ 63) \<le> sint a + sint b" and "sint a + sint b < 2 ^ 63"
  shows "sint (a + b) = sint a + sint b"
  using assms by (simp add: sint_word_add signed_take_bit_int_eq_self)

lemma ProductService_UpdateStock_refused:
  assumes "productRepo_GetByID R pid s = Inr (Some p)"
    and "sint (product_Stock p + delta) < 0"
  shows "ProductService_UpdateStock R now pid delta s =
           (Some (DomainErr ErrProductStockNegative), s, [])"
  unfolding ProductService_UpdateStock_def using assms
  by (simp add: Product_UpdateStock_def)

text \<open>
  C4 as stated fails: a stock update that would go below zero is refused with
  \<open>ErrProductStockNegative\<close>, whose code is \<open>VALIDATION_ERROR\<close>, and not with the
  insufficient-stock error. Here the stock is 5 and the delta is -6.
\<close>

theorem update_stock_error_kind_counterexample:
  "sint (product_Stock widget + (- 6)) < 0 \<and>
   Product_UpdateStock 7 (- 6) widget = (Some (DomainErr ErrProductStockNegative), widget) \<and>
   ProductService_UpdateStock memProductRepo 7 ''p1'' (- 6) [widget] =
     (Some (DomainErr ErrProductStockNegative), [widget], []) \<and>
   Code ErrProductStockNegative = CodeValidationError \<and>
   Code ErrProductStockNegative \<noteq> CodeInsufficientStock \<and>
   ErrProductStockNegative \<noteq> ErrProductInsufficientStock"
proof -
  have g: "productRepo_GetByID memProductRepo ''p1'' [widget] = Inr (Some widget)"
    by (simp add: memProductRepo_def widget_def)
  have n: "sint (product_Stock widget + (- 6)) < 0"
    by (simp add: widget_def)
  have m: "Product_UpdateStock 7 (- 6) widget = (Some (DomainErr ErrProductStockNegative), widget)"
    using n by (simp add: Product_UpdateStock_def)
  show ?thesis
    using n m ProductService_UpdateStock_refused [OF g n, of 7]
    by (simp add: stock_error_codes)
qed

text \<open>
  C4, amended. \<open>currentStock + delta\<close> is Go's 64-bit addition. For every product and
  delta whose sum is negative, \<open>UpdateStock\<close> fails with \<open>ErrProductStockNegative\<close> (a
  validation error), the product is unchanged, and the service neither writes the store
  nor publishes an event; for every delta whose sum is not negative the call succeeds,
  the new stock is the sum, and the service asks the repository to add the delta. The
  sum is the mathematical one whenever that fits in 64 bits.
\<close>

theorem update_stock_guard:
  assumes "productRepo_GetByID R pid s = Inr (Some p)"
  shows "(sint (product_Stock p + delta) < 0 \<longrightarrow>
            Product_UpdateStock now delta p = (Some (DomainErr ErrProductStockNegative), p) \<and>
            ProductService_UpdateStock R now pid delta s =
              (Some (DomainErr ErrProductStockNegative), s, [])) \<and>
         (0 \<le> sint (product_Stock p + delta) \<longrightarrow>
            (\<exists>p'. Product_UpdateStock now delta p = (None, p') \<and>
                  product_Stock p' = product_Stock p + delta \<and>
                  ProductService_UpdateStock R now pid delta s =
                    (case productRepo_UpdateStock R pid delta s of
                       (Some err, s') \<Rightarrow> (Some err, s', [])
                     | (None, s') \<Rightarrow> (None, s', ProductService_publishEvents p')))) \<and>
         (- (2 ^ 63) \<le> sint (product_Stock p) + sint delta \<and>
          sint (product_Stock p) + sint delta < 2 ^ 63 \<longrightarrow>
            sint (product_Stock p + delta) = sint (product_Stock p) + sint delta)"
proof (intro conjI impI)
  assume n: "sint (product_Stock p + delta) < 0"
  then show "Product_UpdateStock now delta p = (Some (DomainErr ErrProductStockNegative), p)"
    by (simp add: Product_UpdateStock_def)
  show "ProductService_UpdateStock R now pid delta s =
      (Some (DomainErr ErrProductStockNegative), s, [])"
    by (rule ProductService_UpdateStock_refused [OF assms n])
next
  assume ok: "0 \<le> sint (product_Stock p + delta)"
  obtain p' where m: "Product_UpdateStock now delta p = (None, p')"
    and st: "product_Stock p' = product_Stock p + delta"
    using ok by (simp add: Product_UpdateStock_def Product_recordEvent_def Let_def)
  have "ProductService_UpdateStock R now pid delta s =
      (case productRepo_UpdateStock R pid delta s of
         (Some err, s') \<Rightarrow> (Some err, s', [])
       | (None, s') \<Rightarrow> (None, s', ProductService_publishEvents p'))"
    unfolding ProductService_UpdateStock_def using assms m by simp
  with m st show "\<exists>p'. Product_UpdateStock now delta p = (None, p') \<and>
      product_Stock p' = product_Stock p + delta \<and>
      ProductService_UpdateStock R now pid delta s =
        (case productRepo_UpdateStock R pid delta s of
           (Some err, s') \<Rightarrow> (Some err, s', [])
         | (None, s') \<Rightarrow> (None, s', ProductService_publishEvents p'))"
    by blast
next
  assume "- (2 ^ 63) \<le> sint (product_Stock p) + sint delta \<and>
    sint (product_Stock p) + sint delta < 2 ^ 63"
  then show "sint (product_Stock p + delta) = sint (product_Stock p) + sint delta"
    by (simp add: sint_add_no_overflow)
qed

text \<open>
  The theorem at a store holding the product with stock 5: the delta -6 is refused and
  the store is as it was; the delta 2 is accepted, the stored stock is 7 and one
  \<open>product.stock_updated\<close> event is published.
\<close>

theorem update_stock_guard_witness:
  "ProductService_UpdateStock memProductRepo 7 ''p1'' (- 6) [widget] =
     (Some (DomainErr ErrProductStockNegative), [widget], []) \<and>
   ProductService_UpdateStock memProductRepo 7 ''p1'' 2 [widget] =
     (None, [widget\<lparr>product_Stock := 7\<rparr>],
      [(''product.stock_updated'', ''p1'', StockUpdatedEvent ''p1'' 5 7 2)]) \<and>
   sint (product_Stock widget + 2) = 7"
proof -
  have g: "productRepo_GetByID memProductRepo ''p1'' [widget] = Inr (Some widget)"
    by (simp add: memProductRepo_def widget_def)
  have n: "sint (product_Stock widget + (- 6)) < 0" "0 \<le> sint (product_Stock widget + 2)"
    "sint (product_Stock widget + 2) = 7"
    by (simp_all add: widget_def)
  have w: "productRepo_UpdateStock memProductRepo ''p1'' 2 [widget] =
      (None, [widget\<lparr>product_Stock := 7\<rparr>])"
    by (simp add: memProductRepo_def widget_def)
  have m: "Product_UpdateStock 7 2 widget =
      (None, widget\<lparr>product_Stock := 7, product_UpdatedAt := 7,
         product_events := [StockUpdatedEvent ''p1'' 5 7 2]\<rparr>)"
    by (simp add: Product_UpdateStock_def Product_recordEvent_def Let_def widget_def)
  have e: "ProductService_publishEvents (widget\<lparr>product_Stock := 7, product_UpdatedAt := 7,
         product_events := [StockUpdatedEvent ''p1'' 5 7 2]\<rparr>) =
      [(''product.stock_updated'', ''p1'', StockUpdatedEvent ''p1'' 5 7 2)]"
    by (simp add: ProductService_publishEvents_def Product_Events_def widget_def)
  from update_stock_guard [OF g, of "- 6" 7] n(1)
  have a: "ProductService_UpdateStock memProductRepo 7 ''p1'' (- 6) [widget] =
      (Some (DomainErr ErrProductStockNegative), [widget], [])"
    by blast
  from update_stock_guard [OF g, of 2 7] n(2)
  have b: "ProductService_UpdateStock memProductRepo 7 ''p1'' 2 [widget] =
      (None, [widget\<lparr>product_Stock := 7\<rparr>],
       [(''product.stock_updated'', ''p1'', StockUpdatedEvent ''p1'' 5 7 2)])"
    by (auto simp: m w e)
  from a b n(3) show ?thesis by simp
qed

text \<open>
  C10. Every successful \<open>UpdateStock(quantity)\<close> appends exactly one
  \<open>product.stock_updated\<close> event to the pending events; its OldStock is the stock before
  the call, its NewStock is OldStock + quantity, its Change is quantity, and the stock
  after the call is NewStock.
\<close>

theorem update_stock_event_consistent:
  assumes "Product_UpdateStock now quantity p = (None, p')"
  shows "\<exists>oldStock newStock change.
           product_events p' =
             product_events p @ [StockUpdatedEvent (product_ID p) oldStock newStock change]
         \<and> ProductEvent_EventName (StockUpdatedEvent (product_ID p) oldStock newStock change)
             = ''product.stock_updated''
         \<and> oldStock = product_Stock p \<and> newStock = oldStock + quantity \<and> change = quantity
         \<and> product_Stock p' = newStock"
proof -
  from assms have ok: "\<not> sint (product_Stock p + quantity) < 0"
    by (auto simp: Product_UpdateStock_def Let_def split: if_splits)
  with assms have p': "p' = (p\<lparr>product_Stock := product_Stock p + quantity,
        product_UpdatedAt := now\<rparr>)\<lparr>product_events := product_events p @
          [StockUpdatedEvent (product_ID p) (product_Stock p + quantity - quantity)
             (product_Stock p + quantity) quantity]\<rparr>"
    by (simp add: Product_UpdateStock_def Product_recordEvent_def Let_def)
  show ?thesis
    by (simp add: p')
qed

text \<open>
  The theorem at the product with stock 5 and the quantity -2: the event records the old
  stock 5, the new stock 3 and the change -2.
\<close>

theorem update_stock_event_consistent_witness:
  "Product_UpdateStock 7 (- 2) widget =
     (None, widget\<lparr>product_Stock := 3, product_UpdatedAt := 7,
        product_events := [StockUpdatedEvent ''p1'' 5 3 (- 2)]\<rparr>) \<and>
   (\<exists>oldStock newStock change.
      [StockUpdatedEvent ''p1'' 5 3 (- 2)] = [StockUpdatedEvent ''p1'' oldStock newStock change]
      \<and> oldStock = 5 \<and> newStock = oldStock + (- 2) \<and> change = - 2 \<and> newStock = 3)"
proof -
  have run: "Product_UpdateStock 7 (- 2) widget =
      (None, widget\<lparr>product_Stock := 3, product_UpdatedAt := 7,
         product_events := [StockUpdatedEvent ''p1'' 5 3 (- 2)]\<rparr>)"
    by (simp add: Product_UpdateStock_def Product_recordEvent_def Let_def widget_def)
  from update_stock_event_consistent [OF run] run show ?thesis
    by (simp add: widget_def)
qed
section \<open>Properties of the order total\<close>

lemma calculateTotal_loop_foldl:
  "calculateTotal_loop F t items =
     foldl (\<lambda>acc item. fadd F acc (fmul F (item_Price item) (fofint F (item_Quantity item))))
       t items"
  by (induction items arbitrary: t) simp_all

lemma calculateTotal_itemsSum:
  "order_Total (Order_calculateTotal F ord) = itemsSum F (order_Items ord)"
  by (simp add: Order_calculateTotal_def itemsSum_def calculateTotal_loop_foldl)

lemma assignItemIDs_keeps_price_quantity:
  "map (\<lambda>item. (item_Price item, item_Quantity item)) (assignItemIDs uuid clock orderID i items)
     = map (\<lambda>item. (item_Price item, item_Quantity item)) items"
  by (induction items arbitrary: i) simp_all

lemma itemsSum_price_quantity:
  "itemsSum F items =
     foldl (\<lambda>acc (price, quantity). fadd F acc (fmul F price (fofint F quantity))) (fzero F)
       (map (\<lambda>item. (item_Price item, item_Quantity item)) items)"
  by (simp add: itemsSum_def foldl_map)

lemma itemsSum_assignItemIDs:
  "itemsSum F (assignItemIDs uuid clock orderID i items) = itemsSum F items"
  by (simp add: itemsSum_price_quantity assignItemIDs_keeps_price_quantity)

lemma NewOrder_Inr:
  assumes "NewOrder F uuid clock userID items = Inr ord"
  shows "order_Items ord = assignItemIDs uuid clock (uuid 0) 0 items"
    and "order_Total ord = itemsSum F (order_Items ord)"
    and "order_Status ord = OrderStatusPending"
    and "order_UserID ord = userID"
    and "order_events ord =
           [OrderCreatedEvent userID (word_of_nat (length items)) (order_Total ord)]"
  using assms
  by (auto simp: NewOrder_def Let_def Order_recordEvent_def Order_calculateTotal_def
        itemsSum_def calculateTotal_loop_foldl split: option.splits)

lemma transition_keeps_items_total:
  "order_Items (snd (Order_Confirm now ord)) = order_Items ord"
  "order_Total (snd (Order_Confirm now ord)) = order_Total ord"
  "order_Items (snd (Order_Ship now ord)) = order_Items ord"
  "order_Total (snd (Order_Ship now ord)) = order_Total ord"
  "order_Items (snd (Order_Deliver now ord)) = order_Items ord"
  "order_Total (snd (Order_Deliver now ord)) = order_Total ord"
  "order_Items (snd (Order_Cancel now ord)) = order_Items ord"
  "order_Total (snd (Order_Cancel now ord)) = order_Total ord"
  by (simp_all add: Order_Confirm_def Order_Ship_def Order_Deliver_def Order_Cancel_def
        Order_recordEvent_def)

lemma applyStatus_keeps_items_total:
  "order_Items (snd (OrderService_applyStatus now status ord)) = order_Items ord"
  "order_Total (snd (OrderService_applyStatus now status ord)) = order_Total ord"
  by (simp_all add: OrderService_applyStatus_def transition_keeps_items_total)

lemma applyStatuses_keeps_items_total:
  assumes "applyStatuses steps ord = Inr ord'"
  shows "order_Items ord' = order_Items ord \<and> order_Total ord' = order_Total ord"
  using assms
proof (induction steps arbitrary: ord)
  case Nil
  then show ?case by simp
next
  case (Cons step steps)
  obtain now status where step: "step = (now, status)"
    by (cases step)
  obtain err mid where r: "OrderService_applyStatus now status ord = (err, mid)"
    by (cases "OrderService_applyStatus now status ord")
  from Cons.prems step r have none: "err = None" and rest: "applyStatuses steps mid = Inr ord'"
    by (cases err; simp)+
  have "order_Items mid = order_Items ord" "order_Total mid = order_Total ord"
    using applyStatus_keeps_items_total [of now status ord] r by simp_all
  with Cons.IH [OF rest] show ?case by simp
qed

text \<open>
  C2. For every order that \<open>NewOrder\<close> returns, the total is the sum over its items of
  unit price times quantity (the \<open>float64\<close> sum accumulated in item order), which is the
  same sum over the items handed to \<open>NewOrder\<close>: the total has no other source. The
  equality still holds after any run of successful status transitions
  (Confirm, Ship, Deliver, Cancel), which leave the items and the total as they were.
\<close>

theorem order_total_is_items_sum:
  assumes "NewOrder F uuid clock userID items = Inr ord"
    and "applyStatuses steps ord = Inr ord'"
  shows "order_Total ord = itemsSum F (order_Items ord) \<and>
         order_Total ord' = itemsSum F (order_Items ord') \<and>
         itemsSum F (order_Items ord') = itemsSum F items"
proof -
  have t: "order_Total ord = itemsSum F (order_Items ord)"
    and i: "order_Items ord = assignItemIDs uuid clock (uuid 0) 0 items"
    using NewOrder_Inr [OF assms(1)] by simp_all
  have k: "order_Items ord' = order_Items ord" "order_Total ord' = order_Total ord"
    using applyStatuses_keeps_items_total [OF assms(2)] by simp_all
  show ?thesis
    by (simp add: k t) (simp add: i itemsSum_assignItemIDs)
qed

text \<open>
  Scenario 2 of the specification in exact arithmetic: one item of quantity 3 at the price
  9.99 gives a pending order with the total 29.97, and the total is the same after the
  order was confirmed and shipped.
\<close>

theorem order_total_is_items_sum_witness:
  "\<exists>ord ord'.
     NewOrder exact_ops testUuid testClock ''u1'' [newWidgetItem] = Inr ord \<and>
     order_Status ord = OrderStatusPending \<and>
     applyStatuses [(5, OrderStatusConfirmed), (6, OrderStatusShipped)] ord = Inr ord' \<and>
     order_Status ord' = OrderStatusShipped \<and>
     order_Total ord = 2997 / 100 \<and> order_Total ord' = 2997 / 100 \<and>
     order_Total ord' = itemsSum exact_ops (order_Items ord')"
proof -
  define ord where "ord =
    \<lparr>order_ID = ''o1'', order_UserID = ''u1'',
     order_Items = [newWidgetItem\<lparr>item_ID := ''i1'', item_OrderID := ''o1'', item_CreatedAt := 2\<rparr>],
     order_Total = (2997 / 100 :: real), order_Status = OrderStatusPending,
     order_CreatedAt = 0, order_UpdatedAt = 1, order_DeletedAt = None,
     order_events = [OrderCreatedEvent ''u1'' 1 (2997 / 100)]\<rparr>"
  define ord' where "ord' =
    ord\<lparr>order_Status := OrderStatusShipped, order_UpdatedAt := 6,
        order_events := order_events ord @
          [OrderStatusChangedEvent ''o1'' OrderStatusPending OrderStatusConfirmed,
           OrderStatusChangedEvent ''o1'' OrderStatusConfirmed OrderStatusShipped]\<rparr>"
  have a: "NewOrder exact_ops testUuid testClock ''u1'' [newWidgetItem] = Inr ord"
    by (simp add: NewOrder_def Let_def Order_Validate_def Order_calculateTotal_def
          Order_recordEvent_def exact_ops_def testUuid_def testClock_def newWidgetItem_def
          ord_def)
  have b: "applyStatuses [(5, OrderStatusConfirmed), (6, OrderStatusShipped)] ord = Inr ord'"
    by (simp add: OrderService_applyStatus_def Order_Confirm_def Order_Ship_def
          Order_recordEvent_def status_neq ord_def ord'_def)
  have c: "order_Status ord = OrderStatusPending" "order_Status ord' = OrderStatusShipped"
    "order_Total ord = 2997 / 100" "order_Total ord' = 2997 / 100"
    by (simp_all add: ord_def ord'_def)
  from order_total_is_items_sum [OF a b] a b c show ?thesis
    by blast
qed

section \<open>Double cancellation\<close>

lemma cancel_error_facts:
  "HTTPStatus ErrOrderAlreadyCancelled = StatusConflict"
  "HTTPStatus ErrOrderInvalidStatus = StatusBadRequest"
  "StatusBadRequest \<noteq> StatusConflict"
  "ErrOrderAlreadyCancelled \<noteq> ErrOrderInvalidStatus"
  "Message ErrOrderAlreadyCancelled = ''order is already canceled''"
  "Message ErrOrderInvalidStatus = ''invalid order status transition''"
  by (simp_all add: order_error_defs)

lemma cancel_error_codes:
  "Code ErrOrderAlreadyCancelled = CodeInvalidState"
  "Code ErrOrderInvalidStatus = CodeInvalidState"
  "CodeInvalidState \<noteq> CodeConflict"
  by (simp_all add: order_error_defs CodeConflict_def)

text \<open>
  C3 as stated fails: the error of a double cancellation is not of a conflict kind set
  apart from the invalid-state kind. Cancelling the canceled order returns
  \<open>ErrOrderAlreadyCancelled\<close>, whose code is \<open>INVALID_STATE\<close>, the very code of
  \<open>ErrOrderInvalidStatus\<close>, and not \<open>CONFLICT\<close>.
\<close>

theorem double_cancel_code_counterexample:
  "Order_Cancel 5 (orderWith OrderStatusCancelled) =
     (Some (DomainErr ErrOrderAlreadyCancelled), orderWith OrderStatusCancelled) \<and>
   Code ErrOrderAlreadyCancelled = CodeInvalidState \<and>
   Code ErrOrderAlreadyCancelled = Code ErrOrderInvalidStatus \<and>
   Code ErrOrderAlreadyCancelled \<noteq> CodeConflict"
  by (simp add: cancel_error_codes) (simp add: Order_Cancel_def orderWith_def)

text \<open>
  C3, amended. Cancelling an order whose status is already canceled fails with
  \<open>ErrOrderAlreadyCancelled\<close>, an explicit error of its own: it has its own message and
  the HTTP status 409 Conflict and is a different value from \<open>ErrOrderInvalidStatus\<close>
  (status 400), which is what cancelling a delivered order returns; it carries the same
  code \<open>INVALID_STATE\<close> as that error, so by its code it is an invalid-state error. The
  call is not a silent success: the error is returned, the order is left as it was, the
  store is not written and nothing is published.
\<close>

theorem double_cancel_explicit_error:
  assumes "orderRepo_GetByID R oid s = Inr (Some ord)"
    and "order_Status ord = OrderStatusCancelled"
  shows "Order_Cancel now ord = (Some (DomainErr ErrOrderAlreadyCancelled), ord) \<and>
         OrderService_Cancel R now oid s = (Some (DomainErr ErrOrderAlreadyCancelled), s, []) \<and>
         OrderService_UpdateStatus R now oid OrderStatusCancelled s =
           (Some (DomainErr ErrOrderAlreadyCancelled), s, []) \<and>
         Code ErrOrderAlreadyCancelled = CodeInvalidState \<and>
         Code ErrOrderInvalidStatus = CodeInvalidState \<and>
         Message ErrOrderAlreadyCancelled = ''order is already canceled'' \<and>
         Message ErrOrderInvalidStatus = ''invalid order status transition'' \<and>
         HTTPStatus ErrOrderAlreadyCancelled = StatusConflict \<and>
         HTTPStatus ErrOrderInvalidStatus = StatusBadRequest \<and>
         ErrOrderAlreadyCancelled \<noteq> ErrOrderInvalidStatus \<and>
         Order_Cancel now (ord\<lparr>order_Status := OrderStatusDelivered\<rparr>) =
           (Some (DomainErr ErrOrderInvalidStatus), ord\<lparr>order_Status := OrderStatusDelivered\<rparr>)"
proof -
  have c: "Order_Cancel now ord = (Some (DomainErr ErrOrderAlreadyCancelled), ord)"
    using assms(2) by (simp add: Order_Cancel_def)
  have s: "OrderService_Cancel R now oid s = (Some (DomainErr ErrOrderAlreadyCancelled), s, [])"
    unfolding OrderService_Cancel_def using assms(1) c by simp
  have u: "OrderService_UpdateStatus R now oid OrderStatusCancelled s =
      (Some (DomainErr ErrOrderAlreadyCancelled), s, [])"
    using s by (simp add: OrderService_Cancel_eq_UpdateStatus)
  have d: "Order_Cancel now (ord\<lparr>order_Status := OrderStatusDelivered\<rparr>) =
      (Some (DomainErr ErrOrderInvalidStatus), ord\<lparr>order_Status := OrderStatusDelivered\<rparr>)"
    by (simp add: Order_Cancel_def status_neq)
  show ?thesis
    by (simp add: c s u d cancel_error_facts cancel_error_codes)
qed

text \<open>The theorem at a store holding one canceled order.\<close>

theorem double_cancel_explicit_error_witness:
  "OrderService_Cancel memOrderRepo 5 ''o1'' [orderWith OrderStatusCancelled] =
     (Some (DomainErr ErrOrderAlreadyCancelled), [orderWith OrderStatusCancelled], []) \<and>
   Code ErrOrderAlreadyCancelled = ''INVALID_STATE'' \<and>
   HTTPStatus ErrOrderAlreadyCancelled = 409"
proof -
  have g: "orderRepo_GetByID memOrderRepo ''o1'' [orderWith OrderStatusCancelled]
      = Inr (Some (orderWith OrderStatusCancelled))"
    by (simp add: memOrderRepo_def orderWith_def)
  have c: "order_Status (orderWith OrderStatusCancelled) = OrderStatusCancelled"
    by (simp add: orderWith_def)
  from double_cancel_explicit_error [OF g c, of 5] show ?thesis
    by (simp add: StatusConflict_def CodeInvalidState_def)
qed

section \<open>Creating a user whose email is taken\<close>

lemma email_taken_facts:
  "HTTPStatus ErrUserEmailTaken = StatusConflict"
  "Code ErrUserEmailTaken = ''EMAIL_TAKEN''"
  "Message ErrUserEmailTaken = ''user email is already taken''"
  by (simp_all add: ErrUserEmailTaken_def NewDomainError_def)

lemma UserService_Create_calls:
  "(\<exists>r s' evs. UserService_Create R uuid clock email name password s
        = (r, s', [CallGetByEmail email], evs) \<and> s' = s \<and> evs = [] \<and> (\<exists>err. r = Inl err))
   \<or> (\<exists>r s' evs user. UserService_Create R uuid clock email name password s
        = (r, s', [CallGetByEmail email, CallCreate user], evs)
        \<and> userRepo_GetByEmail R email s = Inr None
        \<and> NewUser uuid clock email name password = Inr user)"
  unfolding UserService_Create_def
  by (auto split: sum.splits option.splits prod.splits)

text \<open>
  C7. When the repository lookup by email returns an existing user, \<open>UserService.Create\<close>
  fails with \<open>ErrUserEmailTaken\<close>, an error with HTTP status 409 Conflict, whatever the
  name and the password are (also ones the factory would reject): the only repository
  call made is the lookup, the store is returned as it was and nothing is published. In
  every run the lookup is the first repository call, and the insert is made only after
  the lookup found no user and the factory built one.
\<close>

theorem create_user_email_taken:
  assumes "userRepo_GetByEmail R email s = Inr (Some existing)"
  shows "UserService_Create R uuid clock email name password s =
           (Inl (DomainErr ErrUserEmailTaken), s, [CallGetByEmail email], []) \<and>
         HTTPStatus ErrUserEmailTaken = StatusConflict \<and>
         (\<forall>R' s' uuid' clock' email' name' password' r t calls evs.
            UserService_Create R' uuid' clock' email' name' password' s' = (r, t, calls, evs) \<longrightarrow>
              calls = [CallGetByEmail email'] \<and> t = s' \<and> evs = [] \<and> (\<exists>err. r = Inl err)
              \<or> (\<exists>user. calls = [CallGetByEmail email', CallCreate user]
                    \<and> userRepo_GetByEmail R' email' s' = Inr None
                    \<and> NewUser uuid' clock' email' name' password' = Inr user))"
proof (intro conjI allI impI)
  show "UserService_Create R uuid clock email name password s =
      (Inl (DomainErr ErrUserEmailTaken), s, [CallGetByEmail email], [])"
    unfolding UserService_Create_def using assms by simp
next
  show "HTTPStatus ErrUserEmailTaken = StatusConflict"
    by (rule email_taken_facts)
next
  fix R' :: "'b IUserRepo" and s' uuid' clock' email' name' password' r t calls evs
  assume run: "UserService_Create R' uuid' clock' email' name' password' s' = (r, t, calls, evs)"
  from UserService_Create_calls [of R' uuid' clock' email' name' password' s'] run
  show "calls = [CallGetByEmail email'] \<and> t = s' \<and> evs = [] \<and> (\<exists>err. r = Inl err)
      \<or> (\<exists>user. calls = [CallGetByEmail email', CallCreate user]
            \<and> userRepo_GetByEmail R' email' s' = Inr None
            \<and> NewUser uuid' clock' email' name' password' = Inr user)"
    by auto
qed

text \<open>
  Scenario 1 of the specification: creating a user on the empty store succeeds and stores
  the user; creating a second user with the same email is refused.
\<close>

lemma email_a_b_com: "MatchString emailRegex ''a@b.com''"
  by code_simp

theorem create_user_email_taken_witness:
  "UserService_Create memUserRepo ''u1'' testClock ''a@b.com'' ''A'' ''secret1'' [] =
     (Inr (alice\<lparr>user_events := [UserCreatedEvent ''a@b.com'' ''A'']\<rparr>), [alice],
      [CallGetByEmail ''a@b.com'',
       CallCreate (alice\<lparr>user_events := [UserCreatedEvent ''a@b.com'' ''A'']\<rparr>)],
      [(''user.created'', ''u1'', UserCreatedEvent ''a@b.com'' ''A'')]) \<and>
   UserService_Create memUserRepo ''u2'' testClock ''a@b.com'' ''B'' [] [alice] =
     (Inl (DomainErr ErrUserEmailTaken), [alice], [CallGetByEmail ''a@b.com''], [])"
proof -
  have nu: "NewUser ''u1'' testClock ''a@b.com'' ''A'' ''secret1'' =
      Inr (alice\<lparr>user_events := [UserCreatedEvent ''a@b.com'' ''A'']\<rparr>)"
    using email_a_b_com
    by (simp add: NewUser_def User_Validate_def Let_def User_recordEvent_def alice_def
          testClock_def del: MatchString.simps)
  have g0: "userRepo_GetByEmail memUserRepo ''a@b.com'' [] = Inr None"
    by (simp add: memUserRepo_def)
  have cr: "userRepo_Create memUserRepo
      (alice\<lparr>user_events := [UserCreatedEvent ''a@b.com'' ''A'']\<rparr>) []
      = (Inr (alice\<lparr>user_events := [UserCreatedEvent ''a@b.com'' ''A'']\<rparr>), [alice])"
    by (simp add: memUserRepo_def alice_def)
  have pe: "UserService_publishEvents (alice\<lparr>user_events := [UserCreatedEvent ''a@b.com'' ''A'']\<rparr>)
      = [(''user.created'', ''u1'', UserCreatedEvent ''a@b.com'' ''A'')]"
    by (simp add: UserService_publishEvents_def User_Events_def alice_def)
  have first: "UserService_Create memUserRepo ''u1'' testClock ''a@b.com'' ''A'' ''secret1'' [] =
     (Inr (alice\<lparr>user_events := [UserCreatedEvent ''a@b.com'' ''A'']\<rparr>), [alice],
      [CallGetByEmail ''a@b.com'',
       CallCreate (alice\<lparr>user_events := [UserCreatedEvent ''a@b.com'' ''A'']\<rparr>)],
      [(''user.created'', ''u1'', UserCreatedEvent ''a@b.com'' ''A'')])"
    by (simp add: UserService_Create_def g0 nu cr pe)
  have g: "userRepo_GetByEmail memUserRepo ''a@b.com'' [alice] = Inr (Some alice)"
    by (simp add: memUserRepo_def alice_def)
  have second: "UserService_Create memUserRepo ''u2'' testClock ''a@b.com'' ''B'' [] [alice] =
     (Inl (DomainErr ErrUserEmailTaken), [alice], [CallGetByEmail ''a@b.com''], [])"
    using create_user_email_taken [OF g, of "''u2''" testClock "''B''" "[]"]
    by (rule conjunct1)
  from first second show ?thesis ..
qed
section \<open>Cache invalidation by the decorator\<close>

lemma Cache_healthy:
  assumes "cache_faults c = []"
  shows "Cache_Set k v ttl c = (None, c\<lparr>cache_entries := (cache_entries c)(k \<mapsto> v)\<rparr>)"
    and "Cache_Delete k c = (None, c\<lparr>cache_entries := (cache_entries c)(k := None)\<rparr>)"
    and "Cache_GetUser k c =
           (case cache_entries c k of
              Some (CachedUser user) \<Rightarrow> (Inr user, c)
            | Some (CachedString _) \<Rightarrow> (Inl (OtherErr ''cannot decode value''), c)
            | None \<Rightarrow> (Inl (OtherErr ''cache miss''), c))"
  using assms by (simp_all add: Cache_Set_def Cache_Delete_def Cache_GetUser_def Cache_nextFault_def)

lemma cacheUser_healthy:
  assumes "cache_faults c = []"
  shows "cacheUser (Some u) c =
           c\<lparr>cache_entries := (cache_entries c)
               (userCacheKey (user_ID u) \<mapsto> CachedUser u,
                emailCacheKey (user_Email u) \<mapsto> CachedString (user_ID u))\<rparr>"
  using assms by (simp add: cacheUser_def Cache_healthy)

lemma invalidate_healthy:
  assumes "cache_faults c = []"
  shows "invalidateUserCache uid c = c\<lparr>cache_entries := (cache_entries c)(userCacheKey uid := None)\<rparr>"
    and "invalidateEmailCache email c =
           c\<lparr>cache_entries := (cache_entries c)(emailCacheKey email := None)\<rparr>"
  using assms by (simp_all add: invalidateUserCache_def invalidateEmailCache_def Cache_healthy)

lemma userCacheKey_inj: "userCacheKey a = userCacheKey b \<longleftrightarrow> a = b"
  by (simp add: userCacheKey_def)

lemma emailCacheKey_inj: "emailCacheKey a = emailCacheKey b \<longleftrightarrow> a = b"
  by (simp add: emailCacheKey_def)

lemma user_email_key_clash:
  "userCacheKey uid = emailCacheKey email \<longleftrightarrow> uid = ''email:'' @ email"
  "emailCacheKey email = userCacheKey uid \<longleftrightarrow> uid = ''email:'' @ email"
  by (auto simp: userCacheKey_def emailCacheKey_def userCacheKeyPrefix_def
        userEmailCacheKeyPrefix_def)

lemma invalidated_entries:
  "cache_faults (invalidated uid cur c) = cache_faults c"
  "cache_entries (invalidated uid cur c) (userCacheKey uid) = None"
  "cur = Some cu \<Longrightarrow> cache_entries (invalidated uid cur c) (emailCacheKey (user_Email cu)) = None"
  by (simp_all add: invalidated_def split: option.splits)

lemma CachedUserService_Update_healthy:
  assumes "cache_faults c = []"
    and "svc_Get D uid d = (r0, d1)"
    and "svc_Update D uid name d1 = (Inr (Some u), d2)"
  shows "CachedUserService_Update D uid name d c =
           (Inr (Some u), d2, cacheUser (Some u) (invalidated uid (currentUserOf r0) c))"
  using assms
  by (cases "currentUserOf r0")
     (simp_all add: CachedUserService_Update_def invalidated_def invalidate_healthy)

lemma CachedUserService_Delete_healthy:
  assumes "cache_faults c = []"
    and "svc_Get D uid d = (r0, d1)"
    and "svc_Delete D uid d1 = (None, d2)"
  shows "CachedUserService_Delete D uid d c = (None, d2, invalidated uid (currentUserOf r0) c)"
  using assms
  by (cases "currentUserOf r0")
     (simp_all add: CachedUserService_Delete_def invalidated_def invalidate_healthy)

lemma CachedUserService_write_failed:
  "svc_Get D uid d = (r0, d1) \<Longrightarrow> svc_Update D uid name d1 = (Inl err, d2) \<Longrightarrow>
     CachedUserService_Update D uid name d c = (Inl err, d2, c)"
  "svc_Get D uid d = (r0, d1) \<Longrightarrow> svc_Delete D uid d1 = (Some err, d2) \<Longrightarrow>
     CachedUserService_Delete D uid d c = (Some err, d2, c)"
  by (simp_all add: CachedUserService_Update_def CachedUserService_Delete_def)

lemma CachedUserService_Get_healthy:
  assumes "cache_faults c = []"
  shows "fst (CachedUserService_Get D uid d c) =
           (case cache_entries c (userCacheKey uid) of
              Some (CachedUser user) \<Rightarrow> Inr (Some user)
            | _ \<Rightarrow> fst (svc_Get D uid d))"
  using assms
  by (auto simp: CachedUserService_Get_def Cache_healthy
        split: option.splits CacheValue.splits prod.splits sum.splits)

lemma updated_entries_at:
  assumes "cache_faults c = []"
  shows "cache_faults (cacheUser (Some u) (invalidated uid cur c)) = []"
    and "cache_entries (cacheUser (Some u) (invalidated uid cur c)) k =
           (if k = emailCacheKey (user_Email u) then Some (CachedString (user_ID u))
            else if k = userCacheKey (user_ID u) then Some (CachedUser u)
            else cache_entries (invalidated uid cur c) k)"
proof -
  have h: "cache_faults (invalidated uid cur c) = []"
    using assms(1) by (simp add: invalidated_entries)
  show "cache_faults (cacheUser (Some u) (invalidated uid cur c)) = []"
    by (simp add: cacheUser_healthy [OF h] h)
  show "cache_entries (cacheUser (Some u) (invalidated uid cur c)) k =
           (if k = emailCacheKey (user_Email u) then Some (CachedString (user_ID u))
            else if k = userCacheKey (user_ID u) then Some (CachedUser u)
            else cache_entries (invalidated uid cur c) k)"
    by (simp add: cacheUser_healthy [OF h])
qed

lemma updated_entries:
  assumes "cache_faults c = []"
  shows "cache_entries (cacheUser (Some u) (invalidated uid cur c)) (userCacheKey uid) =
           (if uid = ''email:'' @ user_Email u then Some (CachedString (user_ID u))
            else if user_ID u = uid then Some (CachedUser u) else None)"
    and "cache_entries (cacheUser (Some u) (invalidated uid (Some cu) c))
             (emailCacheKey (user_Email cu)) =
           (if user_Email u = user_Email cu then Some (CachedString (user_ID u))
            else if user_ID u = ''email:'' @ user_Email cu then Some (CachedUser u) else None)"
  by (auto simp: updated_entries_at [OF assms] invalidated_entries user_email_key_clash
        userCacheKey_inj emailCacheKey_inj)

lemma memUserService_Get_alice:
  "svc_Get memUserService ''u1'' [alice] = (Inr (Some alice), [alice])"
  by (simp add: memUserService_def userServiceDelegate_def UserService_Get_def memUserRepo_def
        alice_def)

lemma memUserService_Get_alicia:
  "svc_Get memUserService ''u1'' [alicia] = (Inr (Some alicia), [alicia])"
  by (simp add: memUserService_def userServiceDelegate_def UserService_Get_def memUserRepo_def
        alicia_def alice_def)

lemma memUserService_Update_alice:
  "svc_Update memUserService ''u1'' ''Alicia'' [alice] = (Inr (Some alicia), [alicia])"
  by (simp add: memUserService_def userServiceDelegate_def UserService_Update_def
        memUserRepo_def User_Update_def User_recordEvent_def User_Events_def alicia_def
        alice_def)

text \<open>
  C8 as stated fails when the cache operations fail: the decorator logs the failed
  delete and set and still reports success. Here the cache holds \<open>alice\<close> under the key
  of user \<open>u1\<close> and its next four operations fail; the update of the name succeeds in
  the delegate, the cache entry is still the user before the update, and the next \<open>Get\<close>
  returns her from the cache.
\<close>

theorem cached_update_stale_counterexample:
  "CachedUserService_Update memUserService ''u1'' ''Alicia'' [alice] failingCache =
     (Inr (Some alicia), [alicia], warmCache) \<and>
   cache_entries warmCache (userCacheKey ''u1'') = Some (CachedUser alice) \<and>
   fst (CachedUserService_Get memUserService ''u1'' [alicia] warmCache) = Inr (Some alice) \<and>
   alice \<noteq> alicia"
proof -
  have ops: "Cache_Delete k (warmCache\<lparr>cache_faults := True # fs\<rparr>) =
      (Some (OtherErr ''cache delete failed''), warmCache\<lparr>cache_faults := fs\<rparr>)"
    "Cache_Set k v ttl (warmCache\<lparr>cache_faults := True # fs\<rparr>) =
      (Some (OtherErr ''cache set failed''), warmCache\<lparr>cache_faults := fs\<rparr>)" for k v ttl fs
    by (simp_all add: Cache_Delete_def Cache_Set_def Cache_nextFault_def)
  have w: "warmCache\<lparr>cache_faults := []\<rparr> = warmCache"
    by (simp add: warmCache_def)
  have upd: "CachedUserService_Update memUserService ''u1'' ''Alicia'' [alice] failingCache =
      (Inr (Some alicia), [alicia], warmCache)"
    by (simp add: CachedUserService_Update_def memUserService_Get_alice
          memUserService_Update_alice currentUserOf_def invalidateUserCache_def
          invalidateEmailCache_def cacheUser_def failingCache_def ops w)
  have e: "cache_entries warmCache (userCacheKey ''u1'') = Some (CachedUser alice)"
    by (simp add: warmCache_def user_email_key_clash)
  have g: "fst (CachedUserService_Get memUserService ''u1'' [alicia] warmCache)
      = Inr (Some alice)"
    using CachedUserService_Get_healthy [of warmCache memUserService "''u1''" "[alicia]"]
    by (simp add: e) (simp add: warmCache_def)
  have n: "alice \<noteq> alicia"
    by (simp add: alicia_def alice_def)
  from upd e g n show ?thesis by simp
qed

text \<open>
  C8, amended. Provided no cache operation fails: after the decorator's \<open>Update\<close>
  succeeds, the cache entry of the user key of \<open>uid\<close> is absent or was written from the
  user that the delegate's update returned (it is that user whenever the returned user
  has the ID \<open>uid\<close> and the key does not clash with the email key), the entry of the
  email key of the user found before the update is absent or was written from the
  returned user, and a following \<open>Get\<close> returns the updated user or what the delegate
  returns. After \<open>Delete\<close> succeeds both entries are absent and a following \<open>Get\<close>
  returns what the delegate returns. When the delegate fails, the error is returned and
  the cache is left as it was, with or without failing cache operations.
\<close>

theorem cached_write_invalidates:
  assumes "cache_faults c = []"
    and "svc_Get D uid d = (r0, d1)"
  shows "(\<forall>u d2. svc_Update D uid name d1 = (Inr (Some u), d2) \<longrightarrow>
           (\<exists>c'. CachedUserService_Update D uid name d c = (Inr (Some u), d2, c') \<and>
              cache_entries c' (userCacheKey uid)
                \<in> {None, Some (CachedUser u), Some (CachedString (user_ID u))} \<and>
              (user_ID u = uid \<and> uid \<noteq> ''email:'' @ user_Email u \<longrightarrow>
                 cache_entries c' (userCacheKey uid) = Some (CachedUser u) \<and>
                 fst (CachedUserService_Get D uid d2 c') = Inr (Some u)) \<and>
              (\<forall>cu. currentUserOf r0 = Some cu \<longrightarrow>
                 cache_entries c' (emailCacheKey (user_Email cu))
                   \<in> {None, Some (CachedString (user_ID u)), Some (CachedUser u)}) \<and>
              fst (CachedUserService_Get D uid d2 c') \<in> {Inr (Some u), fst (svc_Get D uid d2)})) \<and>
         (\<forall>d2. svc_Delete D uid d1 = (None, d2) \<longrightarrow>
           (\<exists>c'. CachedUserService_Delete D uid d c = (None, d2, c') \<and>
              cache_entries c' (userCacheKey uid) = None \<and>
              (\<forall>cu. currentUserOf r0 = Some cu \<longrightarrow>
                 cache_entries c' (emailCacheKey (user_Email cu)) = None) \<and>
              fst (CachedUserService_Get D uid d2 c') = fst (svc_Get D uid d2))) \<and>
         (\<forall>err d2 c0. svc_Update D uid name d1 = (Inl err, d2) \<longrightarrow>
            CachedUserService_Update D uid name d c0 = (Inl err, d2, c0)) \<and>
         (\<forall>err d2 c0. svc_Delete D uid d1 = (Some err, d2) \<longrightarrow>
            CachedUserService_Delete D uid d c0 = (Some err, d2, c0))"
proof (intro conjI allI impI)
  fix u d2
  assume upd: "svc_Update D uid name d1 = (Inr (Some u), d2)"
  let ?c' = "cacheUser (Some u) (invalidated uid (currentUserOf r0) c)"
  have run: "CachedUserService_Update D uid name d c = (Inr (Some u), d2, ?c')"
    by (rule CachedUserService_Update_healthy [OF assms upd])
  have h: "cache_faults ?c' = []"
    by (rule updated_entries_at [OF assms(1)])
  have e: "cache_entries ?c' (userCacheKey uid) =
      (if uid = ''email:'' @ user_Email u then Some (CachedString (user_ID u))
       else if user_ID u = uid then Some (CachedUser u) else None)"
    by (rule updated_entries [OF assms(1)])
  have g: "fst (CachedUserService_Get D uid d2 ?c') =
      (case cache_entries ?c' (userCacheKey uid) of
         Some (CachedUser user) \<Rightarrow> Inr (Some user)
       | _ \<Rightarrow> fst (svc_Get D uid d2))"
    by (rule CachedUserService_Get_healthy [OF h])
  have m: "\<forall>cu. currentUserOf r0 = Some cu \<longrightarrow>
      cache_entries ?c' (emailCacheKey (user_Email cu))
        \<in> {None, Some (CachedString (user_ID u)), Some (CachedUser u)}"
    by (auto simp: updated_entries(2) [OF assms(1)])
  show "\<exists>c'. CachedUserService_Update D uid name d c = (Inr (Some u), d2, c') \<and>
      cache_entries c' (userCacheKey uid)
        \<in> {None, Some (CachedUser u), Some (CachedString (user_ID u))} \<and>
      (user_ID u = uid \<and> uid \<noteq> ''email:'' @ user_Email u \<longrightarrow>
         cache_entries c' (userCacheKey uid) = Some (CachedUser u) \<and>
         fst (CachedUserService_Get D uid d2 c') = Inr (Some u)) \<and>
      (\<forall>cu. currentUserOf r0 = Some cu \<longrightarrow>
         cache_entries c' (emailCacheKey (user_Email cu))
           \<in> {None, Some (CachedString (user_ID u)), Some (CachedUser u)}) \<and>
      fst (CachedUserService_Get D uid d2 c') \<in> {Inr (Some u), fst (svc_Get D uid d2)}"
    apply (rule exI [of _ ?c'])
    apply (intro conjI)
        apply (rule run)
       apply (simp add: e)
      apply (simp add: g e)
     apply (rule m)
    apply (simp add: g e)
    done
next
  fix d2
  assume del: "svc_Delete D uid d1 = (None, d2)"
  let ?c' = "invalidated uid (currentUserOf r0) c"
  have run: "CachedUserService_Delete D uid d c = (None, d2, ?c')"
    by (rule CachedUserService_Delete_healthy [OF assms del])
  have h: "cache_faults ?c' = []"
    using assms(1) by (simp add: invalidated_entries)
  have g: "fst (CachedUserService_Get D uid d2 ?c') = fst (svc_Get D uid d2)"
    by (simp add: CachedUserService_Get_healthy [OF h] invalidated_entries)
  show "\<exists>c'. CachedUserService_Delete D uid d c = (None, d2, c') \<and>
      cache_entries c' (userCacheKey uid) = None \<and>
      (\<forall>cu. currentUserOf r0 = Some cu \<longrightarrow>
         cache_entries c' (emailCacheKey (user_Email cu)) = None) \<and>
      fst (CachedUserService_Get D uid d2 c') = fst (svc_Get D uid d2)"
    apply (rule exI [of _ ?c'])
    apply (simp add: run g invalidated_entries)
    done
next
  fix err d2 c0
  assume "svc_Update D uid name d1 = (Inl err, d2)"
  then show "CachedUserService_Update D uid name d c0 = (Inl err, d2, c0)"
    by (rule CachedUserService_write_failed(1) [OF assms(2)])
next
  fix err d2 c0
  assume "svc_Delete D uid d1 = (Some err, d2)"
  then show "CachedUserService_Delete D uid d c0 = (Some err, d2, c0)"
    by (rule CachedUserService_write_failed(2) [OF assms(2)])
qed

text \<open>
  The theorem at the working cache that holds \<open>alice\<close>: after the update of her name the
  entry of her key is the updated user, and \<open>Get\<close> returns the updated user.
\<close>

theorem cached_write_invalidates_witness:
  "\<exists>c'. CachedUserService_Update memUserService ''u1'' ''Alicia'' [alice] warmCache =
          (Inr (Some alicia), [alicia], c') \<and>
        cache_entries c' (userCacheKey ''u1'') = Some (CachedUser alicia) \<and>
        fst (CachedUserService_Get memUserService ''u1'' [alicia] c') = Inr (Some alicia)"
proof -
  have h: "cache_faults warmCache = []"
    by (simp add: warmCache_def)
  have i: "user_ID alicia = ''u1'' \<and> ''u1'' \<noteq> ''email:'' @ user_Email alicia"
    by (simp add: alicia_def alice_def)
  from cached_write_invalidates [OF h memUserService_Get_alice, of "''Alicia''"]
    memUserService_Update_alice i
  show ?thesis
    by blast
qed
section \<open>Pagination arguments\<close>

lemma list_input_validate:
  "ListOrdersInput_Validate i =
     (None, \<lparr>lo_Offset = clampedOffset (lo_Offset i), lo_Limit = clampedLimit (lo_Limit i)\<rparr>)"
  "ListProductsInput_Validate j =
     (None, \<lparr>lp_Offset = clampedOffset (lp_Offset j), lp_Limit = clampedLimit (lp_Limit j)\<rparr>)"
  "ListUsersInput_Validate k =
     (None, \<lparr>lu_Offset = clampedOffset (lu_Offset k), lu_Limit = clampedLimit (lu_Limit k)\<rparr>)"
  by (simp_all add: ListOrdersInput_Validate_def ListProductsInput_Validate_def
        ListUsersInput_Validate_def clampedOffset_def clampedLimit_def Let_def)

lemma clamped_arguments:
  "sint offset < 0 \<Longrightarrow> clampedOffset offset = 0"
  "0 \<le> sint offset \<Longrightarrow> clampedOffset offset = offset"
  "sint limit \<le> 0 \<Longrightarrow> clampedLimit limit = 10"
  "0 < sint limit \<Longrightarrow> clampedLimit limit = limit"
  by (simp_all add: clampedOffset_def clampedLimit_def)

text \<open>
  The list use cases of the application layer call the service they hold with the
  clamped arguments.
\<close>

lemma list_use_cases:
  "ListOrdersUseCase_Execute list i st =
     (case list (clampedOffset (lo_Offset i)) (clampedLimit (lo_Limit i)) st of
        Inl err \<Rightarrow> Inl err
      | Inr (orders, count) \<Rightarrow>
          Inr \<lparr>out_Orders = map toOrderOutput orders, out_OrdersTotal = count\<rparr>)"
  "(\<exists>f. ListProductsUseCase_Execute plist j pst =
     (case plist (clampedOffset (lp_Offset j)) (clampedLimit (lp_Limit j)) pst of
        Inl err \<Rightarrow> Inl err
      | Inr (products, count) \<Rightarrow>
          Inr \<lparr>out_Products = map f products, out_ProductsTotal = count\<rparr>))"
  "(\<exists>f. ListUsersUseCase_Execute ulist k ust =
     (case ulist (clampedOffset (lu_Offset k)) (clampedLimit (lu_Limit k)) ust of
        Inl err \<Rightarrow> Inl err
      | Inr (users, count) \<Rightarrow> Inr \<lparr>out_Users = map f users, out_UsersTotal = count\<rparr>))"
  by (auto simp: ListOrdersUseCase_Execute_def ListProductsUseCase_Execute_def
        ListUsersUseCase_Execute_def list_input_validate)

text \<open>
  The list handlers call the service with the integers read from the query string, and
  the \<open>List\<close> of each domain service calls the repository with the arguments it is given.
\<close>

lemma list_handlers:
  "ListOrders Atoi list query st =
     (case list (fst (Atoi (DefaultQuery query ''offset'' ''0'')))
             (fst (Atoi (DefaultQuery query ''limit'' ''10''))) st of
        Inl err \<Rightarrow> Inl err
      | Inr (orders, count) \<Rightarrow> Inr (map toOrderResp orders, count))"
  "ListProducts Atoi plist query pst =
     (case plist (fst (Atoi (DefaultQuery query ''offset'' ''0'')))
             (fst (Atoi (DefaultQuery query ''limit'' ''10''))) pst of
        Inl err \<Rightarrow> Inl err
      | Inr (products, count) \<Rightarrow> Inr (map toProductResp products, count))"
  "ListUsers Atoi ulist query ust =
     (case ulist (fst (Atoi (DefaultQuery query ''offset'' ''0'')))
             (fst (Atoi (DefaultQuery query ''limit'' ''10''))) ust of
        Inl err \<Rightarrow> Inl err
      | Inr (users, count) \<Rightarrow> Inr (map toUserResp users, count))"
  by (simp_all add: ListOrders_def ListProducts_def ListUsers_def Let_def)

lemma service_lists:
  "OrderService_List R offset limit s = orderRepo_List R offset limit s"
  "ProductService_List P offset limit ps = productRepo_List P offset limit ps"
  "UserService_List U offset limit us = userRepo_List U offset limit us"
  by (simp_all add: OrderService_List_def ProductService_List_def UserService_List_def)

lemma atoi_page:
  "decimalAtoi ''-5'' = (- 5, None)" "decimalAtoi ''0'' = (0, None)"
  "decimalAtoi ''10'' = (10, None)"
  by (simp_all add: decimalAtoi_def digitValue_def)

lemma page_query:
  "DefaultQuery pageQuery ''offset'' ''0'' = ''-5''"
  "DefaultQuery pageQuery ''limit'' ''10'' = ''0''"
  "DefaultQuery noQuery ''offset'' ''0'' = ''0''"
  "DefaultQuery noQuery ''limit'' ''10'' = ''10''"
  by (simp_all add: DefaultQuery_def pageQuery_def noQuery_def)

lemma mem_pages:
  "orderRepo_List memOrderRepo (- 5) 0 [orderWith OrderStatusPending] = Inr ([], 1)"
  "orderRepo_List memOrderRepo 0 10 [orderWith OrderStatusPending] =
     Inr ([orderWith OrderStatusPending], 1)"
  by (simp_all add: memOrderRepo_def)

text \<open>
  C9 does not hold of the program as it runs. The clamping is written in the code, in
  the \<open>Validate\<close> of the three list inputs, which the list use cases run before they
  call the service; but the \<open>List\<close> of each domain service hands its arguments to the
  repository as they are, and the HTTP handlers, which call the services directly, hand
  them the integers read from the query string. At the query \<open>offset=-5&limit=0\<close> each
  of the three handlers calls \<open>List\<close> with -5 and 0, and each service calls the
  repository with -5 and 0. Over the in-memory repository holding one order the handler
  returns an empty page, where the query without arguments (0 and 10) returns the stored
  order, and so does the list use case on the same offset and limit, whose \<open>Validate\<close>
  makes them 0 and 10.
\<close>

theorem list_handlers_unclamped:
  "ListOrders decimalAtoi list pageQuery st =
     (case list (- 5) 0 st of
        Inl err \<Rightarrow> Inl err
      | Inr (orders, count) \<Rightarrow> Inr (map toOrderResp orders, count)) \<and>
   ListProducts decimalAtoi plist pageQuery pst =
     (case plist (- 5) 0 pst of
        Inl err \<Rightarrow> Inl err
      | Inr (products, count) \<Rightarrow> Inr (map toProductResp products, count)) \<and>
   ListUsers decimalAtoi ulist pageQuery ust =
     (case ulist (- 5) 0 ust of
        Inl err \<Rightarrow> Inl err
      | Inr (users, count) \<Rightarrow> Inr (map toUserResp users, count)) \<and>
   OrderService_List R (- 5) 0 s = orderRepo_List R (- 5) 0 s \<and>
   ProductService_List P (- 5) 0 ps = productRepo_List P (- 5) 0 ps \<and>
   UserService_List U (- 5) 0 us = userRepo_List U (- 5) 0 us \<and>
   ListOrders decimalAtoi (OrderService_List memOrderRepo) pageQuery
       [orderWith OrderStatusPending] = Inr ([], 1) \<and>
   ListOrders decimalAtoi (OrderService_List memOrderRepo) noQuery
       [orderWith OrderStatusPending] = Inr ([toOrderResp (orderWith OrderStatusPending)], 1) \<and>
   ListOrdersInput_Validate \<lparr>lo_Offset = - 5, lo_Limit = 0\<rparr> =
     (None, \<lparr>lo_Offset = 0, lo_Limit = 10\<rparr>) \<and>
   ListProductsInput_Validate \<lparr>lp_Offset = - 5, lp_Limit = 0\<rparr> =
     (None, \<lparr>lp_Offset = 0, lp_Limit = 10\<rparr>) \<and>
   ListUsersInput_Validate \<lparr>lu_Offset = - 5, lu_Limit = 0\<rparr> =
     (None, \<lparr>lu_Offset = 0, lu_Limit = 10\<rparr>) \<and>
   ListOrdersUseCase_Execute (OrderService_List memOrderRepo)
       \<lparr>lo_Offset = - 5, lo_Limit = 0\<rparr> [orderWith OrderStatusPending] =
     Inr \<lparr>out_Orders = [toOrderOutput (orderWith OrderStatusPending)], out_OrdersTotal = 1\<rparr>"
proof -
  have h: "ListOrders decimalAtoi list pageQuery st =
     (case list (- 5) 0 st of
        Inl err \<Rightarrow> Inl err
      | Inr (orders, count) \<Rightarrow> Inr (map toOrderResp orders, count))"
    "ListProducts decimalAtoi plist pageQuery pst =
     (case plist (- 5) 0 pst of
        Inl err \<Rightarrow> Inl err
      | Inr (products, count) \<Rightarrow> Inr (map toProductResp products, count))"
    "ListUsers decimalAtoi ulist pageQuery ust =
     (case ulist (- 5) 0 ust of
        Inl err \<Rightarrow> Inl err
      | Inr (users, count) \<Rightarrow> Inr (map toUserResp users, count))"
    by (simp_all add: list_handlers page_query atoi_page)
  have m: "ListOrders decimalAtoi (OrderService_List memOrderRepo) pageQuery
       [orderWith OrderStatusPending] = Inr ([], 1)"
    "ListOrders decimalAtoi (OrderService_List memOrderRepo) noQuery
       [orderWith OrderStatusPending] = Inr ([toOrderResp (orderWith OrderStatusPending)], 1)"
    by (simp_all add: list_handlers page_query atoi_page service_lists mem_pages)
  have v: "ListOrdersInput_Validate \<lparr>lo_Offset = - 5, lo_Limit = 0\<rparr> =
     (None, \<lparr>lo_Offset = 0, lo_Limit = 10\<rparr>)"
    "ListProductsInput_Validate \<lparr>lp_Offset = - 5, lp_Limit = 0\<rparr> =
     (None, \<lparr>lp_Offset = 0, lp_Limit = 10\<rparr>)"
    "ListUsersInput_Validate \<lparr>lu_Offset = - 5, lu_Limit = 0\<rparr> =
     (None, \<lparr>lu_Offset = 0, lu_Limit = 10\<rparr>)"
    by (simp_all add: ListOrdersInput_Validate_def ListProductsInput_Validate_def
          ListUsersInput_Validate_def)
  have u: "ListOrdersUseCase_Execute (OrderService_List memOrderRepo)
       \<lparr>lo_Offset = - 5, lo_Limit = 0\<rparr> [orderWith OrderStatusPending] =
     Inr \<lparr>out_Orders = [toOrderOutput (orderWith OrderStatusPending)], out_OrdersTotal = 1\<rparr>"
    by (simp add: ListOrdersUseCase_Execute_def v service_lists mem_pages)
  show ?thesis
    by (simp only: h m v u service_lists simp_thms)
qed

section \<open>What the order factory validates\<close>

lemma order_validation_codes:
  "Code ErrOrderUserRequired = CodeValidationError"
  "Code ErrOrderItemsRequired = CodeValidationError"
  by (simp_all add: ErrOrderUserRequired_def ErrOrderItemsRequired_def NewDomainError_def)

lemma assignItemIDs_length:
  "length (assignItemIDs uuid clock orderID i items) = length items"
  by (induction items arbitrary: i) simp_all

lemma assignItemIDs_keeps_fields:
  "map (\<lambda>item. (item_ProductID item, item_Quantity item, item_Price item))
       (assignItemIDs uuid clock orderID i items)
     = map (\<lambda>item. (item_ProductID item, item_Quantity item, item_Price item)) items"
  by (induction items arbitrary: i) simp_all

lemma NewOrder_cases:
  "NewOrder F uuid clock userID items =
     (if userID = [] then Inl (DomainErr ErrOrderUserRequired)
      else if items = [] then Inl (DomainErr ErrOrderItemsRequired)
      else Inr \<lparr>order_ID = uuid 0, order_UserID = userID,
                order_Items = assignItemIDs uuid clock (uuid 0) 0 items,
                order_Total = itemsSum F (assignItemIDs uuid clock (uuid 0) 0 items),
                order_Status = OrderStatusPending, order_CreatedAt = clock 0,
                order_UpdatedAt = clock 1, order_DeletedAt = None,
                order_events = [OrderCreatedEvent userID (word_of_nat (length items))
                   (itemsSum F (assignItemIDs uuid clock (uuid 0) 0 items))]\<rparr>)"
  by (simp add: NewOrder_def Let_def Order_Validate_def Order_calculateTotal_def
        Order_recordEvent_def itemsSum_def calculateTotal_loop_foldl assignItemIDs_length)

lemma validateItems_None:
  "validateItems F inputs = None \<Longrightarrow>
     \<forall>item \<in> set inputs. in_ProductID item \<noteq> [] \<and> 0 < sint (in_Quantity item)
        \<and> \<not> fle F (in_Price item) (fzero F)"
  by (induction inputs) (auto split: if_splits)

lemma items_quantity_price:
  assumes "\<forall>item \<in> set items. P (item_Quantity item) (item_Price item)"
  shows "\<forall>item \<in> set (assignItemIDs uuid clock orderID i items).
           P (item_Quantity item) (item_Price item)"
  using assms by (induction items arbitrary: i) simp_all

lemma free_order:
  "NewOrder exact_ops testUuid testClock ''u1'' [freeItem] =
     Inr \<lparr>order_ID = ''o1'', order_UserID = ''u1'',
          order_Items = [freeItem\<lparr>item_ID := ''i1'', item_OrderID := ''o1'', item_CreatedAt := 2\<rparr>],
          order_Total = 0, order_Status = OrderStatusPending, order_CreatedAt = 0,
          order_UpdatedAt = 1, order_DeletedAt = None,
          order_events = [OrderCreatedEvent ''u1'' 1 0]\<rparr>"
  by (simp add: NewOrder_cases itemsSum_def exact_ops_def testUuid_def testClock_def
        freeItem_def newWidgetItem_def)

lemma free_create:
  "OrderService_Create exact_ops memOrderRepo memUserRepo testUuid testClock ''u1'' [freeItem]
       [alice] [] =
     (Inr \<lparr>order_ID = ''o1'', order_UserID = ''u1'',
          order_Items = [freeItem\<lparr>item_ID := ''i1'', item_OrderID := ''o1'', item_CreatedAt := 2\<rparr>],
          order_Total = 0, order_Status = OrderStatusPending, order_CreatedAt = 0,
          order_UpdatedAt = 1, order_DeletedAt = None,
          order_events = [OrderCreatedEvent ''u1'' 1 0]\<rparr>,
      [\<lparr>order_ID = ''o1'', order_UserID = ''u1'',
          order_Items = [freeItem\<lparr>item_ID := ''i1'', item_OrderID := ''o1'', item_CreatedAt := 2\<rparr>],
          order_Total = 0, order_Status = OrderStatusPending, order_CreatedAt = 0,
          order_UpdatedAt = 1, order_DeletedAt = None, order_events = []\<rparr>],
      [(''order.created'', ''o1'', OrderCreatedEvent ''u1'' 1 0)])"
proof -
  have g: "userRepo_GetByID memUserRepo ''u1'' [alice] = Inr (Some alice)"
    by (simp add: memUserRepo_def alice_def)
  show ?thesis
    unfolding OrderService_Create_def g free_order
    by (simp add: memOrderRepo_def OrderService_publishEvents_def Order_Events_def)
qed

lemma nan_validate: "CreateOrderInput_Validate nan_ops nanInput = None"
  by (simp add: CreateOrderInput_Validate_def nanInput_def nan_ops_def)

lemma nan_order:
  "NewOrder nan_ops testUuid testClock ''u1'' (CreateOrderUseCase_items nanInput) =
     Inr \<lparr>order_ID = ''o1'', order_UserID = ''u1'',
          order_Items = [\<lparr>item_ID = ''i1'', item_OrderID = ''o1'', item_ProductID = ''p1'',
                          item_Quantity = 3, item_Price = None, item_CreatedAt = 2\<rparr>],
          order_Total = None, order_Status = OrderStatusPending, order_CreatedAt = 0,
          order_UpdatedAt = 1, order_DeletedAt = None,
          order_events = [OrderCreatedEvent ''u1'' 1 None]\<rparr>"
  by (simp add: NewOrder_cases itemsSum_def nan_ops_def testUuid_def testClock_def
        nanInput_def CreateOrderUseCase_items_def)

lemma nan_comparisons:
  "\<not> fle nan_ops None (fzero nan_ops)" "\<not> fle nan_ops (fzero nan_ops) None"
  by (simp_all add: nan_ops_def)

lemma free_item_facts:
  "\<not> 0 < sint (item_Quantity freeItem)" "fle exact_ops (item_Price freeItem) (fzero exact_ops)"
  by (simp_all add: freeItem_def newWidgetItem_def exact_ops_def)

lemma OrderService_Create_Inr:
  assumes "OrderService_Create F R U uuid clock userID items us s = (Inr created, s', evs)"
  shows "\<exists>ord. NewOrder F uuid clock userID items = Inr ord \<and>
           orderRepo_Create R ord s = (Inr created, s')"
  using assms unfolding OrderService_Create_def
  by (auto split: sum.splits option.splits prod.splits)

lemma OrderService_Create_Inl:
  assumes "userRepo_GetByID U userID us = Inr (Some user)"
    and "NewOrder F uuid clock userID items = Inl err"
  shows "OrderService_Create F R U uuid clock userID items us s = (Inl err, s, [])"
  unfolding OrderService_Create_def using assms by simp

lemma CreateOrder_items_fields:
  "map (\<lambda>item. (item_ProductID item, item_Quantity item, item_Price item)) (CreateOrder_items req)
     = map (\<lambda>item. (req_item_ProductID item, req_item_Quantity item, req_item_Price item))
         (req_Items req)"
  by (simp add: CreateOrder_items_def comp_def)

text \<open>
  C6 as stated fails: \<open>NewOrder\<close> checks the user ID and that there is an item, and not
  the items themselves. An order with one item of quantity 0 and price 0 is built, and
  \<open>OrderService.Create\<close> stores it and publishes its event. The check of the
  application layer, \<open>CreateOrderInput.Validate\<close>, refuses a price that is \<open><= 0\<close>; a
  price that is not a number is neither \<open><= 0\<close> nor \<open>>= 0\<close>, so it is accepted and the
  order is built with it.
\<close>

theorem new_order_unchecked_item_counterexample:
  "NewOrder exact_ops testUuid testClock ''u1'' [freeItem] =
     Inr \<lparr>order_ID = ''o1'', order_UserID = ''u1'',
          order_Items = [freeItem\<lparr>item_ID := ''i1'', item_OrderID := ''o1'', item_CreatedAt := 2\<rparr>],
          order_Total = 0, order_Status = OrderStatusPending, order_CreatedAt = 0,
          order_UpdatedAt = 1, order_DeletedAt = None,
          order_events = [OrderCreatedEvent ''u1'' 1 0]\<rparr> \<and>
   \<not> 0 < sint (item_Quantity freeItem) \<and>
   fle exact_ops (item_Price freeItem) (fzero exact_ops) \<and>
   OrderService_Create exact_ops memOrderRepo memUserRepo testUuid testClock ''u1'' [freeItem]
       [alice] [] =
     (Inr \<lparr>order_ID = ''o1'', order_UserID = ''u1'',
          order_Items = [freeItem\<lparr>item_ID := ''i1'', item_OrderID := ''o1'', item_CreatedAt := 2\<rparr>],
          order_Total = 0, order_Status = OrderStatusPending, order_CreatedAt = 0,
          order_UpdatedAt = 1, order_DeletedAt = None,
          order_events = [OrderCreatedEvent ''u1'' 1 0]\<rparr>,
      [\<lparr>order_ID = ''o1'', order_UserID = ''u1'',
          order_Items = [freeItem\<lparr>item_ID := ''i1'', item_OrderID := ''o1'', item_CreatedAt := 2\<rparr>],
          order_Total = 0, order_Status = OrderStatusPending, order_CreatedAt = 0,
          order_UpdatedAt = 1, order_DeletedAt = None, order_events = []\<rparr>],
      [(''order.created'', ''o1'', OrderCreatedEvent ''u1'' 1 0)]) \<and>
   CreateOrderInput_Validate nan_ops nanInput = None \<and>
   NewOrder nan_ops testUuid testClock ''u1'' (CreateOrderUseCase_items nanInput) =
     Inr \<lparr>order_ID = ''o1'', order_UserID = ''u1'',
          order_Items = [\<lparr>item_ID = ''i1'', item_OrderID = ''o1'', item_ProductID = ''p1'',
                          item_Quantity = 3, item_Price = None, item_CreatedAt = 2\<rparr>],
          order_Total = None, order_Status = OrderStatusPending, order_CreatedAt = 0,
          order_UpdatedAt = 1, order_DeletedAt = None,
          order_events = [OrderCreatedEvent ''u1'' 1 None]\<rparr> \<and>
   \<not> fle nan_ops None (fzero nan_ops) \<and>
   \<not> fle nan_ops (fzero nan_ops) None"
  by (intro conjI free_order free_create free_item_facts nan_validate nan_order nan_comparisons)

text \<open>
  C6, amended. Every order that \<open>NewOrder\<close> returns has a user ID that is not empty and
  at least one item, and its items are the given ones with their product, quantity and
  price; with an empty user ID or no item \<open>NewOrder\<close> returns a validation error and no
  order. \<open>OrderService.Create\<close> adds no check of its own: the order it stores is the one
  \<open>NewOrder\<close> built from its arguments, and an error of \<open>NewOrder\<close> is returned with
  the store as it was. The quantity and the price of an item are checked before the
  factory, at the boundary. \<open>CreateOrderInput.Validate\<close> of the application layer
  refuses an item whose quantity is \<open><= 0\<close> or whose price is \<open><= 0\<close> in Go's
  comparison of \<open>float64\<close>: for an input it accepts, \<open>NewOrder\<close> on the items of the
  use case returns an order all of whose items have a quantity above 0 and a price that
  is not \<open><= 0\<close>, the use case calls the service with exactly these items, and for an
  input it refuses the use case returns the error without calling the service. The HTTP
  handler \<open>CreateOrder\<close> calls the service with the user ID and the items (product,
  quantity, price) of the request as the binding returned it, and does not call it when
  the binding fails.
\<close>

theorem new_order_validated:
  "(NewOrder F uuid clock userID items = Inr ord \<longrightarrow>
      userID \<noteq> [] \<and> order_UserID ord = userID \<and> order_Items ord \<noteq> [] \<and>
      map (\<lambda>item. (item_ProductID item, item_Quantity item, item_Price item)) (order_Items ord)
        = map (\<lambda>item. (item_ProductID item, item_Quantity item, item_Price item)) items) \<and>
   (userID = [] \<or> items = [] \<longrightarrow>
      (\<exists>e. NewOrder F uuid clock userID items = Inl (DomainErr e) \<and> Code e = CodeValidationError)) \<and>
   (CreateOrderInput_Validate F input = None \<longrightarrow>
      (\<exists>ord'. NewOrder F uuid clock (in_UserID input) (CreateOrderUseCase_items input) = Inr ord' \<and>
         (\<forall>item \<in> set (order_Items ord').
            0 < sint (item_Quantity item) \<and> \<not> fle F (item_Price item) (fzero F))) \<and>
      CreateOrderUseCase_Execute F create input st =
        (case create (in_UserID input) (CreateOrderUseCase_items input) st of
           (Inl err, st') \<Rightarrow> (Inl err, st')
         | (Inr created, st') \<Rightarrow> (Inr (toOrderOutput created), st'))) \<and>
   (\<forall>err. CreateOrderInput_Validate F input = Some err \<longrightarrow>
      CreateOrderUseCase_Execute F create input st = (Inl err, st)) \<and>
   (\<forall>stored s' published.
      OrderService_Create F R U uuid clock userID items us s = (Inr stored, s', published) \<longrightarrow>
      (\<exists>built. NewOrder F uuid clock userID items = Inr built \<and>
         orderRepo_Create R built s = (Inr stored, s'))) \<and>
   (\<forall>err user. userRepo_GetByID U userID us = Inr (Some user) \<and>
        NewOrder F uuid clock userID items = Inl err \<longrightarrow>
      OrderService_Create F R U uuid clock userID items us s = (Inl err, s, [])) \<and>
   (\<forall>req. ShouldBindJSON body = Inr req \<longrightarrow>
      CreateOrder ShouldBindJSON hcreate body hst =
        (case hcreate (req_UserID req) (CreateOrder_items req) hst of
           (Inl err, st') \<Rightarrow> (Inl err, st')
         | (Inr created, st') \<Rightarrow> (Inr (toOrderResp created), st')) \<and>
      map (\<lambda>item. (item_ProductID item, item_Quantity item, item_Price item))
          (CreateOrder_items req)
        = map (\<lambda>item. (req_item_ProductID item, req_item_Quantity item, req_item_Price item))
            (req_Items req)) \<and>
   (\<forall>err. ShouldBindJSON body = Inl err \<longrightarrow>
      CreateOrder ShouldBindJSON hcreate body hst = (Inl err, hst))"
proof (intro conjI impI allI)
  assume a: "NewOrder F uuid clock userID items = Inr ord"
  then have u: "userID \<noteq> []" and i: "items \<noteq> []"
    by (auto simp: NewOrder_cases split: if_splits)
  from a u i have o: "order_UserID ord = userID"
    "order_Items ord = assignItemIDs uuid clock (uuid 0) 0 items"
    by (auto simp: NewOrder_cases)
  have n: "order_Items ord \<noteq> []"
    using i assignItemIDs_length [of uuid clock "uuid 0" 0 items] o(2) by auto
  show "userID \<noteq> []" by (rule u)
  show "order_UserID ord = userID" by (rule o)
  show "order_Items ord \<noteq> []" by (rule n)
  show "map (\<lambda>item. (item_ProductID item, item_Quantity item, item_Price item)) (order_Items ord)
      = map (\<lambda>item. (item_ProductID item, item_Quantity item, item_Price item)) items"
    by (simp add: o assignItemIDs_keeps_fields)
next
  assume "userID = [] \<or> items = []"
  then show "\<exists>e. NewOrder F uuid clock userID items = Inl (DomainErr e)
      \<and> Code e = CodeValidationError"
    by (auto simp: NewOrder_cases order_validation_codes)
next
  assume v: "CreateOrderInput_Validate F input = None"
  then have u: "in_UserID input \<noteq> []" and i: "in_Items input \<noteq> []"
    and w: "validateItems F (in_Items input) = None"
    by (auto simp: CreateOrderInput_Validate_def split: if_splits)
  let ?items = "CreateOrderUseCase_items input"
  have ne: "?items \<noteq> []"
    using i by (simp add: CreateOrderUseCase_items_def)
  have q: "\<forall>item \<in> set ?items. 0 < sint (item_Quantity item)
      \<and> \<not> fle F (item_Price item) (fzero F)"
    using validateItems_None [OF w] by (simp add: CreateOrderUseCase_items_def)
  have q': "\<forall>item \<in> set (assignItemIDs uuid clock (uuid 0) 0 ?items).
      0 < sint (item_Quantity item) \<and> \<not> fle F (item_Price item) (fzero F)"
    by (rule items_quantity_price [OF q])
  show "\<exists>ord'. NewOrder F uuid clock (in_UserID input) ?items = Inr ord' \<and>
      (\<forall>item \<in> set (order_Items ord').
         0 < sint (item_Quantity item) \<and> \<not> fle F (item_Price item) (fzero F))"
    using u ne q' by (simp add: NewOrder_cases)
  show "CreateOrderUseCase_Execute F create input st =
      (case create (in_UserID input) ?items st of
         (Inl err, st') \<Rightarrow> (Inl err, st')
       | (Inr created, st') \<Rightarrow> (Inr (toOrderOutput created), st'))"
    by (simp add: CreateOrderUseCase_Execute_def v)
next
  fix err
  assume "CreateOrderInput_Validate F input = Some err"
  then show "CreateOrderUseCase_Execute F create input st = (Inl err, st)"
    by (simp add: CreateOrderUseCase_Execute_def)
next
  fix stored s' published
  assume "OrderService_Create F R U uuid clock userID items us s = (Inr stored, s', published)"
  then show "\<exists>built. NewOrder F uuid clock userID items = Inr built \<and>
      orderRepo_Create R built s = (Inr stored, s')"
    by (rule OrderService_Create_Inr)
next
  fix err user
  assume "userRepo_GetByID U userID us = Inr (Some user) \<and>
      NewOrder F uuid clock userID items = Inl err"
  then have g: "userRepo_GetByID U userID us = Inr (Some user)"
    and n: "NewOrder F uuid clock userID items = Inl err"
    by simp_all
  show "OrderService_Create F R U uuid clock userID items us s = (Inl err, s, [])"
    by (rule OrderService_Create_Inl [OF g n])
next
  fix req
  assume b: "ShouldBindJSON body = Inr req"
  show "CreateOrder ShouldBindJSON hcreate body hst =
      (case hcreate (req_UserID req) (CreateOrder_items req) hst of
         (Inl err, st') \<Rightarrow> (Inl err, st')
       | (Inr created, st') \<Rightarrow> (Inr (toOrderResp created), st'))"
    by (simp add: CreateOrder_def b)
  show "map (\<lambda>item. (item_ProductID item, item_Quantity item, item_Price item))
        (CreateOrder_items req)
      = map (\<lambda>item. (req_item_ProductID item, req_item_Quantity item, req_item_Price item))
          (req_Items req)"
    by (rule CreateOrder_items_fields)
next
  fix err
  assume "ShouldBindJSON body = Inl err"
  then show "CreateOrder ShouldBindJSON hcreate body hst = (Inl err, hst)"
    by (simp add: CreateOrder_def)
qed

lemma widget_req_order:
  "NewOrder exact_ops testUuid testClock ''u1'' (CreateOrder_items widgetReq) =
     Inr \<lparr>order_ID = ''o1'', order_UserID = ''u1'',
          order_Items = [\<lparr>item_ID = ''i1'', item_OrderID = ''o1'', item_ProductID = ''p1'',
                          item_Quantity = 3, item_Price = 999 / 100, item_CreatedAt = 2\<rparr>],
          order_Total = 2997 / 100, order_Status = OrderStatusPending, order_CreatedAt = 0,
          order_UpdatedAt = 1, order_DeletedAt = None,
          order_events = [OrderCreatedEvent ''u1'' 1 (2997 / 100)]\<rparr>"
  by (simp add: NewOrder_cases itemsSum_def exact_ops_def testUuid_def testClock_def
        widgetReq_def CreateOrder_items_def)

lemma widget_req_create:
  "memCreate ''u1'' (CreateOrder_items widgetReq) [] =
     (Inr \<lparr>order_ID = ''o1'', order_UserID = ''u1'',
          order_Items = [\<lparr>item_ID = ''i1'', item_OrderID = ''o1'', item_ProductID = ''p1'',
                          item_Quantity = 3, item_Price = 999 / 100, item_CreatedAt = 2\<rparr>],
          order_Total = 2997 / 100, order_Status = OrderStatusPending, order_CreatedAt = 0,
          order_UpdatedAt = 1, order_DeletedAt = None,
          order_events = [OrderCreatedEvent ''u1'' 1 (2997 / 100)]\<rparr>,
      [\<lparr>order_ID = ''o1'', order_UserID = ''u1'',
          order_Items = [\<lparr>item_ID = ''i1'', item_OrderID = ''o1'', item_ProductID = ''p1'',
                          item_Quantity = 3, item_Price = 999 / 100, item_CreatedAt = 2\<rparr>],
          order_Total = 2997 / 100, order_Status = OrderStatusPending, order_CreatedAt = 0,
          order_UpdatedAt = 1, order_DeletedAt = None, order_events = []\<rparr>])"
proof -
  have g: "userRepo_GetByID memUserRepo ''u1'' [alice] = Inr (Some alice)"
    by (simp add: memUserRepo_def alice_def)
  show ?thesis
    unfolding memCreate_def OrderService_Create_def g widget_req_order
    by (simp add: memOrderRepo_def)
qed

text \<open>
  Scenario 2 of the specification: the input with one item of quantity 3 and price 9.99 is
  accepted, and the order built from it has the total 29.97 and the status pending. The
  handler, on a binding that returns the request with this item, answers with that order.
\<close>

theorem new_order_validated_witness:
  "CreateOrderInput_Validate exact_ops widgetInput = None \<and>
   (\<exists>ord'. NewOrder exact_ops testUuid testClock ''u1'' (CreateOrderUseCase_items widgetInput)
              = Inr ord' \<and>
      order_Total ord' = 2997 / 100 \<and> order_Status ord' = OrderStatusPending \<and>
      (\<forall>item \<in> set (order_Items ord').
         0 < sint (item_Quantity item) \<and> \<not> fle exact_ops (item_Price item) (fzero exact_ops))) \<and>
   fst (CreateOrder Inr memCreate widgetReq []) =
     Inr \<lparr>resp_ID = ''o1'', resp_UserID = ''u1'',
          resp_Items = [\<lparr>resp_item_ID = ''i1'', resp_item_ProductID = ''p1'',
                          resp_item_Quantity = 3, resp_item_Price = 999 / 100\<rparr>],
          resp_Total = 2997 / 100, resp_Status = OrderStatusPending, resp_CreatedAt = 0,
          resp_UpdatedAt = 1\<rparr>"
proof -
  have v: "CreateOrderInput_Validate exact_ops widgetInput = None"
    by (simp add: CreateOrderInput_Validate_def widgetInput_def exact_ops_def)
  have u: "in_UserID widgetInput = ''u1''"
    by (simp add: widgetInput_def)
  note t = new_order_validated [where F = exact_ops and input = widgetInput
      and uuid = testUuid and clock = testClock, THEN conjunct2, THEN conjunct2,
      THEN conjunct1, rule_format, OF v, THEN conjunct1]
  then obtain ord' where o: "NewOrder exact_ops testUuid testClock ''u1''
        (CreateOrderUseCase_items widgetInput) = Inr ord'"
    and q: "\<forall>item \<in> set (order_Items ord').
         0 < sint (item_Quantity item) \<and> \<not> fle exact_ops (item_Price item) (fzero exact_ops)"
    unfolding u by blast
  from o have "order_Total ord' = 2997 / 100 \<and> order_Status ord' = OrderStatusPending"
    by (auto simp: NewOrder_cases CreateOrderUseCase_items_def widgetInput_def itemsSum_def
          exact_ops_def)
  with v o q have first: "CreateOrderInput_Validate exact_ops widgetInput = None \<and>
     (\<exists>ord'. NewOrder exact_ops testUuid testClock ''u1'' (CreateOrderUseCase_items widgetInput)
              = Inr ord' \<and>
      order_Total ord' = 2997 / 100 \<and> order_Status ord' = OrderStatusPending \<and>
      (\<forall>item \<in> set (order_Items ord').
         0 < sint (item_Quantity item) \<and> \<not> fle exact_ops (item_Price item) (fzero exact_ops)))"
    by blast
  note h = new_order_validated [where ShouldBindJSON = Inr and body = widgetReq
      and hcreate = memCreate and hst = "[]", THEN conjunct2, THEN conjunct2, THEN conjunct2,
      THEN conjunct2, THEN conjunct2, THEN conjunct2, THEN conjunct1, rule_format, OF refl,
      THEN conjunct1]
  have r: "req_UserID widgetReq = ''u1''"
    by (simp add: widgetReq_def)
  have second: "fst (CreateOrder Inr memCreate widgetReq []) =
     Inr \<lparr>resp_ID = ''o1'', resp_UserID = ''u1'',
          resp_Items = [\<lparr>resp_item_ID = ''i1'', resp_item_ProductID = ''p1'',
                          resp_item_Quantity = 3, resp_item_Price = 999 / 100\<rparr>],
          resp_Total = 2997 / 100, resp_Status = OrderStatusPending, resp_CreatedAt = 0,
          resp_UpdatedAt = 1\<rparr>"
    unfolding h r widget_req_create by (simp add: toOrderResp_def)
  from first second show ?thesis by (simp only: conj_assoc simp_thms)
qed

section \<open>The contract of the mutators\<close>

lemma mutator_error_codes:
  "Code ErrOrderInvalidStatus = CodeInvalidState"
  "Code ErrOrderAlreadyCancelled = CodeInvalidState"
  "Code ErrProductNameRequired = CodeValidationError"
  "Code ErrProductPriceInvalid = CodeValidationError"
  "Code ErrProductStockNegative = CodeValidationError"
  "Code ErrUserNameRequired = CodeValidationError"
  by (simp_all add: ErrOrderInvalidStatus_def ErrOrderAlreadyCancelled_def
        ErrProductNameRequired_def ErrProductPriceInvalid_def ErrProductStockNegative_def
        ErrUserNameRequired_def NewDomainError_def)

lemma order_mutators_contract:
  "orderContract ord (ord\<lparr>order_Status := OrderStatusConfirmed, order_UpdatedAt := now\<rparr>)
     (OrderStatusChangedEvent (order_ID ord) (order_Status ord) OrderStatusConfirmed)
     (Order_Confirm now ord)"
  "orderContract ord (ord\<lparr>order_Status := OrderStatusShipped, order_UpdatedAt := now\<rparr>)
     (OrderStatusChangedEvent (order_ID ord) (order_Status ord) OrderStatusShipped)
     (Order_Ship now ord)"
  "orderContract ord (ord\<lparr>order_Status := OrderStatusDelivered, order_UpdatedAt := now\<rparr>)
     (OrderStatusChangedEvent (order_ID ord) (order_Status ord) OrderStatusDelivered)
     (Order_Deliver now ord)"
  "orderContract ord (ord\<lparr>order_Status := OrderStatusCancelled, order_UpdatedAt := now\<rparr>)
     (OrderCancelledEvent (order_ID ord) (order_Status ord))
     (Order_Cancel now ord)"
  by (simp_all add: orderContract_def mutatorContract_def Order_Confirm_def Order_Ship_def
        Order_Deliver_def Order_Cancel_def Order_recordEvent_def Order_Validate_def
        mutator_error_codes)

lemma product_mutators_contract:
  "productContract F p
     (p\<lparr>product_Name := name, product_Description := description, product_Price := price,
        product_UpdatedAt := now\<rparr>)
     (ProductUpdatedEvent (product_ID p) name price)
     (Product_Update F now name description price p)"
  "productContract F p
     (p\<lparr>product_Stock := product_Stock p + quantity, product_UpdatedAt := now\<rparr>)
     (StockUpdatedEvent (product_ID p) (product_Stock p) (product_Stock p + quantity) quantity)
     (Product_UpdateStock now quantity p)"
  "productContract F p (p\<lparr>product_DeletedAt := Some now\<rparr>)
     (ProductDeletedEvent (product_ID p)) (None, Product_MarkDeleted now p)"
  by (simp_all add: productContract_def mutatorContract_def Product_Update_def
        Product_UpdateStock_def Product_MarkDeleted_def Product_recordEvent_def
        Product_Validate_def Let_def mutator_error_codes)

lemma user_mutators_contract:
  "userContract u (u\<lparr>user_Name := name, user_UpdatedAt := now\<rparr>)
     (UserUpdatedEvent (user_ID u) name) (User_Update now name u)"
  "userContract u (u\<lparr>user_DeletedAt := Some now\<rparr>)
     (UserDeletedEvent (user_ID u)) (None, User_MarkDeleted now u)"
  by (simp_all add: userContract_def mutatorContract_def User_Update_def User_MarkDeleted_def
        User_recordEvent_def User_Validate_def mutator_error_codes)

lemma sint_sub_in_range:
  fixes a b :: go_int
  assumes "0 \<le> sint b" and "sint b \<le> sint a"
  shows "sint (a - b) = sint a - sint b"
proof -
  have "sint a < 2 ^ 63"
    using sint_lt [of a] by simp
  with assms have "- (2 ^ 63) \<le> sint a - sint b" "sint a - sint b < 2 ^ 63"
    by simp_all
  then show ?thesis
    by (simp add: sint_word_diff signed_take_bit_int_eq_self)
qed

lemma alice_valid: "User_Validate alice = None"
  using email_a_b_com by (simp add: User_Validate_def alice_def del: MatchString.simps)

lemma widget_valid: "Product_Validate exact_ops widget = None"
  by (simp add: Product_Validate_def widget_def exact_ops_def)

text \<open>
  C5 as stated fails for the two mutators that record no event, and one of them can
  leave an aggregate that violates its invariants. \<open>ReserveStock\<close> of 2 on a stock of 5
  takes the stock to 3 and appends nothing to the pending events, so the contract fails
  whatever event is taken to describe the change (here a stock-updated event from 5 to
  3). \<open>UpdatePassword\<close> with the empty password stores it, appends no event, and leaves
  a user that \<open>Validate\<close> refuses. \<open>ReserveStock\<close> of the least 64-bit quantity on the
  valid product with stock 5 succeeds, the subtraction wraps around, and the product it
  leaves has a negative stock, which \<open>Validate\<close> refuses.
\<close>

theorem mutator_without_event_counterexample:
  "Product_ReserveStock 7 2 widget =
     (None, widget\<lparr>product_Stock := 3, product_UpdatedAt := 7\<rparr>) \<and>
   product_events (widget\<lparr>product_Stock := 3, product_UpdatedAt := 7\<rparr>) = product_events widget \<and>
   \<not> productContract exact_ops widget (widget\<lparr>product_Stock := 3, product_UpdatedAt := 7\<rparr>)
       (StockUpdatedEvent ''p1'' 5 3 (- 2)) (Product_ReserveStock 7 2 widget) \<and>
   User_UpdatePassword 7 [] alice = alice\<lparr>user_Password := [], user_UpdatedAt := 7\<rparr> \<and>
   user_events (User_UpdatePassword 7 [] alice) = user_events alice \<and>
   User_Validate alice = None \<and>
   User_Validate (User_UpdatePassword 7 [] alice) = Some (DomainErr ErrUserPasswordRequired) \<and>
   Product_Validate exact_ops widget = None \<and>
   fst (Product_ReserveStock 7 (- 9223372036854775808) widget) = None \<and>
   sint (product_Stock (snd (Product_ReserveStock 7 (- 9223372036854775808) widget))) =
     - 9223372036854775803 \<and>
   Product_Validate exact_ops (snd (Product_ReserveStock 7 (- 9223372036854775808) widget)) =
     Some (DomainErr ErrProductStockNegative)"
proof -
  have r: "Product_ReserveStock 7 2 widget =
      (None, widget\<lparr>product_Stock := 3, product_UpdatedAt := 7\<rparr>)"
    by (simp add: Product_ReserveStock_def widget_def)
  have v: "User_Validate (User_UpdatePassword 7 [] alice) = Some (DomainErr ErrUserPasswordRequired)"
    using email_a_b_com
    by (simp add: User_Validate_def User_UpdatePassword_def alice_def del: MatchString.simps)
  have e: "product_events widget = []" "user_events alice = []"
    "user_events (User_UpdatePassword 7 [] alice) = []"
    by (simp_all add: widget_def alice_def User_UpdatePassword_def)
  have n: "\<not> productContract exact_ops widget (widget\<lparr>product_Stock := 3, product_UpdatedAt := 7\<rparr>)
       (StockUpdatedEvent ''p1'' 5 3 (- 2)) (Product_ReserveStock 7 2 widget)"
  proof
    assume "productContract exact_ops widget (widget\<lparr>product_Stock := 3, product_UpdatedAt := 7\<rparr>)
       (StockUpdatedEvent ''p1'' 5 3 (- 2)) (Product_ReserveStock 7 2 widget)"
    then have "widget\<lparr>product_Stock := 3, product_UpdatedAt := 7\<rparr> =
        (widget\<lparr>product_Stock := 3, product_UpdatedAt := 7\<rparr>)
          \<lparr>product_events := product_events widget @ [StockUpdatedEvent ''p1'' 5 3 (- 2)]\<rparr>"
      unfolding r productContract_def mutatorContract_def by simp
    then have "product_events (widget\<lparr>product_Stock := 3, product_UpdatedAt := 7\<rparr>) =
        product_events ((widget\<lparr>product_Stock := 3, product_UpdatedAt := 7\<rparr>)
          \<lparr>product_events := product_events widget @ [StockUpdatedEvent ''p1'' 5 3 (- 2)]\<rparr>)"
      by (rule arg_cong)
    then show False by (simp add: widget_def)
  qed
  have o1: "fst (Product_ReserveStock 7 (- 9223372036854775808) widget) = None"
    by (simp add: Product_ReserveStock_def widget_def)
  have o2: "sint (product_Stock (snd (Product_ReserveStock 7 (- 9223372036854775808) widget))) =
      - 9223372036854775803"
    by (simp add: Product_ReserveStock_def widget_def)
  have o3: "Product_Validate exact_ops (snd (Product_ReserveStock 7 (- 9223372036854775808) widget)) =
      Some (DomainErr ErrProductStockNegative)"
    by (simp add: Product_ReserveStock_def widget_def Product_Validate_def exact_ops_def)
  show ?thesis
    by (simp add: r v e n [unfolded r] o1 o2 o3 alice_valid widget_valid)
      (simp add: User_UpdatePassword_def)
qed

text \<open>
  C5, amended. Each mutator that records an event either fully applies its change and
  appends exactly one event describing it, and an aggregate that \<open>Validate\<close> accepts
  stays accepted, or leaves the aggregate as it was and returns an error with the code
  \<open>VALIDATION_ERROR\<close> or \<open>INVALID_STATE\<close>. The changes and their events are: Confirm,
  Ship and Deliver set the status and the update time and record the status change from
  the old status to the new one; Cancel sets the status canceled and records the
  cancellation with the old status; \<open>Product.Update\<close> sets name, description, price and
  the update time and records the update with the new name and price;
  \<open>Product.UpdateStock\<close> adds the quantity to the stock and records the old stock, the
  new stock and the change; \<open>User.Update\<close> sets the name and the update time and records
  the update with the new name; \<open>MarkDeleted\<close> of product and user sets the deletion
  time and records the deletion. \<open>Product.ReserveStock\<close> and \<open>User.UpdatePassword\<close>
  append no event: \<open>ReserveStock\<close> either returns \<open>ErrProductInsufficientStock\<close> and
  leaves the product as it was, or subtracts the quantity and sets the update time, and
  then a valid product stays valid when the quantity is not negative; \<open>UpdatePassword\<close>
  stores the password it is given and sets the update time, and a valid user stays valid
  when that password is not empty.
\<close>

theorem mutators_contract:
  "orderContract ord (ord\<lparr>order_Status := OrderStatusConfirmed, order_UpdatedAt := now\<rparr>)
     (OrderStatusChangedEvent (order_ID ord) (order_Status ord) OrderStatusConfirmed)
     (Order_Confirm now ord) \<and>
   orderContract ord (ord\<lparr>order_Status := OrderStatusShipped, order_UpdatedAt := now\<rparr>)
     (OrderStatusChangedEvent (order_ID ord) (order_Status ord) OrderStatusShipped)
     (Order_Ship now ord) \<and>
   orderContract ord (ord\<lparr>order_Status := OrderStatusDelivered, order_UpdatedAt := now\<rparr>)
     (OrderStatusChangedEvent (order_ID ord) (order_Status ord) OrderStatusDelivered)
     (Order_Deliver now ord) \<and>
   orderContract ord (ord\<lparr>order_Status := OrderStatusCancelled, order_UpdatedAt := now\<rparr>)
     (OrderCancelledEvent (order_ID ord) (order_Status ord))
     (Order_Cancel now ord) \<and>
   productContract F p
     (p\<lparr>product_Name := name, product_Description := description, product_Price := price,
        product_UpdatedAt := now\<rparr>)
     (ProductUpdatedEvent (product_ID p) name price)
     (Product_Update F now name description price p) \<and>
   productContract F p
     (p\<lparr>product_Stock := product_Stock p + quantity, product_UpdatedAt := now\<rparr>)
     (StockUpdatedEvent (product_ID p) (product_Stock p) (product_Stock p + quantity) quantity)
     (Product_UpdateStock now quantity p) \<and>
   productContract F p (p\<lparr>product_DeletedAt := Some now\<rparr>)
     (ProductDeletedEvent (product_ID p)) (None, Product_MarkDeleted now p) \<and>
   userContract u (u\<lparr>user_Name := name, user_UpdatedAt := now\<rparr>)
     (UserUpdatedEvent (user_ID u) name) (User_Update now name u) \<and>
   userContract u (u\<lparr>user_DeletedAt := Some now\<rparr>)
     (UserDeletedEvent (user_ID u)) (None, User_MarkDeleted now u) \<and>
   product_events (snd (Product_ReserveStock now quantity p)) = product_events p \<and>
   (sint (product_Stock p) < sint quantity \<longrightarrow>
      Product_ReserveStock now quantity p = (Some (DomainErr ErrProductInsufficientStock), p)) \<and>
   (sint quantity \<le> sint (product_Stock p) \<longrightarrow>
      Product_ReserveStock now quantity p =
        (None, p\<lparr>product_Stock := product_Stock p - quantity, product_UpdatedAt := now\<rparr>)) \<and>
   (0 \<le> sint quantity \<and> sint quantity \<le> sint (product_Stock p) \<and> Product_Validate F p = None \<longrightarrow>
      Product_Validate F (snd (Product_ReserveStock now quantity p)) = None) \<and>
   User_UpdatePassword now password u = u\<lparr>user_Password := password, user_UpdatedAt := now\<rparr> \<and>
   user_events (User_UpdatePassword now password u) = user_events u \<and>
   (password \<noteq> [] \<and> User_Validate u = None \<longrightarrow>
      User_Validate (User_UpdatePassword now password u) = None)"
proof -
  have keep: "product_events (snd (Product_ReserveStock now quantity p)) = product_events p"
    by (simp add: Product_ReserveStock_def)
  have refuse: "sint (product_Stock p) < sint quantity \<longrightarrow>
      Product_ReserveStock now quantity p = (Some (DomainErr ErrProductInsufficientStock), p)"
    by (simp add: Product_ReserveStock_def)
  have take: "sint quantity \<le> sint (product_Stock p) \<longrightarrow>
      Product_ReserveStock now quantity p =
        (None, p\<lparr>product_Stock := product_Stock p - quantity, product_UpdatedAt := now\<rparr>)"
    by (simp add: Product_ReserveStock_def)
  have valid: "0 \<le> sint quantity \<and> sint quantity \<le> sint (product_Stock p)
      \<and> Product_Validate F p = None \<longrightarrow>
      Product_Validate F (snd (Product_ReserveStock now quantity p)) = None"
    by (auto simp: Product_ReserveStock_def Product_Validate_def sint_sub_in_range
          split: if_splits)
  have pw: "User_UpdatePassword now password u = u\<lparr>user_Password := password, user_UpdatedAt := now\<rparr>"
    "user_events (User_UpdatePassword now password u) = user_events u"
    by (simp_all add: User_UpdatePassword_def)
  have pv: "password \<noteq> [] \<and> User_Validate u = None \<longrightarrow>
      User_Validate (User_UpdatePassword now password u) = None"
    by (auto simp: User_UpdatePassword_def User_Validate_def simp del: MatchString.simps
          split: if_splits)
  show ?thesis
    using keep refuse take valid pw pv
    by (simp only: order_mutators_contract product_mutators_contract user_mutators_contract
          simp_thms)
qed

text \<open>
  The contract at concrete aggregates: shipping a pending order is refused and leaves the
  order; confirming it sets the status and the update time and appends the one event of
  the change from pending to confirmed; adding 2 to the stock of the valid product takes
  the stock to 7, appends the one event with the stocks 5 and 7 and the change 2, and
  leaves a valid product.
\<close>

theorem mutators_contract_witness:
  "Order_Ship 5 (orderWith OrderStatusPending) =
     (Some (DomainErr ErrOrderInvalidStatus), orderWith OrderStatusPending) \<and>
   snd (Order_Confirm 5 (orderWith OrderStatusPending)) =
     (orderWith OrderStatusPending)
       \<lparr>order_Status := OrderStatusConfirmed, order_UpdatedAt := 5,
        order_events := [OrderStatusChangedEvent ''o1'' OrderStatusPending OrderStatusConfirmed]\<rparr> \<and>
   Product_Validate exact_ops widget = None \<and>
   snd (Product_UpdateStock 5 2 widget) =
     widget\<lparr>product_Stock := 7, product_UpdatedAt := 5,
            product_events := [StockUpdatedEvent ''p1'' 5 7 2]\<rparr> \<and>
   Product_Validate exact_ops (snd (Product_UpdateStock 5 2 widget)) = None"
proof -
  note t = mutators_contract [where ord = "orderWith OrderStatusPending" and now = 5
      and p = widget and quantity = 2 and F = exact_ops and u = alice and name = "''A''"
      and description = "[]" and price = 1 and password = "[]"]
  have s: "Order_Ship 5 (orderWith OrderStatusPending) =
      (Some (DomainErr ErrOrderInvalidStatus), orderWith OrderStatusPending)"
    by (simp add: Order_Ship_def orderWith_def status_neq)
  have c: "fst (Order_Confirm 5 (orderWith OrderStatusPending)) = None"
    by (simp add: Order_Confirm_def orderWith_def)
  have k: "fst (Product_UpdateStock 5 2 widget) = None"
    by (simp add: Product_UpdateStock_def widget_def)
  have f: "order_ID (orderWith OrderStatusPending) = ''o1''"
    "order_Status (orderWith OrderStatusPending) = OrderStatusPending"
    "order_events (orderWith OrderStatusPending) = []"
    "product_ID widget = ''p1''" "product_Stock widget = 5" "product_events widget = []"
    by (simp_all add: orderWith_def widget_def)
  from t [THEN conjunct1] c
  have e1: "snd (Order_Confirm 5 (orderWith OrderStatusPending)) =
     (orderWith OrderStatusPending)
       \<lparr>order_Status := OrderStatusConfirmed, order_UpdatedAt := 5,
        order_events := [OrderStatusChangedEvent ''o1'' OrderStatusPending OrderStatusConfirmed]\<rparr>"
    by (cases "Order_Confirm 5 (orderWith OrderStatusPending)")
      (simp add: orderContract_def mutatorContract_def f)
  from t [THEN conjunct2, THEN conjunct2, THEN conjunct2, THEN conjunct2, THEN conjunct2,
      THEN conjunct1] k widget_valid
  have e2: "snd (Product_UpdateStock 5 2 widget) =
     widget\<lparr>product_Stock := 7, product_UpdatedAt := 5,
            product_events := [StockUpdatedEvent ''p1'' 5 7 2]\<rparr> \<and>
     Product_Validate exact_ops (snd (Product_UpdateStock 5 2 widget)) = None"
    by (cases "Product_UpdateStock 5 2 widget")
      (simp add: productContract_def mutatorContract_def f)
  from s e1 widget_valid e2 show ?thesis by blast
qed

end
